theory Spec2Isabelle
  imports Main "HOL-Library.Multiset"
begin

unbundle bit_operations_syntax

section \<open>Python values and exceptions\<close>

text \<open>
  The dictionaries that \<^verbatim>\<open>to_dict\<close> builds and \<^verbatim>\<open>from_dict\<close> reads are
  JSON documents: \<^verbatim>\<open>None\<close>, booleans, integers, strings, lists and dictionaries
  with string keys. A dictionary is an association list in insertion order;
  a key is looked up with \<open>map_of\<close>. Floating-point numbers are left out.
\<close>

datatype pyval =
    PNone
  | PBool bool
  | PInt int
  | PStr string
  | PList "pyval list"
  | PDict "(string \<times> pyval) list"

text \<open>
  The exception classes the program raises or catches. \<open>FileNotFoundError\<close> and
  \<open>PermissionError\<close> are subclasses of \<open>OSError\<close>; every constructor is a subclass
  of \<^verbatim>\<open>Exception\<close>. \<open>MarkupError\<close> is what the console of \<^verbatim>\<open>rich\<close> raises for a text
  whose markup is broken. \<open>IllTyped\<close> is not a Python exception: the records below
  carry the types of the dataclass annotations, Python stores a decoded value
  of any other type unchecked, and \<open>IllTyped\<close> marks such a document as lying
  outside the typed model.
\<close>

datatype exn =
    KeyError
  | TypeError
  | AttributeError
  | ValueError
  | OSError
  | FileNotFoundError
  | PermissionError
  | JSONDecodeError
  | NoSuchProcess
  | AccessDenied
  | ZombieProcess
  | ConfigError
  | VirtualDesktopError
  | MarkupError
  | IllTyped
  | OtherException


text \<open>Sequencing of steps that may raise: the first exception ends the
  computation.\<close>

definition and_then :: "exn + 'a \<Rightarrow> ('a \<Rightarrow> exn + 'b) \<Rightarrow> exn + 'b" where
  "and_then m f = (case m of Inl e \<Rightarrow> Inl e | Inr a \<Rightarrow> f a)"

text \<open>\<^verbatim>\<open>data[key]\<close>: a value that is not a dictionary cannot be indexed by a string
  (\<open>TypeError\<close>), a dictionary without the key raises \<open>KeyError\<close>.\<close>

fun py_getitem :: "pyval \<Rightarrow> string \<Rightarrow> exn + pyval" where
  "py_getitem (PDict kvs) k = (case map_of kvs k of None \<Rightarrow> Inl KeyError | Some v \<Rightarrow> Inr v)"
| "py_getitem _ k = Inl TypeError"

text \<open>\<^verbatim>\<open>data.get(key, default)\<close>: only a dictionary has the method.\<close>

fun py_get :: "pyval \<Rightarrow> string \<Rightarrow> pyval \<Rightarrow> exn + pyval" where
  "py_get (PDict kvs) k d = (case map_of kvs k of None \<Rightarrow> Inr d | Some v \<Rightarrow> Inr v)"
| "py_get _ k d = Inl AttributeError"

text \<open>\<^verbatim>\<open>for item in value\<close>: a list yields its elements, a dictionary its keys, a
  string its characters; nothing else is iterable.\<close>

fun py_iter :: "pyval \<Rightarrow> exn + pyval list" where
  "py_iter (PList vs) = Inr vs"
| "py_iter (PDict kvs) = Inr (map (\<lambda>kv. PStr (fst kv)) kvs)"
| "py_iter (PStr s) = Inr (map (\<lambda>c. PStr [c]) s)"
| "py_iter _ = Inl TypeError"

text \<open>Reading a decoded value at the type of the field that receives it.\<close>

fun as_int :: "pyval \<Rightarrow> exn + int" where
  "as_int (PInt i) = Inr i"
| "as_int _ = Inl IllTyped"

fun as_str :: "pyval \<Rightarrow> exn + string" where
  "as_str (PStr s) = Inr s"
| "as_str _ = Inl IllTyped"

fun as_opt_str :: "pyval \<Rightarrow> exn + string option" where
  "as_opt_str PNone = Inr None"
| "as_opt_str (PStr s) = Inr (Some s)"
| "as_opt_str _ = Inl IllTyped"

fun as_str_list_items :: "pyval list \<Rightarrow> exn + string list" where
  "as_str_list_items [] = Inr []"
| "as_str_list_items (v # vs) =
     and_then (as_str v) (\<lambda>s. and_then (as_str_list_items vs) (\<lambda>ss. Inr (s # ss)))"

fun as_str_list :: "pyval \<Rightarrow> exn + string list" where
  "as_str_list (PList vs) = as_str_list_items vs"
| "as_str_list _ = Inl IllTyped"

section \<open>Data model (models.py)\<close>

text \<open>
  One record per dataclass. A field \<^verbatim>\<open>f\<close> of \<^verbatim>\<open>WindowConfig\<close>, \<^verbatim>\<open>AppInstance\<close>,
  \<^verbatim>\<open>Workspace\<close> and \<^verbatim>\<open>WorkspaceCollection\<close> is \<open>wc_f\<close>, \<open>ai_f\<close>, \<open>ws_f\<close> and
  \<open>wsc_f\<close>: the dataclasses share field names with each other and with HOL.
\<close>

record WindowConfig =
  wc_x :: int
  wc_y :: int
  wc_width :: int
  wc_height :: int

record AppInstance =
  ai_id :: string
  ai_exe :: string
  ai_args :: "string list"
  ai_working_dir :: "string option"
  ai_virtual_desktop :: int
  ai_window :: WindowConfig

record Workspace =
  ws_name :: string
  ws_description :: string
  ws_apps :: "AppInstance list"

record WorkspaceCollection =
  wsc_workspaces :: "Workspace list"

definition WindowConfig_to_dict :: "WindowConfig \<Rightarrow> pyval" where
  "WindowConfig_to_dict c =
     PDict [(''x'', PInt (wc_x c)), (''y'', PInt (wc_y c)),
            (''width'', PInt (wc_width c)), (''height'', PInt (wc_height c))]"

definition WindowConfig_from_dict :: "pyval \<Rightarrow> exn + WindowConfig" where
  "WindowConfig_from_dict data =
     and_then (py_get data ''x'' (PInt 0)) (\<lambda>vx.
     and_then (py_get data ''y'' (PInt 0)) (\<lambda>vy.
     and_then (py_get data ''width'' (PInt 800)) (\<lambda>vw.
     and_then (py_get data ''height'' (PInt 600)) (\<lambda>vh.
     and_then (as_int vx) (\<lambda>ix.
     and_then (as_int vy) (\<lambda>iy.
     and_then (as_int vw) (\<lambda>iw.
     and_then (as_int vh) (\<lambda>ih.
     Inr \<lparr>wc_x = ix, wc_y = iy, wc_width = iw, wc_height = ih\<rparr>))))))))"

definition AppInstance_to_dict :: "AppInstance \<Rightarrow> pyval" where
  "AppInstance_to_dict a =
     PDict [(''id'', PStr (ai_id a)),
            (''exe'', PStr (ai_exe a)),
            (''args'', PList (map PStr (ai_args a))),
            (''working_dir'', (case ai_working_dir a of None \<Rightarrow> PNone | Some d \<Rightarrow> PStr d)),
            (''virtual_desktop'', PInt (ai_virtual_desktop a)),
            (''window'', WindowConfig_to_dict (ai_window a))]"

definition AppInstance_from_dict :: "pyval \<Rightarrow> exn + AppInstance" where
  "AppInstance_from_dict data =
     and_then (py_getitem data ''id'') (\<lambda>vid.
     and_then (py_getitem data ''exe'') (\<lambda>vexe.
     and_then (py_get data ''args'' (PList [])) (\<lambda>vargs.
     and_then (py_get data ''working_dir'' PNone) (\<lambda>vwd.
     and_then (py_get data ''virtual_desktop'' (PInt 0)) (\<lambda>vvd.
     and_then (py_get data ''window'' (PDict [])) (\<lambda>vwin.
     and_then (WindowConfig_from_dict vwin) (\<lambda>win.
     and_then (as_str vid) (\<lambda>sid.
     and_then (as_str vexe) (\<lambda>sexe.
     and_then (as_str_list vargs) (\<lambda>sargs.
     and_then (as_opt_str vwd) (\<lambda>swd.
     and_then (as_int vvd) (\<lambda>ivd.
     Inr \<lparr>ai_id = sid, ai_exe = sexe, ai_args = sargs, ai_working_dir = swd,
          ai_virtual_desktop = ivd, ai_window = win\<rparr>))))))))))))"

text \<open>The list comprehension of \<^verbatim>\<open>Workspace.from_dict\<close>: the first element that
  raises ends it.\<close>

fun AppInstance_from_dicts :: "pyval list \<Rightarrow> exn + AppInstance list" where
  "AppInstance_from_dicts [] = Inr []"
| "AppInstance_from_dicts (v # vs) =
     and_then (AppInstance_from_dict v) (\<lambda>a.
     and_then (AppInstance_from_dicts vs) (\<lambda>as. Inr (a # as)))"

definition Workspace_to_dict :: "Workspace \<Rightarrow> pyval" where
  "Workspace_to_dict w =
     PDict [(''name'', PStr (ws_name w)),
            (''description'', PStr (ws_description w)),
            (''apps'', PList (map AppInstance_to_dict (ws_apps w)))]"

definition Workspace_from_dict :: "pyval \<Rightarrow> exn + Workspace" where
  "Workspace_from_dict data =
     and_then (py_getitem data ''name'') (\<lambda>vname.
     and_then (py_get data ''description'' (PStr [])) (\<lambda>vdesc.
     and_then (py_get data ''apps'' (PList [])) (\<lambda>vapps.
     and_then (py_iter vapps) (\<lambda>items.
     and_then (AppInstance_from_dicts items) (\<lambda>as.
     and_then (as_str vname) (\<lambda>sname.
     and_then (as_str vdesc) (\<lambda>sdesc.
     Inr \<lparr>ws_name = sname, ws_description = sdesc, ws_apps = as\<rparr>)))))))"

text \<open>\<^verbatim>\<open>max(app.virtual_desktop for app in self.apps) + 1\<close>, and 1 for no apps.\<close>

definition get_required_desktops :: "Workspace \<Rightarrow> int" where
  "get_required_desktops w =
     (case map ai_virtual_desktop (ws_apps w) of
        [] \<Rightarrow> 1
      | v # vs \<Rightarrow> fold max vs v + 1)"

fun Workspace_from_dicts :: "pyval list \<Rightarrow> exn + Workspace list" where
  "Workspace_from_dicts [] = Inr []"
| "Workspace_from_dicts (v # vs) =
     and_then (Workspace_from_dict v) (\<lambda>w.
     and_then (Workspace_from_dicts vs) (\<lambda>ws. Inr (w # ws)))"

definition WorkspaceCollection_to_dict :: "WorkspaceCollection \<Rightarrow> pyval" where
  "WorkspaceCollection_to_dict c =
     PDict [(''workspaces'', PList (map Workspace_to_dict (wsc_workspaces c)))]"

definition WorkspaceCollection_from_dict :: "pyval \<Rightarrow> exn + WorkspaceCollection" where
  "WorkspaceCollection_from_dict data =
     and_then (py_get data ''workspaces'' (PList [])) (\<lambda>vws.
     and_then (py_iter vws) (\<lambda>items.
     and_then (Workspace_from_dicts items) (\<lambda>ws.
     Inr \<lparr>wsc_workspaces = ws\<rparr>)))"

text \<open>The collection's methods mutate \<^verbatim>\<open>self.workspaces\<close>; the model returns the
  new collection (and the method's result where it has one).\<close>

definition collection_add_workspace :: "WorkspaceCollection \<Rightarrow> Workspace \<Rightarrow> WorkspaceCollection" where
  "collection_add_workspace c w = c\<lparr>wsc_workspaces := wsc_workspaces c @ [w]\<rparr>"

definition collection_remove_workspace :: "WorkspaceCollection \<Rightarrow> string \<Rightarrow> bool \<times> WorkspaceCollection" where
  "collection_remove_workspace c n =
     (let kept = filter (\<lambda>w. ws_name w \<noteq> n) (wsc_workspaces c)
      in (length kept < length (wsc_workspaces c), c\<lparr>wsc_workspaces := kept\<rparr>))"

definition collection_get_workspace :: "WorkspaceCollection \<Rightarrow> string \<Rightarrow> Workspace option" where
  "collection_get_workspace c n = find (\<lambda>w. ws_name w = n) (wsc_workspaces c)"

definition list_workspace_names :: "WorkspaceCollection \<Rightarrow> string list" where
  "list_workspace_names c = map ws_name (wsc_workspaces c)"

section \<open>Operating-system calls: state and exceptions\<close>

text \<open>
  Everything outside the program (windows, processes, virtual desktops, the
  clock) is a state of type \<open>'w\<close>. A call takes the state and returns the next
  one together with its result or the exception it raised. The logging calls
  of the source have no part in any result and are left out; what the
  launcher prints on the console is modelled with the launcher.
  \<^verbatim>\<open>KeyboardInterrupt\<close> and \<^verbatim>\<open>SystemExit\<close>, which \<^verbatim>\<open>except Exception\<close> does not
  catch, are not modelled.
\<close>

type_synonym ('w, 'a) io = "'w \<Rightarrow> (exn + 'a) \<times> 'w"

definition return_io :: "'a \<Rightarrow> ('w, 'a) io" where
  "return_io a = (\<lambda>w. (Inr a, w))"

definition raise_io :: "exn \<Rightarrow> ('w, 'a) io" where
  "raise_io e = (\<lambda>w. (Inl e, w))"

definition bind_io :: "('w, 'a) io \<Rightarrow> ('a \<Rightarrow> ('w, 'b) io) \<Rightarrow> ('w, 'b) io" where
  "bind_io m f = (\<lambda>w. case m w of (Inl e, w') \<Rightarrow> (Inl e, w') | (Inr a, w') \<Rightarrow> f a w')"

definition then_io :: "('w, 'a) io \<Rightarrow> ('w, 'b) io \<Rightarrow> ('w, 'b) io" where
  "then_io m n = bind_io m (\<lambda>_. n)"

text \<open>\<^verbatim>\<open>try: m  except Exception as e: h e\<close>.\<close>

definition try_except :: "('w, 'a) io \<Rightarrow> (exn \<Rightarrow> ('w, 'a) io) \<Rightarrow> ('w, 'a) io" where
  "try_except m h = (\<lambda>w. case m w of (Inl e, w') \<Rightarrow> h e w' | (Inr a, w') \<Rightarrow> (Inr a, w'))"

text \<open>\<^verbatim>\<open>try: m  except (A, B) as e: h e\<close>: an exception outside the listed classes
  passes through.\<close>

definition try_except_only :: "(exn \<Rightarrow> bool) \<Rightarrow> ('w, 'a) io \<Rightarrow> (exn \<Rightarrow> ('w, 'a) io) \<Rightarrow> ('w, 'a) io" where
  "try_except_only caught m h =
     (\<lambda>w. case m w of
        (Inl e, w') \<Rightarrow> (if caught e then h e w' else (Inl e, w'))
      | (Inr a, w') \<Rightarrow> (Inr a, w'))"

text \<open>A computation raises in a state when its result there is an exception.\<close>

definition raises :: "('w, 'a) io \<Rightarrow> 'w \<Rightarrow> bool" where
  "raises m w = (case fst (m w) of Inl e \<Rightarrow> True | Inr a \<Rightarrow> False)"

type_synonym hwnd = int
type_synonym rect = "int \<times> int \<times> int \<times> int"

text \<open>
  The modules the program calls, one record of operations each, named as in
  the source. Handles to library objects (\<^verbatim>\<open>pyvda.VirtualDesktop\<close>,
  \<^verbatim>\<open>pyvda.AppView\<close>, \<^verbatim>\<open>psutil.Process\<close>) are natural numbers. Of the list that
  \<^verbatim>\<open>pyvda.get_virtual_desktops()\<close> returns the program reads only the length,
  which is what the operation returns here.
\<close>

record 'w pyvda_module =
  get_virtual_desktops :: "('w, nat) io"
  VirtualDesktop_create :: "('w, nat) io"
  VirtualDesktop :: "int \<Rightarrow> ('w, nat) io"
  VirtualDesktop_current :: "('w, nat) io"
  VirtualDesktop_number :: "nat \<Rightarrow> ('w, int) io"
  VirtualDesktop_go :: "nat \<Rightarrow> ('w, unit) io"
  AppView :: "hwnd \<Rightarrow> ('w, nat) io"
  AppView_move :: "nat \<Rightarrow> nat \<Rightarrow> ('w, unit) io"
  AppView_desktop :: "nat \<Rightarrow> ('w, nat) io"
  AppView_pin :: "nat \<Rightarrow> ('w, unit) io"
  AppView_unpin :: "nat \<Rightarrow> ('w, unit) io"
  AppView_is_pinned :: "nat \<Rightarrow> ('w, bool) io"

text \<open>\<^verbatim>\<open>win32api\<close>: \<^verbatim>\<open>EnumDisplayMonitors\<close> calls the callback once per monitor;
  the operation returns the handle and rectangle of each call, and the
  exception that ended the enumeration, if one did.\<close>

record 'w win32api_module =
  keybd_event :: "int \<Rightarrow> int \<Rightarrow> int \<Rightarrow> int \<Rightarrow> ('w, unit) io"
  GetMonitorInfo :: "int \<Rightarrow> ('w, rect \<times> int \<times> string) io"
  EnumDisplayMonitors :: "'w \<Rightarrow> ((int \<times> rect) list \<times> exn option) \<times> 'w"

text \<open>\<^verbatim>\<open>time\<close>: a sleep takes its duration in milliseconds and only moves
  the state on. The wall clock is not modelled: for a polling loop with a
  deadline, \<open>polls_within\<close> gives the number of iterations that start before
  the deadline (a timeout in milliseconds), as the state at the start of the
  loop decides it.\<close>

record 'w time_module =
  sleep :: "nat \<Rightarrow> 'w \<Rightarrow> 'w"
  polls_within :: "nat \<Rightarrow> 'w \<Rightarrow> nat"

definition time_sleep :: "'w time_module \<Rightarrow> nat \<Rightarrow> ('w, unit) io" where
  "time_sleep tm ms = (\<lambda>w. (Inr (), sleep tm ms w))"

record 'w subprocess_module =
  Popen :: "string list + string \<Rightarrow> bool \<Rightarrow> int \<Rightarrow> string option \<Rightarrow> ('w, int) io"
  subprocess_run :: "string list \<Rightarrow> ('w, unit) io"

text \<open>The constants of \<^verbatim>\<open>win32con\<close> the program names.\<close>

definition VK_LWIN :: int where "VK_LWIN = 0x5B"
definition VK_CONTROL :: int where "VK_CONTROL = 0x11"
definition KEYEVENTF_KEYUP :: int where "KEYEVENTF_KEYUP = 0x2"

section \<open>Virtual desktops (virtual_desktops.py)\<close>

record VirtualDesktopManager =
  pyvda_available :: bool
  warned_about_pyvda :: bool

text \<open>\<^verbatim>\<open>__init__\<close>: the availability flag is the module constant
  \<^verbatim>\<open>PYVDA_AVAILABLE\<close>, set by whether the import of \<^verbatim>\<open>pyvda\<close> succeeded.\<close>

definition VirtualDesktopManager_init :: "bool \<Rightarrow> VirtualDesktopManager" where
  "VirtualDesktopManager_init PYVDA_AVAILABLE =
     \<lparr>pyvda_available = PYVDA_AVAILABLE, warned_about_pyvda = \<not> PYVDA_AVAILABLE\<rparr>"

definition get_desktop_count ::
  "'w pyvda_module \<Rightarrow> VirtualDesktopManager \<Rightarrow> ('w, int) io" where
  "get_desktop_count pyvda self =
     (if \<not> pyvda_available self then return_io 1
      else try_except
             (bind_io (get_virtual_desktops pyvda) (\<lambda>desktops. return_io (int desktops)))
             (\<lambda>e. raise_io VirtualDesktopError))"

text \<open>The keyboard fallback of \<^verbatim>\<open>create_desktop\<close>: Win+Ctrl+D.\<close>

definition send_win_ctrl_d :: "'w win32api_module \<Rightarrow> 'w time_module \<Rightarrow> ('w, unit) io" where
  "send_win_ctrl_d win32api tm =
     then_io (keybd_event win32api VK_LWIN 0 0 0) (then_io (time_sleep tm 50)
    (then_io (keybd_event win32api VK_CONTROL 0 0 0) (then_io (time_sleep tm 50)
    (then_io (keybd_event win32api 0x44 0 0 0) (then_io (time_sleep tm 50)
    (then_io (keybd_event win32api 0x44 0 KEYEVENTF_KEYUP 0) (then_io (time_sleep tm 50)
    (then_io (keybd_event win32api VK_CONTROL 0 KEYEVENTF_KEYUP 0) (then_io (time_sleep tm 50)
    (then_io (keybd_event win32api VK_LWIN 0 KEYEVENTF_KEYUP 0)
             (time_sleep tm 500)))))))))))"

definition create_desktop ::
  "'w pyvda_module \<Rightarrow> 'w win32api_module \<Rightarrow> 'w time_module \<Rightarrow> VirtualDesktopManager \<Rightarrow> ('w, bool) io" where
  "create_desktop pyvda win32api tm self =
     (if \<not> pyvda_available self then return_io False
      else try_except
             (bind_io (get_desktop_count pyvda self) (\<lambda>before_count.
              then_io (try_except
                         (then_io (VirtualDesktop_create pyvda) (time_sleep tm 300))
                         (\<lambda>create_error. send_win_ctrl_d win32api tm))
             (bind_io (get_desktop_count pyvda self) (\<lambda>after_count.
              return_io (after_count > before_count)))))
             (\<lambda>e. return_io False))"

text \<open>The loop of \<^verbatim>\<open>ensure_desktop_count\<close> over \<^verbatim>\<open>range(desktops_to_create)\<close>, by the
  number of desktops still to create: the result is whether every creation
  succeeded (the source returns \<^verbatim>\<open>False\<close> from inside the loop at the first
  failure), and the loop sleeps between creations, not after the last.\<close>

fun create_desktops ::
  "'w pyvda_module \<Rightarrow> 'w win32api_module \<Rightarrow> 'w time_module \<Rightarrow> VirtualDesktopManager \<Rightarrow> nat \<Rightarrow> ('w, bool) io" where
  "create_desktops pyvda win32api tm self 0 = return_io True"
| "create_desktops pyvda win32api tm self (Suc n) =
     bind_io (create_desktop pyvda win32api tm self) (\<lambda>created.
       if \<not> created then return_io False
       else then_io (if 0 < n then time_sleep tm 300 else return_io ())
                    (create_desktops pyvda win32api tm self n))"

definition ensure_desktop_count ::
  "'w pyvda_module \<Rightarrow> 'w win32api_module \<Rightarrow> 'w time_module \<Rightarrow> VirtualDesktopManager \<Rightarrow> int \<Rightarrow> ('w, bool) io" where
  "ensure_desktop_count pyvda win32api tm self required_count =
     (if \<not> pyvda_available self then return_io (required_count \<le> 1)
      else try_except
             (bind_io (get_desktop_count pyvda self) (\<lambda>current_count.
                if current_count \<ge> required_count then return_io True
                else bind_io (create_desktops pyvda win32api tm self
                                (nat (required_count - current_count))) (\<lambda>all_created.
                  if \<not> all_created then return_io False
                  else bind_io (get_desktop_count pyvda self) (\<lambda>final_count.
                         return_io (final_count \<ge> required_count)))))
             (\<lambda>e. raise_io VirtualDesktopError))"

definition get_current_desktop ::
  "'w pyvda_module \<Rightarrow> VirtualDesktopManager \<Rightarrow> ('w, int) io" where
  "get_current_desktop pyvda self =
     (if \<not> pyvda_available self then return_io 0
      else try_except
             (bind_io (VirtualDesktop_current pyvda) (\<lambda>current.
              bind_io (VirtualDesktop_number pyvda current) (\<lambda>number.
              return_io (number - 1))))
             (\<lambda>e. return_io 0))"

text \<open>In \<^verbatim>\<open>move_window_to_desktop\<close> the inner \<^verbatim>\<open>try\<close> returns \<^verbatim>\<open>False\<close> from its
  handler; the model passes that on as the value of the inner block.\<close>

definition move_window_to_desktop ::
  "'w pyvda_module \<Rightarrow> 'w time_module \<Rightarrow> VirtualDesktopManager \<Rightarrow> hwnd \<Rightarrow> int \<Rightarrow> ('w, bool) io" where
  "move_window_to_desktop pyvda tm self h desktop_index =
     (if \<not> pyvda_available self then return_io (desktop_index = 0)
      else try_except
             (bind_io (get_virtual_desktops pyvda) (\<lambda>desktops.
                if desktop_index \<ge> int desktops then return_io False
                else bind_io (VirtualDesktop pyvda (desktop_index + 1)) (\<lambda>target_desktop.
                     bind_io (try_except
                                (bind_io (AppView pyvda h) (\<lambda>app_view.
                                 then_io (AppView_move pyvda app_view target_desktop)
                                         (return_io True)))
                                (\<lambda>move_error. return_io False)) (\<lambda>moved.
                       if \<not> moved then return_io False
                       else then_io (time_sleep tm 200) (return_io True)))))
             (\<lambda>e. return_io False))"


definition switch_to_desktop ::
  "'w pyvda_module \<Rightarrow> 'w time_module \<Rightarrow> VirtualDesktopManager \<Rightarrow> int \<Rightarrow> ('w, bool) io" where
  "switch_to_desktop pyvda tm self desktop_index =
     (if \<not> pyvda_available self then return_io (desktop_index = 0)
      else try_except
             (bind_io (get_virtual_desktops pyvda) (\<lambda>desktops.
                if desktop_index \<ge> int desktops then return_io False
                else bind_io (VirtualDesktop pyvda (desktop_index + 1)) (\<lambda>target_desktop.
                     then_io (VirtualDesktop_go pyvda target_desktop)
                    (then_io (time_sleep tm 200)
                    (bind_io (get_current_desktop pyvda self) (\<lambda>current.
                     return_io (current = desktop_index)))))))
             (\<lambda>e. return_io False))"






section \<open>Strings\<close>

text \<open>
  A Python string is a list of characters, each a code point below 256.
  \<^verbatim>\<open>str.lower\<close> maps the upper-case letters of that range (A to Z, and the
  code points 192 to 222 except 215) to the letter 32 places further on;
  the white space that \<^verbatim>\<open>str.strip\<close> removes is 9 to 13, 28 to 32, 133 and 160.
\<close>

definition py_lower_char :: "char \<Rightarrow> char" where
  "py_lower_char c =
     (let n = (of_char c :: nat)
      in if (65 \<le> n \<and> n \<le> 90) \<or> (192 \<le> n \<and> n \<le> 222 \<and> n \<noteq> 215)
         then char_of (n + 32) else c)"

definition py_lower :: "string \<Rightarrow> string" where
  "py_lower s = map py_lower_char s"

definition py_isspace :: "char \<Rightarrow> bool" where
  "py_isspace c =
     (let n = (of_char c :: nat)
      in (9 \<le> n \<and> n \<le> 13) \<or> (28 \<le> n \<and> n \<le> 32) \<or> n = 133 \<or> n = 160)"

definition py_strip :: "string \<Rightarrow> string" where
  "py_strip s = rev (dropWhile py_isspace (rev (dropWhile py_isspace s)))"

text \<open>\<^verbatim>\<open>s.startswith(p)\<close> and \<^verbatim>\<open>p in s\<close>.\<close>

fun py_startswith :: "string \<Rightarrow> string \<Rightarrow> bool" where
  "py_startswith s [] = True"
| "py_startswith [] (p # ps) = False"
| "py_startswith (c # cs) (p # ps) = (c = p \<and> py_startswith cs ps)"

fun py_contains :: "string \<Rightarrow> string \<Rightarrow> bool" where
  "py_contains [] p = (p = [])"
| "py_contains (c # cs) p = (py_startswith (c # cs) p \<or> py_contains cs p)"

section \<open>Windows and processes (windows_api.py)\<close>

text \<open>The fields of \<^verbatim>\<open>WindowInfo\<close> are \<open>wi_hwnd\<close>, \<open>wi_title\<close> and so on.\<close>

record WindowInfo =
  wi_hwnd :: hwnd
  wi_title :: string
  wi_class_name :: string
  wi_rect :: rect
  wi_pid :: int
  wi_exe_path :: "string option"
  wi_is_visible :: bool

text \<open>The dictionary that \<^verbatim>\<open>get_process_info\<close> returns. The creation time is a
  floating-point number in the source; no result depends on it.\<close>

record process_info =
  pi_name :: string
  pi_exe :: string
  pi_cmdline :: "string list"
  pi_cwd :: string
  pi_create_time :: int

text \<open>\<^verbatim>\<open>win32gui\<close>. \<^verbatim>\<open>EnumWindows\<close> calls the callback once per top-level window;
  the operation returns the handles of those calls, in order, and the
  exception that ended the enumeration, if one did. \<^verbatim>\<open>SendMessageTimeout\<close>
  returns \<open>None\<close> for Python's \<^verbatim>\<open>None\<close>.\<close>

record 'w win32gui_module =
  GetWindowText :: "hwnd \<Rightarrow> ('w, string) io"
  GetClassName :: "hwnd \<Rightarrow> ('w, string) io"
  IsWindowVisible :: "hwnd \<Rightarrow> ('w, bool) io"
  GetWindowLong :: "hwnd \<Rightarrow> int \<Rightarrow> ('w, int) io"
  GetWindowRect :: "hwnd \<Rightarrow> ('w, rect) io"
  EnumWindows :: "'w \<Rightarrow> (hwnd list \<times> exn option) \<times> 'w"
  ShowWindow :: "hwnd \<Rightarrow> int \<Rightarrow> ('w, unit) io"
  SetForegroundWindow :: "hwnd \<Rightarrow> ('w, unit) io"
  MoveWindow :: "hwnd \<Rightarrow> int \<Rightarrow> int \<Rightarrow> int \<Rightarrow> int \<Rightarrow> bool \<Rightarrow> ('w, unit) io"
  SetWindowPos :: "hwnd \<Rightarrow> int \<Rightarrow> int \<Rightarrow> int \<Rightarrow> int \<Rightarrow> int \<Rightarrow> int \<Rightarrow> ('w, unit) io"
  IsIconic :: "hwnd \<Rightarrow> ('w, bool) io"
  BringWindowToTop :: "hwnd \<Rightarrow> ('w, unit) io"
  PostMessage :: "hwnd \<Rightarrow> int \<Rightarrow> int \<Rightarrow> int \<Rightarrow> ('w, unit) io"
  SendMessageTimeout :: "hwnd \<Rightarrow> int \<Rightarrow> int \<Rightarrow> int \<Rightarrow> int \<Rightarrow> int \<Rightarrow> ('w, int option) io"

record 'w win32process_module =
  GetWindowThreadProcessId :: "hwnd \<Rightarrow> ('w, int \<times> int) io"

record 'w psutil_module =
  Process :: "int \<Rightarrow> ('w, nat) io"
  Process_name :: "nat \<Rightarrow> ('w, string) io"
  Process_exe :: "nat \<Rightarrow> ('w, string) io"
  Process_cmdline :: "nat \<Rightarrow> ('w, string list) io"
  Process_cwd :: "nat \<Rightarrow> ('w, string) io"
  Process_create_time :: "nat \<Rightarrow> ('w, int) io"
  Process_terminate :: "nat \<Rightarrow> ('w, unit) io"

text \<open>\<^verbatim>\<open>pathlib\<close> and \<^verbatim>\<open>shutil\<close>: a \<^verbatim>\<open>Path\<close> object is the string it was made from;
  \<open>Path_name\<close> is \<^verbatim>\<open>Path(p).name\<close>, the last component of a path, \<open>Path_str\<close> is
  \<^verbatim>\<open>str(Path(p))\<close>, the path in the platform's spelling, and \<open>Path_is_absolute\<close>
  is \<^verbatim>\<open>Path(p).is_absolute()\<close>; the three are functions of the string alone.\<close>

record 'w pathlib_module =
  Path_name :: "string \<Rightarrow> string"
  Path_str :: "string \<Rightarrow> string"
  Path_is_absolute :: "string \<Rightarrow> bool"
  Path_exists :: "string \<Rightarrow> ('w, bool) io"
  shutil_which :: "string \<Rightarrow> ('w, string option) io"

definition GWL_STYLE :: int where "GWL_STYLE = -16"
definition GWL_EXSTYLE :: int where "GWL_EXSTYLE = -20"
definition WS_VISIBLE :: int where "WS_VISIBLE = 0x10000000"
definition WS_CHILD :: int where "WS_CHILD = 0x40000000"
definition WS_EX_TOOLWINDOW :: int where "WS_EX_TOOLWINDOW = 0x80"
definition WS_EX_APPWINDOW :: int where "WS_EX_APPWINDOW = 0x40000"
definition SW_RESTORE :: int where "SW_RESTORE = 9"
definition HWND_TOP :: int where "HWND_TOP = 0"
definition SWP_NOSIZE :: int where "SWP_NOSIZE = 0x1"
definition SWP_NOMOVE :: int where "SWP_NOMOVE = 0x2"
definition SWP_NOZORDER :: int where "SWP_NOZORDER = 0x4"
definition SWP_NOACTIVATE :: int where "SWP_NOACTIVATE = 0x10"
definition SWP_SHOWWINDOW :: int where "SWP_SHOWWINDOW = 0x40"
definition WM_NULL :: int where "WM_NULL = 0"
definition SMTO_ABORTIFHUNG :: int where "SMTO_ABORTIFHUNG = 0x2"

definition get_window_text_safe :: "'w win32gui_module \<Rightarrow> hwnd \<Rightarrow> ('w, string) io" where
  "get_window_text_safe win32gui h =
     try_except (GetWindowText win32gui h) (\<lambda>e. return_io [])"

definition get_class_name_safe :: "'w win32gui_module \<Rightarrow> hwnd \<Rightarrow> ('w, string) io" where
  "get_class_name_safe win32gui h =
     try_except (GetClassName win32gui h) (\<lambda>e. return_io [])"

definition is_alt_tab_window :: "'w win32gui_module \<Rightarrow> hwnd \<Rightarrow> ('w, bool) io" where
  "is_alt_tab_window win32gui h =
     try_except
       (bind_io (IsWindowVisible win32gui h) (\<lambda>visible.
          if \<not> visible then return_io False
          else bind_io (GetWindowLong win32gui h GWL_STYLE) (\<lambda>style.
               bind_io (GetWindowLong win32gui h GWL_EXSTYLE) (\<lambda>ex_style.
                 if style AND WS_VISIBLE = 0 then return_io False
                 else if ex_style AND WS_EX_TOOLWINDOW \<noteq> 0 then return_io False
                 else if style AND WS_CHILD \<noteq> 0 then return_io False
                 else bind_io (get_window_text_safe win32gui h) (\<lambda>title.
                   if title = [] \<and> ex_style AND WS_EX_APPWINDOW = 0 then return_io False
                   else try_except
                          (bind_io (GetWindowRect win32gui h) (\<lambda>(left, top, right, bottom).
                             if right - left < 50 \<or> bottom - top < 50 then return_io False
                             else return_io True))
                          (\<lambda>e. return_io False))))))
       (\<lambda>e. return_io False)"

definition get_process_info :: "'w psutil_module \<Rightarrow> int \<Rightarrow> ('w, process_info option) io" where
  "get_process_info psutil p =
     try_except_only (\<lambda>e. e = NoSuchProcess \<or> e = AccessDenied \<or> e = ZombieProcess)
       (bind_io (Process psutil p) (\<lambda>process.
        bind_io (Process_name psutil process) (\<lambda>name.
        bind_io (Process_exe psutil process) (\<lambda>exe.
        bind_io (Process_cmdline psutil process) (\<lambda>cmdline.
        bind_io (Process_cwd psutil process) (\<lambda>cwd.
        bind_io (Process_create_time psutil process) (\<lambda>create_time.
        return_io (Some \<lparr>pi_name = name, pi_exe = exe, pi_cmdline = cmdline,
                          pi_cwd = cwd, pi_create_time = create_time\<rparr>))))))))
       (\<lambda>e. return_io None)"

text \<open>The callback of \<^verbatim>\<open>enumerate_windows\<close>, with the list it appends to.\<close>

definition enum_callback ::
  "'w win32gui_module \<Rightarrow> 'w win32process_module \<Rightarrow> 'w psutil_module \<Rightarrow>
   WindowInfo list \<Rightarrow> hwnd \<Rightarrow> ('w, WindowInfo list) io" where
  "enum_callback win32gui win32process psutil windows h =
     try_except
       (bind_io (is_alt_tab_window win32gui h) (\<lambda>shown.
          if \<not> shown then return_io windows
          else bind_io (get_window_text_safe win32gui h) (\<lambda>title.
               bind_io (get_class_name_safe win32gui h) (\<lambda>class_name.
               bind_io (GetWindowRect win32gui h) (\<lambda>r.
               bind_io (GetWindowThreadProcessId win32process h) (\<lambda>(thread, p).
               bind_io (get_process_info psutil p) (\<lambda>proc_info.
               return_io (windows @
                 [\<lparr>wi_hwnd = h, wi_title = title, wi_class_name = class_name, wi_rect = r,
                   wi_pid = p, wi_exe_path = map_option pi_exe proc_info,
                   wi_is_visible = True\<rparr>]))))))))
       (\<lambda>e. return_io windows)"

fun enum_callbacks ::
  "'w win32gui_module \<Rightarrow> 'w win32process_module \<Rightarrow> 'w psutil_module \<Rightarrow>
   WindowInfo list \<Rightarrow> hwnd list \<Rightarrow> ('w, WindowInfo list) io" where
  "enum_callbacks win32gui win32process psutil windows [] = return_io windows"
| "enum_callbacks win32gui win32process psutil windows (h # hs) =
     bind_io (enum_callback win32gui win32process psutil windows h) (\<lambda>windows'.
       enum_callbacks win32gui win32process psutil windows' hs)"

definition enumerate_windows ::
  "'w win32gui_module \<Rightarrow> 'w win32process_module \<Rightarrow> 'w psutil_module \<Rightarrow> ('w, WindowInfo list) io" where
  "enumerate_windows win32gui win32process psutil =
     (\<lambda>w. enum_callbacks win32gui win32process psutil [] (fst (fst (EnumWindows win32gui w)))
             (snd (EnumWindows win32gui w)))"

text \<open>The scan of \<^verbatim>\<open>find_window_by_pid\<close> over one enumeration: the first window of
  the process, or with a non-empty hint the first whose lower-cased title
  contains the lower-cased hint.\<close>

fun first_window_of_pid :: "int \<Rightarrow> string option \<Rightarrow> WindowInfo list \<Rightarrow> hwnd option" where
  "first_window_of_pid p title_hint [] = None"
| "first_window_of_pid p title_hint (window # windows) =
     (if wi_pid window = p \<and>
         (title_hint = None \<or> title_hint = Some [] \<or>
          py_contains (py_lower (wi_title window)) (py_lower (the title_hint)))
      then Some (wi_hwnd window)
      else first_window_of_pid p title_hint windows)"

fun find_window_polls ::
  "'w win32gui_module \<Rightarrow> 'w win32process_module \<Rightarrow> 'w psutil_module \<Rightarrow> 'w time_module \<Rightarrow>
   int \<Rightarrow> string option \<Rightarrow> nat \<Rightarrow> ('w, hwnd option) io" where
  "find_window_polls win32gui win32process psutil tm p title_hint 0 = return_io None"
| "find_window_polls win32gui win32process psutil tm p title_hint (Suc n) =
     bind_io (enumerate_windows win32gui win32process psutil) (\<lambda>windows.
       case first_window_of_pid p title_hint windows of
         Some h \<Rightarrow> return_io (Some h)
       | None \<Rightarrow> then_io (time_sleep tm 500)
                   (find_window_polls win32gui win32process psutil tm p title_hint n))"

definition find_window_by_pid ::
  "'w win32gui_module \<Rightarrow> 'w win32process_module \<Rightarrow> 'w psutil_module \<Rightarrow> 'w time_module \<Rightarrow>
   int \<Rightarrow> nat \<Rightarrow> string option \<Rightarrow> ('w, hwnd option) io" where
  "find_window_by_pid win32gui win32process psutil tm p timeout title_hint =
     (\<lambda>w. find_window_polls win32gui win32process psutil tm p title_hint
             (polls_within tm timeout w) w)"


definition console_classes :: "string list" where
  "console_classes =
     [''ConsoleWindowClass'', ''PseudoConsoleWindow'',
      ''CASCADIA_HOSTING_WINDOW_CLASS'', ''Cascadia_HOSTING_WINDOW_CLASS'']"

text \<open>One pass of the console loop of \<^verbatim>\<open>move_window\<close>: three ways of placing the
  window, each with its failure ignored, then a read of the rectangle (whose
  failure is not caught here). The result is \<^verbatim>\<open>position_ok\<close>.\<close>

definition console_attempt ::
  "'w win32gui_module \<Rightarrow> 'w time_module \<Rightarrow> hwnd \<Rightarrow> int \<Rightarrow> int \<Rightarrow> int \<Rightarrow> int \<Rightarrow> int \<Rightarrow> nat \<Rightarrow> ('w, bool) io" where
  "console_attempt win32gui tm h x y width height tolerance attempt =
     then_io (if 0 < attempt then time_sleep tm 200 else return_io ())
    (then_io (try_except (then_io (SetForegroundWindow win32gui h) (time_sleep tm 50))
                         (\<lambda>e. return_io ()))
    (then_io (try_except (then_io (MoveWindow win32gui h x y width height True) (time_sleep tm 150))
                         (\<lambda>e1. return_io ()))
    (then_io (try_except (then_io (SetWindowPos win32gui h 0 x y width height
                                     (SWP_NOACTIVATE OR SWP_NOZORDER)) (time_sleep tm 150))
                         (\<lambda>e2. return_io ()))
    (then_io (try_except (then_io (SetWindowPos win32gui h HWND_TOP 0 0 width height
                                     (SWP_NOMOVE OR SWP_NOACTIVATE))
                         (then_io (time_sleep tm 100)
                         (then_io (SetWindowPos win32gui h 0 x y 0 0
                                     (SWP_NOSIZE OR SWP_NOACTIVATE OR SWP_NOZORDER))
                                  (time_sleep tm 150))))
                         (\<lambda>e3. return_io ()))
    (bind_io (GetWindowRect win32gui h) (\<lambda>(left, top, right, bottom).
       return_io (\<bar>left - x\<bar> < tolerance \<and> \<bar>top - y\<bar> < tolerance)))))))"

fun console_attempts ::
  "'w win32gui_module \<Rightarrow> 'w time_module \<Rightarrow> hwnd \<Rightarrow> int \<Rightarrow> int \<Rightarrow> int \<Rightarrow> int \<Rightarrow> int \<Rightarrow> nat list \<Rightarrow> ('w, unit) io" where
  "console_attempts win32gui tm h x y width height tolerance [] = return_io ()"
| "console_attempts win32gui tm h x y width height tolerance (attempt # rest) =
     bind_io (console_attempt win32gui tm h x y width height tolerance attempt) (\<lambda>position_ok.
       if position_ok then return_io ()
       else console_attempts win32gui tm h x y width height tolerance rest)"

text \<open>\<^verbatim>\<open>move_window\<close> up to the comment \<^verbatim>\<open># Verify the move\<close>: the class test, the
  restore and the positioning attempts. The result is \<^verbatim>\<open>is_console\<close>.\<close>

definition move_window_attempts ::
  "'w win32gui_module \<Rightarrow> 'w time_module \<Rightarrow> hwnd \<Rightarrow> int \<Rightarrow> int \<Rightarrow> int \<Rightarrow> int \<Rightarrow> ('w, bool) io" where
  "move_window_attempts win32gui tm h x y width height =
     bind_io (get_class_name_safe win32gui h) (\<lambda>class_name.
       let is_console = (class_name \<in> set console_classes);
           tolerance = (if is_console then 100 else 50)
       in then_io (ShowWindow win32gui h SW_RESTORE)
         (then_io (time_sleep tm 150)
         (then_io (if is_console
                   then console_attempts win32gui tm h x y width height tolerance [0, 1, 2]
                   else then_io (SetWindowPos win32gui h HWND_TOP x y width height SWP_SHOWWINDOW)
                                (time_sleep tm 100))
                  (return_io is_console))))"

definition move_window ::
  "'w win32gui_module \<Rightarrow> 'w time_module \<Rightarrow> hwnd \<Rightarrow> int \<Rightarrow> int \<Rightarrow> int \<Rightarrow> int \<Rightarrow> ('w, bool) io" where
  "move_window win32gui tm h x y width height =
     try_except
       (bind_io (move_window_attempts win32gui tm h x y width height) (\<lambda>is_console.
        then_io (time_sleep tm 150)
       (bind_io (GetWindowRect win32gui h) (\<lambda>(left, top, right, bottom).
          let tolerance = (if is_console then 100 else 50);
              position_ok = (\<bar>left - x\<bar> < tolerance \<and> \<bar>top - y\<bar> < tolerance);
              size_ok = (\<bar>(right - left) - width\<bar> < tolerance \<and>
                         \<bar>(bottom - top) - height\<bar> < tolerance)
          in if position_ok \<and> size_ok then return_io True
             else if size_ok \<and> \<not> position_ok then return_io is_console
             else return_io False))))
       (\<lambda>e. return_io False)"




definition restore_window :: "'w win32gui_module \<Rightarrow> hwnd \<Rightarrow> ('w, bool) io" where
  "restore_window win32gui h =
     try_except (then_io (ShowWindow win32gui h SW_RESTORE) (return_io True))
                (\<lambda>e. return_io False)"








definition is_window_responding :: "'w win32gui_module \<Rightarrow> hwnd \<Rightarrow> nat \<Rightarrow> ('w, bool) io" where
  "is_window_responding win32gui h timeout =
     try_except
       (bind_io (SendMessageTimeout win32gui h WM_NULL 0 0 SMTO_ABORTIFHUNG (int timeout)) (\<lambda>result.
          return_io (result \<noteq> None)))
       (\<lambda>e. return_io False)"

section \<open>Capture (capture.py)\<close>

definition system_processes :: "string list" where
  "system_processes =
     [''explorer.exe'', ''searchui.exe'', ''searchapp.exe'', ''shellexperiencehost.exe'',
      ''systemsettings.exe'', ''textinputhost.exe'', ''lockapp.exe'']"

text \<open>\<^verbatim>\<open>_filter_system_windows\<close>: the loop appends a window unless a
  \<^verbatim>\<open>continue\<close> skips it. \<^verbatim>\<open>if window.exe_path\<close> holds for a path that is neither
  \<^verbatim>\<open>None\<close> nor empty.\<close>

fun filter_system_windows :: "(string \<Rightarrow> string) \<Rightarrow> WindowInfo list \<Rightarrow> WindowInfo list" where
  "filter_system_windows path_name [] = []"
| "filter_system_windows path_name (window # windows) =
     (case wi_exe_path window of
        None \<Rightarrow> window # filter_system_windows path_name windows
      | Some p \<Rightarrow>
          (if p \<noteq> [] then
             (if py_lower (path_name p) \<in> set system_processes
              then filter_system_windows path_name windows
              else if wi_title window = [] \<or> py_strip (wi_title window) = []
              then filter_system_windows path_name windows
              else window # filter_system_windows path_name windows)
           else window # filter_system_windows path_name windows))"

section \<open>Sample environments\<close>

text \<open>
  Small environments on which the theorems below are run. The state is of
  type \<open>unit\<close>: nothing changes. In \<open>fixed_win32gui cls r\<close> every call succeeds,
  every window has class \<open>cls\<close> and stays at the rectangle \<open>r\<close> wherever it is
  asked to go. In \<open>failing_pyvda\<close> every call raises \<open>OSError\<close>. In
  \<open>checking_psutil\<close> no process can be inspected, and \<^verbatim>\<open>psutil.Process\<close> refuses a
  negative process id with \<open>ValueError\<close>, as the library does.
\<close>

definition fixed_win32gui :: "string \<Rightarrow> rect \<Rightarrow> unit win32gui_module" where
  "fixed_win32gui cls r =
     \<lparr>GetWindowText = (\<lambda>h. return_io ''window''),
      GetClassName = (\<lambda>h. return_io cls),
      IsWindowVisible = (\<lambda>h. return_io True),
      GetWindowLong = (\<lambda>h i. return_io WS_VISIBLE),
      GetWindowRect = (\<lambda>h. return_io r),
      EnumWindows = (\<lambda>w. (([], None), w)),
      ShowWindow = (\<lambda>h c. return_io ()),
      SetForegroundWindow = (\<lambda>h. return_io ()),
      MoveWindow = (\<lambda>h x y cx cy repaint. return_io ()),
      SetWindowPos = (\<lambda>h after x y cx cy flags. return_io ()),
      IsIconic = (\<lambda>h. return_io False),
      BringWindowToTop = (\<lambda>h. return_io ()),
      PostMessage = (\<lambda>h msg wp lp. return_io ()),
      SendMessageTimeout = (\<lambda>h msg wp lp flags timeout. return_io (Some 0))\<rparr>"

definition failing_pyvda :: "unit pyvda_module" where
  "failing_pyvda =
     \<lparr>get_virtual_desktops = raise_io OSError,
      VirtualDesktop_create = raise_io OSError,
      VirtualDesktop = (\<lambda>n. raise_io OSError),
      VirtualDesktop_current = raise_io OSError,
      VirtualDesktop_number = (\<lambda>d. raise_io OSError),
      VirtualDesktop_go = (\<lambda>d. raise_io OSError),
      AppView = (\<lambda>h. raise_io OSError),
      AppView_move = (\<lambda>v d. raise_io OSError),
      AppView_desktop = (\<lambda>v. raise_io OSError),
      AppView_pin = (\<lambda>v. raise_io OSError),
      AppView_unpin = (\<lambda>v. raise_io OSError),
      AppView_is_pinned = (\<lambda>v. raise_io OSError)\<rparr>"

definition failing_win32api :: "unit win32api_module" where
  "failing_win32api =
     \<lparr>keybd_event = (\<lambda>vk scan flags extra. raise_io OSError),
      GetMonitorInfo = (\<lambda>h. raise_io OSError),
      EnumDisplayMonitors = (\<lambda>w. (([], Some OSError), w))\<rparr>"


definition still_time :: "unit time_module" where
  "still_time = \<lparr>sleep = (\<lambda>ms w. w), polls_within = (\<lambda>timeout w. 1)\<rparr>"

section \<open>Configuration store (config.py)\<close>

text \<open>
  The disk is a map from paths to file contents; directories are not
  represented. The state of the configuration store is the manager object
  together with the disk. Which file operations fail is given from outside:
  \<open>replace_fails src dst\<close> for \<^verbatim>\<open>Path.replace\<close>, \<open>mkdir_fails\<close> for the creation of
  the parent directory, and for writing a file one of three outcomes: the
  file is written; \<^verbatim>\<open>open\<close> fails and leaves the disk as it is; \<^verbatim>\<open>json.dump\<close>
  fails after \<^verbatim>\<open>open\<close> has created the file, leaving the text written so far.
  \<^verbatim>\<open>Path.exists\<close> is taken not to raise.
\<close>

datatype write_outcome = Written | OpenFails | DumpFails string

record disk_faults =
  replace_fails :: "string \<Rightarrow> string \<Rightarrow> bool"
  mkdir_fails :: bool
  write_result :: "string \<Rightarrow> write_outcome"

text \<open>The library functions the store calls: \<open>with_suffix p s\<close> is
  \<^verbatim>\<open>Path(p).with_suffix(s)\<close> for a path with a file name, \<open>json_dumps\<close> the text
  that \<^verbatim>\<open>json.dump(data, f, indent=2, ensure_ascii=False)\<close> writes, and
  \<open>json_loads\<close> the value that \<^verbatim>\<open>json.load\<close> reads, \<open>None\<close> when the text is not
  JSON.\<close>

record config_lib =
  with_suffix :: "string \<Rightarrow> string \<Rightarrow> string"
  json_dumps :: "pyval \<Rightarrow> string"
  json_loads :: "string \<Rightarrow> pyval option"

record ConfigManager =
  config_file :: string
  collection :: "WorkspaceCollection option"

type_synonym disk = "string \<rightharpoonup> string"
type_synonym config_world = "ConfigManager \<times> disk"

definition path_exists :: "string \<Rightarrow> (config_world, bool) io" where
  "path_exists p = (\<lambda>(self, files). (Inr (files p \<noteq> None), (self, files)))"

text \<open>\<^verbatim>\<open>src.replace(dst)\<close> renames, overwriting \<open>dst\<close>.\<close>

definition path_replace :: "disk_faults \<Rightarrow> string \<Rightarrow> string \<Rightarrow> (config_world, unit) io" where
  "path_replace faults src dst =
     (\<lambda>(self, files).
        if replace_fails faults src dst then (Inl PermissionError, (self, files))
        else (case files src of
                None \<Rightarrow> (Inl FileNotFoundError, (self, files))
              | Some text \<Rightarrow> (Inr (), (self, (files(src := None))(dst \<mapsto> text)))))"

definition mkdir_parent :: "disk_faults \<Rightarrow> (config_world, unit) io" where
  "mkdir_parent faults = (if mkdir_fails faults then raise_io PermissionError else return_io ())"

definition write_text :: "disk_faults \<Rightarrow> string \<Rightarrow> string \<Rightarrow> (config_world, unit) io" where
  "write_text faults p text =
     (\<lambda>(self, files).
        case write_result faults p of
          Written \<Rightarrow> (Inr (), (self, files(p \<mapsto> text)))
        | OpenFails \<Rightarrow> (Inl PermissionError, (self, files))
        | DumpFails partial \<Rightarrow> (Inl OSError, (self, files(p \<mapsto> partial))))"

definition read_text :: "string \<Rightarrow> (config_world, string) io" where
  "read_text p =
     (\<lambda>(self, files).
        case files p of
          None \<Rightarrow> (Inl FileNotFoundError, (self, files))
        | Some text \<Rightarrow> (Inr text, (self, files)))"

definition get_self :: "(config_world, ConfigManager) io" where
  "get_self = (\<lambda>(self, files). (Inr self, (self, files)))"

definition set_collection :: "WorkspaceCollection \<Rightarrow> (config_world, unit) io" where
  "set_collection c = (\<lambda>(self, files). (Inr (), (self\<lparr>collection := Some c\<rparr>, files)))"

definition save :: "config_lib \<Rightarrow> disk_faults \<Rightarrow> WorkspaceCollection \<Rightarrow> (config_world, unit) io" where
  "save lib faults c =
     bind_io get_self (\<lambda>self.
     try_except
       (then_io (bind_io (path_exists (config_file self)) (\<lambda>present.
                   if present
                   then path_replace faults (config_file self)
                          (with_suffix lib (config_file self) ''.json.bak'')
                   else return_io ()))
       (then_io (mkdir_parent faults)
       (then_io (write_text faults (config_file self)
                   (json_dumps lib (WorkspaceCollection_to_dict c)))
                (set_collection c))))
       (\<lambda>e. then_io (bind_io (path_exists (with_suffix lib (config_file self) ''.json.bak''))
                        (\<lambda>present.
                           if present
                           then path_replace faults
                                  (with_suffix lib (config_file self) ''.json.bak'')
                                  (config_file self)
                           else return_io ()))
                     (raise_io ConfigError)))"

definition ensure_config_exists :: "config_lib \<Rightarrow> disk_faults \<Rightarrow> (config_world, unit) io" where
  "ensure_config_exists lib faults =
     bind_io get_self (\<lambda>self.
     bind_io (path_exists (config_file self)) (\<lambda>present.
       if \<not> present then save lib faults \<lparr>wsc_workspaces = []\<rparr> else return_io ()))"

text \<open>The structural checks of \<^verbatim>\<open>load\<close>, as a computation that raises. A value
  that is not a dictionary has no \<^verbatim>\<open>get\<close>; \<^verbatim>\<open>'name' in ws\<close> holds of a dictionary
  with the key.\<close>

definition has_key :: "pyval \<Rightarrow> string \<Rightarrow> bool" where
  "has_key v k = (case v of PDict kvs \<Rightarrow> map_of kvs k \<noteq> None | _ \<Rightarrow> False)"

definition is_dict :: "pyval \<Rightarrow> bool" where
  "is_dict v = (case v of PDict kvs \<Rightarrow> True | _ \<Rightarrow> False)"

fun validate_apps :: "pyval list \<Rightarrow> exn + unit" where
  "validate_apps [] = Inr ()"
| "validate_apps (app # apps) =
     (if \<not> is_dict app then Inl ConfigError
      else if \<not> has_key app ''id'' then Inl ConfigError
      else if \<not> has_key app ''exe'' then Inl ConfigError
      else validate_apps apps)"

fun validate_workspaces :: "pyval list \<Rightarrow> exn + unit" where
  "validate_workspaces [] = Inr ()"
| "validate_workspaces (ws # rest) =
     (if \<not> is_dict ws then Inl ConfigError
      else if \<not> has_key ws ''name'' then Inl ConfigError
      else and_then (py_get ws ''apps'' (PList [])) (\<lambda>apps.
           and_then (py_iter apps) (\<lambda>items.
           and_then (validate_apps items) (\<lambda>_.
           validate_workspaces rest))))"

definition decode_config :: "pyval \<Rightarrow> exn + WorkspaceCollection" where
  "decode_config data0 =
     (if \<not> is_dict data0 then Inl ConfigError
      else (let data = (if has_key data0 ''workspaces'' then data0
                        else PDict [(''workspaces'', PList [])])
            in and_then (py_get data ''workspaces'' (PList [])) (\<lambda>wss.
               and_then (py_iter wss) (\<lambda>items.
               and_then (validate_workspaces items) (\<lambda>_.
               WorkspaceCollection_from_dict data)))))"

definition lift_exn :: "exn + 'a \<Rightarrow> ('w, 'a) io" where
  "lift_exn r = (case r of Inl e \<Rightarrow> raise_io e | Inr a \<Rightarrow> return_io a)"

text \<open>\<^verbatim>\<open>load\<close>: each of its three handlers raises a configuration error. A
  document with a value of a type other than its field's is loaded by the
  code, which stores the value unchecked; here it stays marked \<open>IllTyped\<close>, as
  lying outside the typed model, and is not reported as a configuration
  error.\<close>

definition load :: "config_lib \<Rightarrow> disk_faults \<Rightarrow> (config_world, WorkspaceCollection) io" where
  "load lib faults =
     try_except
       (then_io (ensure_config_exists lib faults)
       (bind_io get_self (\<lambda>self.
        bind_io (read_text (config_file self)) (\<lambda>text.
        bind_io (case json_loads lib text of
                   None \<Rightarrow> raise_io JSONDecodeError
                 | Some data \<Rightarrow> return_io data) (\<lambda>data.
        bind_io (lift_exn (decode_config data)) (\<lambda>c.
        then_io (set_collection c) (return_io c)))))))
       (\<lambda>e. if e = IllTyped then raise_io IllTyped else raise_io ConfigError)"

text \<open>\<^verbatim>\<open>add_workspace\<close>. The collection is changed in memory before it is
  saved. With no collection after \<^verbatim>\<open>load\<close> the attribute access would fail.\<close>

definition add_workspace ::
  "config_lib \<Rightarrow> disk_faults \<Rightarrow> Workspace \<Rightarrow> bool \<Rightarrow> (config_world, unit) io" where
  "add_workspace lib faults workspace overwrite =
     then_io (bind_io get_self (\<lambda>self.
                if collection self = None then then_io (load lib faults) (return_io ())
                else return_io ()))
    (bind_io get_self (\<lambda>self.
       case collection self of
         None \<Rightarrow> raise_io AttributeError
       | Some c \<Rightarrow>
           (let existing = collection_get_workspace c (ws_name workspace)
            in if existing \<noteq> None \<and> \<not> overwrite then raise_io ConfigError
               else (let c1 = (if existing \<noteq> None
                               then snd (collection_remove_workspace c (ws_name workspace))
                               else c);
                         c2 = collection_add_workspace c1 workspace
                     in then_io (set_collection c2) (save lib faults c2)))))"

definition remove_workspace ::
  "config_lib \<Rightarrow> disk_faults \<Rightarrow> string \<Rightarrow> (config_world, bool) io" where
  "remove_workspace lib faults n =
     then_io (bind_io get_self (\<lambda>self.
                if collection self = None then then_io (load lib faults) (return_io ())
                else return_io ()))
    (bind_io get_self (\<lambda>self.
       case collection self of
         None \<Rightarrow> raise_io AttributeError
       | Some c \<Rightarrow>
           (let removed = collection_remove_workspace c n
            in then_io (set_collection (snd removed))
                 (if fst removed then then_io (save lib faults (snd removed)) (return_io True)
                  else return_io False))))"

text \<open>Sample library and fault settings for running the store: the suffix
  replaces the suffix of the file name (what follows the last component
  separator), which is its part from the last dot on when that dot is neither
  its first nor its last character; a document is written as a fixed text per
  number of workspaces, and \<open>write_fails\<close> lets every rename succeed and every write fail
  at \<^verbatim>\<open>open\<close>.\<close>

definition replace_suffix :: "string \<Rightarrow> string \<Rightarrow> string" where
  "replace_suffix p s =
     (let name = rev (takeWhile (\<lambda>c. c \<noteq> CHR ''/'' \<and> c \<noteq> CHR 0x5C) (rev p));
          after_dot = takeWhile (\<lambda>c. c \<noteq> CHR ''.'') (rev name);
          i = length name - length after_dot - 1
      in if CHR ''.'' \<in> set name \<and> 0 < i \<and> after_dot \<noteq> []
         then take (length p - length name + i) p @ s
         else p @ s)"

definition sample_lib :: config_lib where
  "sample_lib =
     \<lparr>with_suffix = replace_suffix,
      json_dumps = (\<lambda>v. case v of
                      PDict [(k, PList ws)] \<Rightarrow> replicate (length ws) CHR ''w''
                    | _ \<Rightarrow> ''?''),
      json_loads = (\<lambda>s. None)\<rparr>"

definition no_faults :: disk_faults where
  "no_faults = \<lparr>replace_fails = (\<lambda>src dst. False), mkdir_fails = False,
                write_result = (\<lambda>p. Written)\<rparr>"

definition write_fails :: disk_faults where
  "write_fails = \<lparr>replace_fails = (\<lambda>src dst. False), mkdir_fails = False,
                  write_result = (\<lambda>p. OpenFails)\<rparr>"

section \<open>Launcher (launcher.py)\<close>

text \<open>The fields of \<^verbatim>\<open>LaunchResult\<close> are \<open>lr_app_id\<close>, \<open>lr_success\<close> and so on. The
  text of an exception is not modelled: the error note of a failed launch is
  the prefix its handler puts before that text.\<close>

record LaunchResult =
  lr_app_id :: string
  lr_success :: bool
  lr_pid :: "int option"
  lr_hwnd :: "hwnd option"
  lr_error :: "string option"

text \<open>
  The console of \<^verbatim>\<open>rich\<close>. Every text the launcher prints is a template with
  markup tags into which values are put; \<open>console_text\<close> has one constructor per
  template, with the values put in: \<open>LaunchingWorkspace n\<close> is
  \<^verbatim>\<open>f"[bold cyan]Launching workspace: {workspace.name}[/bold cyan]"\<close> (after a line feed),
  \<open>LaunchFailed i e\<close> is \<^verbatim>\<open>f"[red]...[/red] {app.id} failed: {result.error}"\<close>,
  \<open>SummaryTable rs\<close> is the table of \<^verbatim>\<open>_show_launch_summary\<close> with one row per result,
  and so on in the order of the source. \<^verbatim>\<open>console.print\<close> reads the markup of the
  text it is given, values included, and raises when it is broken, so printing
  is a call that may raise, like the calls of the operating system. So are the
  calls of the progress display: \<open>Progress_enter\<close> and \<open>Progress_exit\<close> are the
  beginning and the end of the \<^verbatim>\<open>with Progress(...)\<close> block, \<open>Progress_add_task i\<close> is
  \<^verbatim>\<open>progress.add_task(f"Launching {app.id}...", total=1)\<close>, which returns the number
  of the task, and \<open>Progress_update\<close> is \<^verbatim>\<open>progress.update(task, completed=1)\<close>.
\<close>

datatype console_text =
    LaunchingWorkspace string
  | WorkspaceDescription string
  | NoApplications
  | EnsuringDesktops int
  | DesktopWarning
  | LaunchingApplications nat
  | SwitchingToDesktop int
  | DryRunWouldLaunch string
  | LaunchedSuccessfully string
  | LaunchFailed string "string option"
  | LaunchSummary
  | SummaryTable "LaunchResult list"
  | SummaryTotal nat
  | SummarySuccessful nat
  | SummaryFailed nat
  | NoFailedApplications
  | RetryingFailed nat
  | Retrying string
  | LaunchedOnRetry string
  | FailedAgain string "string option"

record 'w console_module =
  console_print :: "console_text \<Rightarrow> ('w, unit) io"
  Progress_enter :: "('w, unit) io"
  Progress_add_task :: "string \<Rightarrow> ('w, int) io"
  Progress_update :: "int \<Rightarrow> ('w, unit) io"
  Progress_exit :: "('w, unit) io"

text \<open>An exception comes from the console when some call of the console raises
  it in some state.\<close>

definition console_raises :: "'w console_module \<Rightarrow> exn \<Rightarrow> bool" where
  "console_raises con e =
     ((\<exists>t w. fst (console_print con t w) = Inl e)
      \<or> (\<exists>w. fst (Progress_enter con w) = Inl e)
      \<or> (\<exists>i w. fst (Progress_add_task con i w) = Inl e)
      \<or> (\<exists>k w. fst (Progress_update con k w) = Inl e)
      \<or> (\<exists>w. fst (Progress_exit con w) = Inl e))"

text \<open>All the modules together.\<close>

record 'w system =
  sys_console :: "'w console_module"
  sys_pyvda :: "'w pyvda_module"
  sys_win32gui :: "'w win32gui_module"
  sys_win32process :: "'w win32process_module"
  sys_win32api :: "'w win32api_module"
  sys_psutil :: "'w psutil_module"
  sys_pathlib :: "'w pathlib_module"
  sys_subprocess :: "'w subprocess_module"
  sys_time :: "'w time_module"

definition DETACHED_PROCESS :: int where "DETACHED_PROCESS = 0x8"
definition CREATE_NEW_CONSOLE :: int where "CREATE_NEW_CONSOLE = 0x10"

text \<open>\<^verbatim>\<open>exe_path\<close> in \<^verbatim>\<open>_launch_app\<close> is a \<^verbatim>\<open>Path\<close> object or a plain string.\<close>

datatype exe_ref = AsPath string | AsStr string

text \<open>Python's truth of an optional string and of an optional handle.\<close>

definition nonempty :: "string option \<Rightarrow> bool" where
  "nonempty s = (s \<noteq> None \<and> s \<noteq> Some [])"

definition found_window :: "hwnd option \<Rightarrow> bool" where
  "found_window h = (h \<noteq> None \<and> h \<noteq> Some 0)"

text \<open>The special cases \<^verbatim>\<open>cmd\<close>, \<^verbatim>\<open>powershell\<close> and \<^verbatim>\<open>wt\<close>.\<close>

definition special_exe :: "'w pathlib_module \<Rightarrow> AppInstance \<Rightarrow> ('w, exe_ref) io" where
  "special_exe pathlib app =
     (let lower = py_lower (ai_exe app)
      in if lower \<in> set [''cmd'', ''cmd.exe'', ''powershell'', ''powershell.exe'', ''wt'', ''wt.exe'']
         then (if py_startswith lower ''cmd''
               then return_io (AsPath ''C:/Windows/System32/cmd.exe'')
               else if py_startswith lower ''powershell''
               then return_io (AsPath ''C:/Windows/System32/WindowsPowerShell/v1.0/powershell.exe'')
               else if py_startswith lower ''wt''
               then bind_io (shutil_which pathlib ''wt.exe'') (\<lambda>wt_found.
                      if nonempty wt_found
                      then (if py_contains (the wt_found) ''WindowsApps''
                            then return_io (AsStr ''wt.exe'')
                            else return_io (AsPath (the wt_found)))
                      else return_io (AsStr ''wt.exe''))
               else return_io (AsPath (ai_exe app)))
         else return_io (AsPath (ai_exe app)))"

text \<open>The search of \<^verbatim>\<open>PATH\<close> for a relative path that does not exist, and the
  second existence test, whose result only decides a log line.\<close>

definition search_path :: "'w pathlib_module \<Rightarrow> exe_ref \<Rightarrow> ('w, exe_ref) io" where
  "search_path pathlib exe_path =
     (case exe_path of
        AsStr s \<Rightarrow> return_io (AsStr s)
      | AsPath p \<Rightarrow>
          bind_io (Path_exists pathlib p) (\<lambda>present.
          bind_io (if \<not> present \<and> \<not> Path_is_absolute pathlib p
                   then bind_io (shutil_which pathlib (Path_str pathlib p)) (\<lambda>found_path.
                          return_io (if nonempty found_path then the found_path else p))
                   else return_io p) (\<lambda>p'.
          then_io (Path_exists pathlib p') (return_io (AsPath p')))))"

definition exe_str :: "'w pathlib_module \<Rightarrow> exe_ref \<Rightarrow> string" where
  "exe_str pathlib exe_path =
     (case exe_path of AsPath p \<Rightarrow> Path_str pathlib p | AsStr s \<Rightarrow> s)"

definition creationflags :: "string \<Rightarrow> int" where
  "creationflags exe_lower =
     (if py_contains exe_lower ''wt.exe'' \<or> exe_lower = ''wt''
         \<or> py_contains exe_lower ''windowsterminal''
      then DETACHED_PROCESS
      else if py_contains exe_lower ''cmd.exe'' \<or> py_contains exe_lower ''powershell.exe''
      then CREATE_NEW_CONSOLE
      else DETACHED_PROCESS)"

definition launch_cwd :: "'w pathlib_module \<Rightarrow> AppInstance \<Rightarrow> ('w, string option) io" where
  "launch_cwd pathlib app =
     (if nonempty (ai_working_dir app)
      then bind_io (Path_exists pathlib (the (ai_working_dir app))) (\<lambda>present.
             return_io (if present then Some (Path_str pathlib (the (ai_working_dir app)))
                        else None))
      else return_io None)"

text \<open>The arguments for Windows Terminal: \<^verbatim>\<open>-d\<close> and the argument after it are
  dropped, an argument with a space is put in double quotes.\<close>

fun filtered_args :: "string list \<Rightarrow> string list" where
  "filtered_args [] = []"
| "filtered_args (arg # args) =
     (if arg = ''-d'' then filtered_args (drop 1 args) else arg # filtered_args args)"

definition quote_arg :: "string \<Rightarrow> string" where
  "quote_arg arg = (if CHR '' '' \<in> set arg then [CHR 0x22] @ arg @ [CHR 0x22] else arg)"

fun join_spaces :: "string list \<Rightarrow> string" where
  "join_spaces [] = []"
| "join_spaces [a] = a"
| "join_spaces (a # b # rest) = a @ '' '' @ join_spaces (b # rest)"

text \<open>The command passed to \<^verbatim>\<open>Popen\<close>: the result is \<^verbatim>\<open>use_shell\<close> (which is also
  \<^verbatim>\<open>is_windows_terminal\<close>), the command (a list, or a string for the shell) and
  the working directory.\<close>

definition launch_command ::
  "'w pathlib_module \<Rightarrow> AppInstance \<Rightarrow> exe_ref \<Rightarrow> string option \<Rightarrow>
   ('w, bool \<times> (string list + string) \<times> string option) io" where
  "launch_command pathlib app exe_path cwd =
     (let cmd = exe_str pathlib exe_path # ai_args app
      in case exe_path of
           AsPath p \<Rightarrow> return_io (False, Inl cmd, cwd)
         | AsStr s \<Rightarrow>
             (if py_lower s = ''wt.exe''
              then bind_io (shutil_which pathlib ''wt.exe'') (\<lambda>wt_location.
                     if nonempty wt_location \<and> py_contains (the wt_location) ''WindowsApps''
                     then bind_io (if nonempty (ai_working_dir app)
                                   then Path_exists pathlib (the (ai_working_dir app))
                                   else return_io False) (\<lambda>use_d.
                            return_io
                              (True,
                               Inr (''wt.exe''
                                    @ (if use_d
                                       then '' -d '' @ [CHR 0x22] @ the (ai_working_dir app) @ [CHR 0x22]
                                       else [])
                                    @ (if filtered_args (ai_args app) \<noteq> []
                                       then '' '' @ join_spaces (map quote_arg (filtered_args (ai_args app)))
                                       else [])),
                               if use_d then None else cwd))
                     else return_io (False, Inl cmd, cwd))
              else return_io (False, Inl cmd, cwd)))"

text \<open>\<^verbatim>\<open>_launch_app\<close> up to the creation of the process: the result is the process
  id, the handles of the windows open before the launch, and
  \<^verbatim>\<open>is_windows_terminal\<close>.\<close>

definition prepare_launch ::
  "'w system \<Rightarrow> VirtualDesktopManager \<Rightarrow> AppInstance \<Rightarrow> int \<Rightarrow> bool \<Rightarrow>
   ('w, int \<times> hwnd list \<times> bool) io" where
  "prepare_launch sys vd app desktop_index skip_desktop_switch =
     bind_io (special_exe (sys_pathlib sys) app) (\<lambda>exe0.
     bind_io (search_path (sys_pathlib sys) exe0) (\<lambda>exe_path.
     bind_io (launch_cwd (sys_pathlib sys) app) (\<lambda>cwd0.
     bind_io (launch_command (sys_pathlib sys) app exe_path cwd0) (\<lambda>(use_shell, cmd, cwd).
     then_io (if \<not> skip_desktop_switch
              then then_io (switch_to_desktop (sys_pyvda sys) (sys_time sys) vd desktop_index)
                           (time_sleep (sys_time sys) 300)
              else return_io ())
    (bind_io (enumerate_windows (sys_win32gui sys) (sys_win32process sys) (sys_psutil sys))
       (\<lambda>windows.
     bind_io (Popen (sys_subprocess sys) cmd use_shell
                (creationflags (py_lower (exe_str (sys_pathlib sys) exe_path))) cwd) (\<lambda>p.
     return_io (p, map wi_hwnd windows, use_shell))))))))"

text \<open>The loop that looks for the window: by process id, then among the
  windows that were not open before. \<open>hwnd\<close> is the value the variable has when
  the loop ends without a \<^verbatim>\<open>break\<close>.\<close>

fun find_launched_window ::
  "'w system \<Rightarrow> int \<Rightarrow> hwnd list \<Rightarrow> nat \<Rightarrow> hwnd option \<Rightarrow> nat list \<Rightarrow> ('w, hwnd option) io" where
  "find_launched_window sys p windows_before window_timeout hwnd [] = return_io hwnd"
| "find_launched_window sys p windows_before window_timeout hwnd (retry # retries) =
     then_io (if 0 < retry then time_sleep (sys_time sys) 2000 else return_io ())
    (bind_io (find_window_by_pid (sys_win32gui sys) (sys_win32process sys) (sys_psutil sys)
                (sys_time sys) p window_timeout None) (\<lambda>by_pid.
       if found_window by_pid then return_io by_pid
       else then_io (time_sleep (sys_time sys) 1000)
           (bind_io (enumerate_windows (sys_win32gui sys) (sys_win32process sys) (sys_psutil sys))
              (\<lambda>windows_now.
                 case filter (\<lambda>w. wi_hwnd w \<notin> set windows_before) windows_now of
                   [] \<Rightarrow> find_launched_window sys p windows_before window_timeout by_pid retries
                 | new_window # others \<Rightarrow> return_io (Some (wi_hwnd new_window))))))"

text \<open>What \<^verbatim>\<open>_launch_app\<close> does with the window it found.\<close>

definition arrange_window ::
  "'w system \<Rightarrow> VirtualDesktopManager \<Rightarrow> AppInstance \<Rightarrow> int \<Rightarrow> hwnd \<Rightarrow> ('w, unit) io" where
  "arrange_window sys vd app desktop_index h =
     then_io (move_window_to_desktop (sys_pyvda sys) (sys_time sys) vd h desktop_index)
    (then_io (time_sleep (sys_time sys) 500)
    (then_io (restore_window (sys_win32gui sys) h)
    (then_io (time_sleep (sys_time sys) 200)
    (then_io (move_window (sys_win32gui sys) (sys_time sys) h
                (wc_x (ai_window app)) (wc_y (ai_window app))
                (wc_width (ai_window app)) (wc_height (ai_window app)))
    (then_io (is_window_responding (sys_win32gui sys) h 5000)
             (return_io ()))))))"

definition window_not_detected :: string where
  "window_not_detected = ''Window not detected (app may be running in background or loading)''"

text \<open>The \<^verbatim>\<open>try\<close> block of \<^verbatim>\<open>_launch_app\<close>.\<close>

definition launch_app_body ::
  "'w system \<Rightarrow> VirtualDesktopManager \<Rightarrow> AppInstance \<Rightarrow> int \<Rightarrow> bool \<Rightarrow> ('w, LaunchResult) io" where
  "launch_app_body sys vd app desktop_index skip_desktop_switch =
     bind_io (prepare_launch sys vd app desktop_index skip_desktop_switch)
       (\<lambda>(p, windows_before, is_windows_terminal).
     bind_io (find_launched_window sys p windows_before
                (if is_windows_terminal then 3000 else 2000) None
                (if is_windows_terminal then [0, 1, 2, 3, 4] else [0, 1, 2])) (\<lambda>hwnd.
       if \<not> found_window hwnd
       then return_io \<lparr>lr_app_id = ai_id app, lr_success = True, lr_pid = Some p,
                       lr_hwnd = None, lr_error = Some window_not_detected\<rparr>
       else then_io (arrange_window sys vd app desktop_index (the hwnd))
              (return_io \<lparr>lr_app_id = ai_id app, lr_success = True, lr_pid = Some p,
                           lr_hwnd = hwnd, lr_error = None\<rparr>)))"

text \<open>\<^verbatim>\<open>_launch_app\<close>: the three handlers differ in the error note only.\<close>

definition launch_app ::
  "'w system \<Rightarrow> VirtualDesktopManager \<Rightarrow> AppInstance \<Rightarrow> int \<Rightarrow> bool \<Rightarrow> ('w, LaunchResult) io" where
  "launch_app sys vd app desktop_index skip_desktop_switch =
     try_except (launch_app_body sys vd app desktop_index skip_desktop_switch)
       (\<lambda>e. return_io
          \<lparr>lr_app_id = ai_id app, lr_success = False, lr_pid = None, lr_hwnd = None,
           lr_error = Some (if e = FileNotFoundError then ''Executable not found: ''
                            else if e = PermissionError then ''Permission denied: ''
                            else [])\<rparr>)"

text \<open>The launcher object: its state goes together with the state of the
  operating system.\<close>

record WorkspaceLauncher =
  vd_manager :: VirtualDesktopManager
  launch_results :: "LaunchResult list"

definition on_system :: "('w, 'a) io \<Rightarrow> (WorkspaceLauncher \<times> 'w, 'a) io" where
  "on_system m = (\<lambda>(self, w). (fst (m w), (self, snd (m w))))"

definition get_launcher :: "(WorkspaceLauncher \<times> 'w, WorkspaceLauncher) io" where
  "get_launcher = (\<lambda>(self, w). (Inr self, (self, w)))"

definition set_results :: "LaunchResult list \<Rightarrow> (WorkspaceLauncher \<times> 'w, unit) io" where
  "set_results rs = (\<lambda>(self, w). (Inr (), (self\<lparr>launch_results := rs\<rparr>, w)))"

definition append_result :: "LaunchResult \<Rightarrow> (WorkspaceLauncher \<times> 'w, unit) io" where
  "append_result r =
     (\<lambda>(self, w). (Inr (), (self\<lparr>launch_results := launch_results self @ [r]\<rparr>, w)))"

text \<open>\<^verbatim>\<open>_group_apps_by_desktop\<close>: the dictionary, as its items in insertion
  order.\<close>

fun group_apps_by_desktop ::
  "(int \<times> AppInstance list) list \<Rightarrow> AppInstance list \<Rightarrow> (int \<times> AppInstance list) list" where
  "group_apps_by_desktop grouped [] = grouped"
| "group_apps_by_desktop grouped (app # apps) =
     group_apps_by_desktop
       (if ai_virtual_desktop app \<in> set (map fst grouped)
        then map (\<lambda>kv. if fst kv = ai_virtual_desktop app then (fst kv, snd kv @ [app]) else kv)
               grouped
        else grouped @ [(ai_virtual_desktop app, [app])])
       apps"

text \<open>A \<^verbatim>\<open>with\<close> block whose \<^verbatim>\<open>__exit__\<close> returns \<^verbatim>\<open>None\<close>: the exit runs however the
  body ends, and an exception of the exit stands in place of the body's
  outcome.\<close>

definition with_block :: "('s, unit) io \<Rightarrow> ('s, 'a) io \<Rightarrow> ('s, unit) io \<Rightarrow> ('s, 'a) io" where
  "with_block enter body exit =
     then_io enter
       (\<lambda>s. (case body s of
                (res, s1) \<Rightarrow>
                  (case exit s1 of
                     (Inl e, s2) \<Rightarrow> (Inl e, s2)
                   | (Inr u, s2) \<Rightarrow> (res, s2))))"

text \<open>The result of an app in a dry run.\<close>

definition dry_run_result :: "AppInstance \<Rightarrow> LaunchResult" where
  "dry_run_result app =
     \<lparr>lr_app_id = ai_id app, lr_success = True, lr_pid = None, lr_hwnd = None,
      lr_error = Some ''Dry run - not launched''\<rparr>"

text \<open>The loop \<^verbatim>\<open>for app in apps\<close> of \<^verbatim>\<open>launch_workspace\<close>.\<close>

fun launch_apps ::
  "'w system \<Rightarrow> VirtualDesktopManager \<Rightarrow> bool \<Rightarrow> bool \<Rightarrow> int \<Rightarrow> AppInstance list \<Rightarrow>
   (WorkspaceLauncher \<times> 'w, unit) io" where
  "launch_apps sys vd dry_run sequential desktop_idx [] = return_io ()"
| "launch_apps sys vd dry_run sequential desktop_idx (app # apps) =
     bind_io (on_system (Progress_add_task (sys_console sys) (ai_id app))) (\<lambda>task.
     bind_io (if dry_run
              then then_io (on_system (console_print (sys_console sys)
                                         (DryRunWouldLaunch (ai_id app))))
                           (return_io (dry_run_result app))
              else on_system (launch_app sys vd app desktop_idx True)) (\<lambda>result.
     then_io (append_result result)
    (then_io (on_system (Progress_update (sys_console sys) task))
    (then_io (on_system (console_print (sys_console sys)
                           (if lr_success result then LaunchedSuccessfully (ai_id app)
                            else LaunchFailed (ai_id app) (lr_error result))))
    (then_io (if sequential \<and> \<not> dry_run then on_system (time_sleep (sys_time sys) 2000)
              else return_io ())
             (launch_apps sys vd dry_run sequential desktop_idx apps))))))"

text \<open>The loop \<^verbatim>\<open>for desktop_idx in sorted(apps_by_desktop.keys())\<close>.\<close>

fun launch_desktops ::
  "'w system \<Rightarrow> VirtualDesktopManager \<Rightarrow> bool \<Rightarrow> bool \<Rightarrow> (int \<times> AppInstance list) list \<Rightarrow>
   int list \<Rightarrow> (WorkspaceLauncher \<times> 'w, unit) io" where
  "launch_desktops sys vd dry_run sequential apps_by_desktop [] = return_io ()"
| "launch_desktops sys vd dry_run sequential apps_by_desktop (desktop_idx # rest) =
     (let apps = (case map_of apps_by_desktop desktop_idx of None \<Rightarrow> [] | Some as \<Rightarrow> as)
      in then_io (if \<not> dry_run \<and> 0 < length apps
                  then on_system
                         (then_io (console_print (sys_console sys) (SwitchingToDesktop desktop_idx))
                         (then_io (switch_to_desktop (sys_pyvda sys) (sys_time sys) vd desktop_idx)
                                  (time_sleep (sys_time sys) 500)))
                  else return_io ())
        (then_io (launch_apps sys vd dry_run sequential desktop_idx apps)
                 (launch_desktops sys vd dry_run sequential apps_by_desktop rest)))"

text \<open>\<^verbatim>\<open>_show_launch_summary\<close>: the heading, the table and the three counts.\<close>

definition show_launch_summary :: "'w console_module \<Rightarrow> (WorkspaceLauncher \<times> 'w, unit) io" where
  "show_launch_summary con =
     bind_io get_launcher (\<lambda>self.
       if launch_results self = [] then return_io ()
       else on_system
              (then_io (console_print con LaunchSummary)
              (then_io (console_print con (SummaryTable (launch_results self)))
              (then_io (console_print con (SummaryTotal (length (launch_results self))))
              (then_io (console_print con
                          (SummarySuccessful (length (filter lr_success (launch_results self)))))
                       (console_print con
                          (SummaryFailed (length (launch_results self)
                             - length (filter lr_success (launch_results self))))))))))"

definition launch_workspace ::
  "'w system \<Rightarrow> Workspace \<Rightarrow> bool \<Rightarrow> bool \<Rightarrow> (WorkspaceLauncher \<times> 'w, bool) io" where
  "launch_workspace sys workspace dry_run sequential =
     then_io (on_system (console_print (sys_console sys) (LaunchingWorkspace (ws_name workspace))))
    (then_io (if ws_description workspace \<noteq> []
              then on_system (console_print (sys_console sys)
                                (WorkspaceDescription (ws_description workspace)))
              else return_io ())
    (if ws_apps workspace = []
     then then_io (on_system (console_print (sys_console sys) NoApplications)) (return_io True)
     else bind_io get_launcher (\<lambda>self.
          then_io (set_results [])
         (then_io (on_system (console_print (sys_console sys)
                                (EnsuringDesktops (get_required_desktops workspace))))
         (then_io (if \<not> dry_run
                   then on_system
                          (bind_io (ensure_desktop_count (sys_pyvda sys) (sys_win32api sys)
                                      (sys_time sys) (vd_manager self)
                                      (get_required_desktops workspace)) (\<lambda>ensured.
                           if \<not> ensured then console_print (sys_console sys) DesktopWarning
                           else return_io ()))
                   else return_io ())
         (then_io (on_system (console_print (sys_console sys)
                                (LaunchingApplications (length (ws_apps workspace)))))
         (then_io (with_block (on_system (Progress_enter (sys_console sys)))
                     (launch_desktops sys (vd_manager self) dry_run sequential
                        (group_apps_by_desktop [] (ws_apps workspace))
                        (sort (map fst (group_apps_by_desktop [] (ws_apps workspace)))))
                     (on_system (Progress_exit (sys_console sys))))
         (then_io (show_launch_summary (sys_console sys))
         (bind_io get_launcher (\<lambda>self'.
            return_io (filter (\<lambda>r. \<not> lr_success r) (launch_results self') = [])))))))))))"

definition get_failed_apps :: "WorkspaceLauncher \<Rightarrow> string list" where
  "get_failed_apps self = map lr_app_id (filter (\<lambda>r. \<not> lr_success r) (launch_results self))"

text \<open>The loop of \<^verbatim>\<open>retry_failed_apps\<close>, with \<^verbatim>\<open>all_success\<close> as it stands.\<close>

fun retry_apps ::
  "'w system \<Rightarrow> VirtualDesktopManager \<Rightarrow> bool \<Rightarrow> AppInstance list \<Rightarrow>
   (WorkspaceLauncher \<times> 'w, bool) io" where
  "retry_apps sys vd all_success [] = return_io all_success"
| "retry_apps sys vd all_success (app # apps) =
     then_io (on_system (console_print (sys_console sys) (Retrying (ai_id app))))
    (bind_io (on_system (launch_app sys vd app (ai_virtual_desktop app) False)) (\<lambda>result.
     then_io (append_result result)
    (then_io (on_system (console_print (sys_console sys)
                           (if lr_success result then LaunchedOnRetry (ai_id app)
                            else FailedAgain (ai_id app) (lr_error result))))
    (then_io (on_system (time_sleep (sys_time sys) 1000))
             (retry_apps sys vd (all_success \<and> lr_success result) apps)))))"

definition retry_failed_apps ::
  "'w system \<Rightarrow> Workspace \<Rightarrow> (WorkspaceLauncher \<times> 'w, bool) io" where
  "retry_failed_apps sys workspace =
     bind_io get_launcher (\<lambda>self.
       let failed_ids = get_failed_apps self
       in if failed_ids = []
          then then_io (on_system (console_print (sys_console sys) NoFailedApplications))
                       (return_io True)
          else then_io (on_system (console_print (sys_console sys)
                                     (RetryingFailed (length failed_ids))))
              (then_io (set_results
                          (filter (\<lambda>r. lr_app_id r \<notin> set failed_ids) (launch_results self)))
                 (retry_apps sys (vd_manager self) True
                    (filter (\<lambda>app. ai_id app \<in> set failed_ids) (ws_apps workspace)))))"

text \<open>Sample consoles. \<open>quiet_console\<close> accepts every text. \<open>markup_console\<close> rejects
  a text as \<^verbatim>\<open>rich\<close> rejects a closing tag that closes nothing: the sample takes
  a value that contains \<^verbatim>\<open>[/\<close> for such a tag.\<close>

definition quiet_console :: "unit console_module" where
  "quiet_console =
     \<lparr>console_print = (\<lambda>t. return_io ()),
      Progress_enter = return_io (),
      Progress_add_task = (\<lambda>i. return_io 0),
      Progress_update = (\<lambda>k. return_io ()),
      Progress_exit = return_io ()\<rparr>"

fun values_put_in :: "console_text \<Rightarrow> string list" where
  "values_put_in (LaunchingWorkspace n) = [n]"
| "values_put_in (WorkspaceDescription d) = [d]"
| "values_put_in (DryRunWouldLaunch i) = [i]"
| "values_put_in (LaunchedSuccessfully i) = [i]"
| "values_put_in (LaunchFailed i e) = [i, (case e of None \<Rightarrow> ''None'' | Some t \<Rightarrow> t)]"
| "values_put_in (SummaryTable rs) =
     concat (map (\<lambda>r. [lr_app_id r, (case lr_error r of None \<Rightarrow> [] | Some t \<Rightarrow> t)]) rs)"
| "values_put_in (Retrying i) = [i]"
| "values_put_in (LaunchedOnRetry i) = [i]"
| "values_put_in (FailedAgain i e) = [i, (case e of None \<Rightarrow> ''None'' | Some t \<Rightarrow> t)]"
| "values_put_in _ = []"

definition markup_console :: "unit console_module" where
  "markup_console =
     \<lparr>console_print =
        (\<lambda>t. if list_ex (\<lambda>v. py_contains v ''[/'') (values_put_in t)
             then raise_io MarkupError else return_io ()),
      Progress_enter = return_io (),
      Progress_add_task =
        (\<lambda>i. if py_contains i ''[/'' then raise_io MarkupError else return_io 0),
      Progress_update = (\<lambda>k. return_io ()),
      Progress_exit = return_io ()\<rparr>"

text \<open>A system in which nothing is installed and no window ever shows: every
  path exists, \<^verbatim>\<open>shutil.which\<close> finds nothing, \<^verbatim>\<open>Popen\<close> starts process 4321, no
  process can be inspected. In \<open>no_such_file_system\<close> \<^verbatim>\<open>Popen\<close> raises
  \<open>FileNotFoundError\<close> instead.\<close>

definition sample_system :: "unit system" where
  "sample_system =
     \<lparr>sys_console = quiet_console,
      sys_pyvda = failing_pyvda,
      sys_win32gui = fixed_win32gui ''Notepad'' (0, 0, 800, 600),
      sys_win32process = \<lparr>GetWindowThreadProcessId = (\<lambda>h. raise_io OSError)\<rparr>,
      sys_win32api = failing_win32api,
      sys_psutil =
        \<lparr>Process = (\<lambda>p. raise_io NoSuchProcess),
         Process_name = (\<lambda>p. raise_io NoSuchProcess),
         Process_exe = (\<lambda>p. raise_io NoSuchProcess),
         Process_cmdline = (\<lambda>p. raise_io NoSuchProcess),
         Process_cwd = (\<lambda>p. raise_io NoSuchProcess),
         Process_create_time = (\<lambda>p. raise_io NoSuchProcess),
         Process_terminate = (\<lambda>p. raise_io NoSuchProcess)\<rparr>,
      sys_pathlib =
        \<lparr>Path_name = (\<lambda>p. p), Path_str = (\<lambda>p. p), Path_is_absolute = (\<lambda>p. True),
         Path_exists = (\<lambda>p. return_io True), shutil_which = (\<lambda>p. return_io None)\<rparr>,
      sys_subprocess =
        \<lparr>Popen = (\<lambda>cmd shell flags cwd. return_io 4321),
         subprocess_run = (\<lambda>cmd. return_io ())\<rparr>,
      sys_time = still_time\<rparr>"

definition no_such_file_system :: "unit system" where
  "no_such_file_system =
     sample_system\<lparr>sys_subprocess :=
        \<lparr>Popen = (\<lambda>cmd shell flags cwd. raise_io FileNotFoundError),
         subprocess_run = (\<lambda>cmd. return_io ())\<rparr>\<rparr>"

definition sample_app :: "string \<Rightarrow> string \<Rightarrow> AppInstance" where
  "sample_app i exe =
     \<lparr>ai_id = i, ai_exe = exe, ai_args = [], ai_working_dir = None, ai_virtual_desktop = 0,
      ai_window = \<lparr>wc_x = 0, wc_y = 0, wc_width = 800, wc_height = 600\<rparr>\<rparr>"

text \<open>The same system with the console that rejects broken markup, and a
  workspace of two apps, the first on the second desktop.\<close>

definition markup_system :: "unit system" where
  "markup_system = sample_system\<lparr>sys_console := markup_console\<rparr>"

definition sample_workspace :: Workspace where
  "sample_workspace =
     \<lparr>ws_name = ''dev'', ws_description = ''two apps'',
      ws_apps = [(sample_app ''a'' ''notepad.exe'')\<lparr>ai_virtual_desktop := 1\<rparr>,
                 sample_app ''b'' ''calc.exe'']\<rparr>"

section \<open>Properties of the data model\<close>

lemma and_then_Inr [simp]: "and_then (Inr a) f = f a"
  by (simp add: and_then_def)

lemma and_then_Inl [simp]: "and_then (Inl e) f = Inl e"
  by (simp add: and_then_def)

lemma as_str_list_items_map: "as_str_list_items (map PStr ss) = Inr ss"
  by (induction ss) simp_all

lemma WindowConfig_roundtrip: "WindowConfig_from_dict (WindowConfig_to_dict c) = Inr c"
  by (simp add: WindowConfig_from_dict_def WindowConfig_to_dict_def)

lemma AppInstance_roundtrip: "AppInstance_from_dict (AppInstance_to_dict a) = Inr a"
proof -
  have wd: "as_opt_str (case ai_working_dir a of None \<Rightarrow> PNone | Some d \<Rightarrow> PStr d) = Inr (ai_working_dir a)"
    by (cases "ai_working_dir a") simp_all
  show ?thesis
    by (simp add: AppInstance_from_dict_def AppInstance_to_dict_def WindowConfig_roundtrip
        as_str_list_items_map wd)
qed

lemma AppInstance_from_dicts_roundtrip:
  "AppInstance_from_dicts (map AppInstance_to_dict as) = Inr as"
  by (induction as) (simp_all add: AppInstance_roundtrip)

lemma Workspace_roundtrip: "Workspace_from_dict (Workspace_to_dict w) = Inr w"
  by (simp add: Workspace_from_dict_def Workspace_to_dict_def AppInstance_from_dicts_roundtrip)

text \<open>
  C7. For every workspace, \<^verbatim>\<open>to_dict\<close> followed by \<^verbatim>\<open>from_dict\<close> returns (it does
  not raise) a workspace with the same name, the same description and the
  same list of apps, every field of every app included, and
  \<^verbatim>\<open>get_required_desktops\<close> has the same value on both.
\<close>

theorem C7_workspace_roundtrip:
  "\<exists>w'. Workspace_from_dict (Workspace_to_dict w) = Inr w'
      \<and> ws_name w' = ws_name w
      \<and> ws_description w' = ws_description w
      \<and> ws_apps w' = ws_apps w
      \<and> get_required_desktops w' = get_required_desktops w"
  by (simp add: Workspace_roundtrip)

lemma WindowConfig_from_dict_fields:
  assumes "map_of kvs ''x'' = map_option PInt ox" and "map_of kvs ''y'' = map_option PInt oy"
      and "map_of kvs ''width'' = map_option PInt ow" and "map_of kvs ''height'' = map_option PInt oh"
  shows "WindowConfig_from_dict (PDict kvs) =
          Inr \<lparr>wc_x = (case ox of None \<Rightarrow> 0 | Some v \<Rightarrow> v),
               wc_y = (case oy of None \<Rightarrow> 0 | Some v \<Rightarrow> v),
               wc_width = (case ow of None \<Rightarrow> 800 | Some v \<Rightarrow> v),
               wc_height = (case oh of None \<Rightarrow> 600 | Some v \<Rightarrow> v)\<rparr>"
  using assms by (cases ox; cases oy; cases ow; cases oh) (simp_all add: WindowConfig_from_dict_def)

lemma AppInstance_from_dict_window:
  assumes "AppInstance_from_dict (PDict akvs) = Inr a"
  shows "WindowConfig_from_dict (case map_of akvs ''window'' of None \<Rightarrow> PDict [] | Some v \<Rightarrow> v)
           = Inr (ai_window a)"
  using assms
  by (auto simp: AppInstance_from_dict_def and_then_def split: sum.splits option.splits)

lemma AppInstance_from_dict_typed:
  assumes "map_of akvs ''id'' = Some (PStr i)" and "map_of akvs ''exe'' = Some (PStr e)"
      and "map_of akvs ''args'' = map_option (\<lambda>ss. PList (map PStr ss)) oargs"
      and "map_of akvs ''working_dir'' = map_option (\<lambda>d. case d of None \<Rightarrow> PNone | Some s \<Rightarrow> PStr s) owd"
      and "map_of akvs ''virtual_desktop'' = map_option PInt ovd"
      and "map_of akvs ''window'' = map_option PDict owin"
      and "WindowConfig_from_dict (PDict (case owin of None \<Rightarrow> [] | Some kvs \<Rightarrow> kvs)) = Inr win"
  shows "AppInstance_from_dict (PDict akvs) =
     Inr \<lparr>ai_id = i, ai_exe = e,
          ai_args = (case oargs of None \<Rightarrow> [] | Some ss \<Rightarrow> ss),
          ai_working_dir = (case owd of None \<Rightarrow> None | Some d \<Rightarrow> d),
          ai_virtual_desktop = (case ovd of None \<Rightarrow> 0 | Some v \<Rightarrow> v),
          ai_window = win\<rparr>"
proof -
  have wd: "as_opt_str (case d of None \<Rightarrow> PNone | Some s \<Rightarrow> PStr s) = Inr d" for d
    by (cases d) simp_all
  show ?thesis
    using assms
    by (cases oargs; cases owd; cases ovd; cases owin)
       (simp_all add: AppInstance_from_dict_def as_str_list_items_map wd)
qed

text \<open>
  C10. Decoding defaults each window coordinate on its own. For a window
  object in which each of \<^verbatim>\<open>x\<close>, \<^verbatim>\<open>y\<close>, \<^verbatim>\<open>width\<close>, \<^verbatim>\<open>height\<close> is either absent or
  an integer (whatever other keys it has), \<^verbatim>\<open>WindowConfig.from_dict\<close> returns
  the integers that are present and 0, 0, 800, 600 for the absent ones; so
  \<^verbatim>\<open>{"x": 5}\<close> decodes to \<^verbatim>\<open>WindowConfig(5, 0, 800, 600)\<close>. An app dictionary
  without the key \<^verbatim>\<open>window\<close>, when it decodes, has the window
  \<^verbatim>\<open>WindowConfig(0, 0, 800, 600)\<close>; an app dictionary whose \<^verbatim>\<open>window\<close> is such an
  object, when it decodes, has the window with the integers that are present
  and the default of each absent coordinate. \<^verbatim>\<open>AppInstance.from_dict\<close> does decode
  an app dictionary whose \<^verbatim>\<open>id\<close> and \<^verbatim>\<open>exe\<close> are strings, whose \<^verbatim>\<open>args\<close>,
  \<^verbatim>\<open>working_dir\<close> and \<^verbatim>\<open>virtual_desktop\<close> are absent or of their type, and whose
  \<^verbatim>\<open>window\<close> is absent or such an object, to the app with that window; so the
  app \<^verbatim>\<open>{"id": "a", "exe": "notepad.exe", "window": {"x": 5}}\<close> has the window
  \<^verbatim>\<open>WindowConfig(5, 0, 800, 600)\<close>.
\<close>

theorem C10_window_defaults:
  "(map_of kvs ''x'' = map_option PInt ox \<and> map_of kvs ''y'' = map_option PInt oy
      \<and> map_of kvs ''width'' = map_option PInt ow \<and> map_of kvs ''height'' = map_option PInt oh
    \<longrightarrow> WindowConfig_from_dict (PDict kvs) =
          Inr \<lparr>wc_x = (case ox of None \<Rightarrow> 0 | Some v \<Rightarrow> v),
               wc_y = (case oy of None \<Rightarrow> 0 | Some v \<Rightarrow> v),
               wc_width = (case ow of None \<Rightarrow> 800 | Some v \<Rightarrow> v),
               wc_height = (case oh of None \<Rightarrow> 600 | Some v \<Rightarrow> v)\<rparr>)
   \<and> WindowConfig_from_dict (PDict [(''x'', PInt 5)]) =
          Inr \<lparr>wc_x = 5, wc_y = 0, wc_width = 800, wc_height = 600\<rparr>
   \<and> (map_of akvs ''window'' = None \<and> AppInstance_from_dict (PDict akvs) = Inr a
    \<longrightarrow> ai_window a = \<lparr>wc_x = 0, wc_y = 0, wc_width = 800, wc_height = 600\<rparr>)
   \<and> (map_of akvs ''window'' = Some (PDict kvs)
      \<and> map_of kvs ''x'' = map_option PInt ox \<and> map_of kvs ''y'' = map_option PInt oy
      \<and> map_of kvs ''width'' = map_option PInt ow \<and> map_of kvs ''height'' = map_option PInt oh
      \<and> AppInstance_from_dict (PDict akvs) = Inr a
    \<longrightarrow> ai_window a =
          \<lparr>wc_x = (case ox of None \<Rightarrow> 0 | Some v \<Rightarrow> v),
           wc_y = (case oy of None \<Rightarrow> 0 | Some v \<Rightarrow> v),
           wc_width = (case ow of None \<Rightarrow> 800 | Some v \<Rightarrow> v),
           wc_height = (case oh of None \<Rightarrow> 600 | Some v \<Rightarrow> v)\<rparr>)
   \<and> (map_of akvs ''id'' = Some (PStr i) \<and> map_of akvs ''exe'' = Some (PStr e)
      \<and> map_of akvs ''args'' = map_option (\<lambda>ss. PList (map PStr ss)) oargs
      \<and> map_of akvs ''working_dir'' =
          map_option (\<lambda>d. case d of None \<Rightarrow> PNone | Some s \<Rightarrow> PStr s) owd
      \<and> map_of akvs ''virtual_desktop'' = map_option PInt ovd
      \<and> (map_of akvs ''window'' = None \<and> kvs = [] \<or> map_of akvs ''window'' = Some (PDict kvs))
      \<and> map_of kvs ''x'' = map_option PInt ox \<and> map_of kvs ''y'' = map_option PInt oy
      \<and> map_of kvs ''width'' = map_option PInt ow \<and> map_of kvs ''height'' = map_option PInt oh
    \<longrightarrow> AppInstance_from_dict (PDict akvs) =
          Inr \<lparr>ai_id = i, ai_exe = e,
               ai_args = (case oargs of None \<Rightarrow> [] | Some ss \<Rightarrow> ss),
               ai_working_dir = (case owd of None \<Rightarrow> None | Some d \<Rightarrow> d),
               ai_virtual_desktop = (case ovd of None \<Rightarrow> 0 | Some v \<Rightarrow> v),
               ai_window =
                 \<lparr>wc_x = (case ox of None \<Rightarrow> 0 | Some v \<Rightarrow> v),
                  wc_y = (case oy of None \<Rightarrow> 0 | Some v \<Rightarrow> v),
                  wc_width = (case ow of None \<Rightarrow> 800 | Some v \<Rightarrow> v),
                  wc_height = (case oh of None \<Rightarrow> 600 | Some v \<Rightarrow> v)\<rparr>\<rparr>)
   \<and> AppInstance_from_dict
        (PDict [(''id'', PStr ''a''), (''exe'', PStr ''notepad.exe''),
                (''window'', PDict [(''x'', PInt 5)])]) =
          Inr \<lparr>ai_id = ''a'', ai_exe = ''notepad.exe'', ai_args = [], ai_working_dir = None,
               ai_virtual_desktop = 0,
               ai_window = \<lparr>wc_x = 5, wc_y = 0, wc_width = 800, wc_height = 600\<rparr>\<rparr>"
proof (intro conjI impI)
  assume h: "map_of kvs ''x'' = map_option PInt ox \<and> map_of kvs ''y'' = map_option PInt oy
      \<and> map_of kvs ''width'' = map_option PInt ow \<and> map_of kvs ''height'' = map_option PInt oh"
  then show "WindowConfig_from_dict (PDict kvs) =
          Inr \<lparr>wc_x = (case ox of None \<Rightarrow> 0 | Some v \<Rightarrow> v),
               wc_y = (case oy of None \<Rightarrow> 0 | Some v \<Rightarrow> v),
               wc_width = (case ow of None \<Rightarrow> 800 | Some v \<Rightarrow> v),
               wc_height = (case oh of None \<Rightarrow> 600 | Some v \<Rightarrow> v)\<rparr>"
    by (simp add: WindowConfig_from_dict_fields)
next
  show "WindowConfig_from_dict (PDict [(''x'', PInt 5)]) =
          Inr \<lparr>wc_x = 5, wc_y = 0, wc_width = 800, wc_height = 600\<rparr>"
    by (simp add: WindowConfig_from_dict_def)
next
  assume h: "map_of akvs ''window'' = None \<and> AppInstance_from_dict (PDict akvs) = Inr a"
  have empty: "WindowConfig_from_dict (PDict []) =
      Inr \<lparr>wc_x = 0, wc_y = 0, wc_width = 800, wc_height = 600\<rparr>"
    by (simp add: WindowConfig_from_dict_def)
  from h AppInstance_from_dict_window [of akvs a]
  show "ai_window a = \<lparr>wc_x = 0, wc_y = 0, wc_width = 800, wc_height = 600\<rparr>"
    by (simp add: empty)
next
  assume h: "map_of akvs ''window'' = Some (PDict kvs)
      \<and> map_of kvs ''x'' = map_option PInt ox \<and> map_of kvs ''y'' = map_option PInt oy
      \<and> map_of kvs ''width'' = map_option PInt ow \<and> map_of kvs ''height'' = map_option PInt oh
      \<and> AppInstance_from_dict (PDict akvs) = Inr a"
  from h AppInstance_from_dict_window [of akvs a]
    WindowConfig_from_dict_fields [of kvs ox oy ow oh]
  show "ai_window a =
          \<lparr>wc_x = (case ox of None \<Rightarrow> 0 | Some v \<Rightarrow> v),
           wc_y = (case oy of None \<Rightarrow> 0 | Some v \<Rightarrow> v),
           wc_width = (case ow of None \<Rightarrow> 800 | Some v \<Rightarrow> v),
           wc_height = (case oh of None \<Rightarrow> 600 | Some v \<Rightarrow> v)\<rparr>"
    by simp
next
  assume h: "map_of akvs ''id'' = Some (PStr i) \<and> map_of akvs ''exe'' = Some (PStr e)
      \<and> map_of akvs ''args'' = map_option (\<lambda>ss. PList (map PStr ss)) oargs
      \<and> map_of akvs ''working_dir'' =
          map_option (\<lambda>d. case d of None \<Rightarrow> PNone | Some s \<Rightarrow> PStr s) owd
      \<and> map_of akvs ''virtual_desktop'' = map_option PInt ovd
      \<and> (map_of akvs ''window'' = None \<and> kvs = [] \<or> map_of akvs ''window'' = Some (PDict kvs))
      \<and> map_of kvs ''x'' = map_option PInt ox \<and> map_of kvs ''y'' = map_option PInt oy
      \<and> map_of kvs ''width'' = map_option PInt ow \<and> map_of kvs ''height'' = map_option PInt oh"
  define owin where "owin = (if map_of akvs ''window'' = None then None else Some kvs)"
  have win: "map_of akvs ''window'' = map_option PDict owin"
    using h by (auto simp: owin_def)
  have same: "(case owin of None \<Rightarrow> [] | Some d \<Rightarrow> d) = kvs"
    using h by (auto simp: owin_def)
  have decoded: "WindowConfig_from_dict (PDict (case owin of None \<Rightarrow> [] | Some d \<Rightarrow> d)) =
          Inr \<lparr>wc_x = (case ox of None \<Rightarrow> 0 | Some v \<Rightarrow> v),
               wc_y = (case oy of None \<Rightarrow> 0 | Some v \<Rightarrow> v),
               wc_width = (case ow of None \<Rightarrow> 800 | Some v \<Rightarrow> v),
               wc_height = (case oh of None \<Rightarrow> 600 | Some v \<Rightarrow> v)\<rparr>"
    unfolding same using h by (simp add: WindowConfig_from_dict_fields)
  from h show "AppInstance_from_dict (PDict akvs) =
          Inr \<lparr>ai_id = i, ai_exe = e,
               ai_args = (case oargs of None \<Rightarrow> [] | Some ss \<Rightarrow> ss),
               ai_working_dir = (case owd of None \<Rightarrow> None | Some d \<Rightarrow> d),
               ai_virtual_desktop = (case ovd of None \<Rightarrow> 0 | Some v \<Rightarrow> v),
               ai_window =
                 \<lparr>wc_x = (case ox of None \<Rightarrow> 0 | Some v \<Rightarrow> v),
                  wc_y = (case oy of None \<Rightarrow> 0 | Some v \<Rightarrow> v),
                  wc_width = (case ow of None \<Rightarrow> 800 | Some v \<Rightarrow> v),
                  wc_height = (case oh of None \<Rightarrow> 600 | Some v \<Rightarrow> v)\<rparr>\<rparr>"
    by (intro AppInstance_from_dict_typed [OF _ _ _ _ _ win decoded]) simp_all
next
  show "AppInstance_from_dict
        (PDict [(''id'', PStr ''a''), (''exe'', PStr ''notepad.exe''),
                (''window'', PDict [(''x'', PInt 5)])]) =
          Inr \<lparr>ai_id = ''a'', ai_exe = ''notepad.exe'', ai_args = [], ai_working_dir = None,
               ai_virtual_desktop = 0,
               ai_window = \<lparr>wc_x = 5, wc_y = 0, wc_width = 800, wc_height = 600\<rparr>\<rparr>"
    by (simp add: AppInstance_from_dict_def WindowConfig_from_dict_def)
qed

theorem C10_window_defaults_witness:
  "map_of [(''id'', PStr ''a''), (''exe'', PStr ''cmd'')] ''window'' = None
   \<and> AppInstance_from_dict (PDict [(''id'', PStr ''a''), (''exe'', PStr ''cmd'')]) =
      Inr \<lparr>ai_id = ''a'', ai_exe = ''cmd'', ai_args = [], ai_working_dir = None,
           ai_virtual_desktop = 0,
           ai_window = \<lparr>wc_x = 0, wc_y = 0, wc_width = 800, wc_height = 600\<rparr>\<rparr>
   \<and> map_of [(''id'', PStr ''b''), (''exe'', PStr ''wt''), (''virtual_desktop'', PInt 2),
              (''window'', PDict [(''y'', PInt 7), (''title'', PStr ''t''), (''height'', PInt 9)])]
        ''window'' = Some (PDict [(''y'', PInt 7), (''title'', PStr ''t''), (''height'', PInt 9)])
   \<and> map_of [(''y'', PInt 7), (''title'', PStr ''t''), (''height'', PInt 9)] ''x'' = None
   \<and> map_of [(''y'', PInt 7), (''title'', PStr ''t''), (''height'', PInt 9)] ''y'' = Some (PInt 7)
   \<and> map_of [(''y'', PInt 7), (''title'', PStr ''t''), (''height'', PInt 9)] ''width'' = None
   \<and> map_of [(''y'', PInt 7), (''title'', PStr ''t''), (''height'', PInt 9)] ''height''
        = Some (PInt 9)
   \<and> WindowConfig_from_dict (PDict [(''y'', PInt 7), (''title'', PStr ''t''), (''height'', PInt 9)])
        = Inr \<lparr>wc_x = 0, wc_y = 7, wc_width = 800, wc_height = 9\<rparr>
   \<and> AppInstance_from_dict
        (PDict [(''id'', PStr ''b''), (''exe'', PStr ''wt''), (''virtual_desktop'', PInt 2),
                (''window'', PDict [(''y'', PInt 7), (''title'', PStr ''t''), (''height'', PInt 9)])])
        = Inr \<lparr>ai_id = ''b'', ai_exe = ''wt'', ai_args = [], ai_working_dir = None,
               ai_virtual_desktop = 2,
               ai_window = \<lparr>wc_x = 0, wc_y = 7, wc_width = 800, wc_height = 9\<rparr>\<rparr>"
  using C10_window_defaults
    [where kvs = "[]" and ox = None and oy = None and ow = None and oh = None
       and akvs = "[(''id'', PStr ''a''), (''exe'', PStr ''cmd'')]"
       and i = "''a''" and e = "''cmd''" and oargs = None and owd = None and ovd = None
       and a = "\<lparr>ai_id = ''a'', ai_exe = ''cmd'', ai_args = [], ai_working_dir = None,
           ai_virtual_desktop = 0,
           ai_window = \<lparr>wc_x = 0, wc_y = 0, wc_width = 800, wc_height = 600\<rparr>\<rparr>"]
    C10_window_defaults
    [where kvs = "[(''y'', PInt 7), (''title'', PStr ''t''), (''height'', PInt 9)]"
       and ox = None and oy = "Some 7" and ow = None and oh = "Some 9"
       and akvs = "[(''id'', PStr ''b''), (''exe'', PStr ''wt''), (''virtual_desktop'', PInt 2),
              (''window'', PDict [(''y'', PInt 7), (''title'', PStr ''t''), (''height'', PInt 9)])]"
       and i = "''b''" and e = "''wt''" and oargs = None and owd = None and ovd = "Some 2"
       and a = "\<lparr>ai_id = ''b'', ai_exe = ''wt'', ai_args = [], ai_working_dir = None,
               ai_virtual_desktop = 2,
               ai_window = \<lparr>wc_x = 0, wc_y = 7, wc_width = 800, wc_height = 9\<rparr>\<rparr>"]
  by (simp add: AppInstance_from_dict_def WindowConfig_from_dict_def)

section \<open>Properties of the virtual-desktop layer\<close>

lemma bind_io_return [simp]: "bind_io (return_io a) f = f a"
  by (simp add: bind_io_def return_io_def)

lemma return_io_apply [simp]: "return_io a w = (Inr a, w)"
  by (simp add: return_io_def)

lemma raise_io_apply [simp]: "raise_io e w = (Inl e, w)"
  by (simp add: raise_io_def)

text \<open>
  C6. With the virtual-desktop capability flagged unavailable, in every state
  and without touching it: \<^verbatim>\<open>get_desktop_count\<close> returns 1;
  \<^verbatim>\<open>ensure_desktop_count(n)\<close> returns whether \<open>n \<le> 1\<close>; for every window handle,
  \<^verbatim>\<open>move_window_to_desktop(h, i)\<close> returns whether \<open>i = 0\<close>; and
  \<^verbatim>\<open>switch_to_desktop(i)\<close> returns whether \<open>i = 0\<close>.
\<close>

theorem C6_unavailable_degradation:
  "\<not> pyvda_available self \<Longrightarrow>
     get_desktop_count pyvda self w = (Inr 1, w)
   \<and> ensure_desktop_count pyvda win32api tm self n w = (Inr (n \<le> 1), w)
   \<and> move_window_to_desktop pyvda tm self h i w = (Inr (i = 0), w)
   \<and> switch_to_desktop pyvda tm self i w = (Inr (i = 0), w)"
  by (simp add: get_desktop_count_def ensure_desktop_count_def move_window_to_desktop_def
      switch_to_desktop_def)

theorem C6_unavailable_degradation_witness:
  "\<not> pyvda_available (VirtualDesktopManager_init False)
   \<and> get_desktop_count failing_pyvda (VirtualDesktopManager_init False) () = (Inr 1, ())
   \<and> ensure_desktop_count failing_pyvda failing_win32api still_time
        (VirtualDesktopManager_init False) 1 () = (Inr True, ())
   \<and> ensure_desktop_count failing_pyvda failing_win32api still_time
        (VirtualDesktopManager_init False) 2 () = (Inr False, ())
   \<and> move_window_to_desktop failing_pyvda still_time (VirtualDesktopManager_init False) 42 0 ()
        = (Inr True, ())
   \<and> move_window_to_desktop failing_pyvda still_time (VirtualDesktopManager_init False) 42 1 ()
        = (Inr False, ())
   \<and> switch_to_desktop failing_pyvda still_time (VirtualDesktopManager_init False) 1 ()
        = (Inr False, ())"
proof -
  have off: "\<not> pyvda_available (VirtualDesktopManager_init False)"
    by (simp add: VirtualDesktopManager_init_def)
  show ?thesis
    using off
      C6_unavailable_degradation [OF off, of failing_pyvda "()" failing_win32api still_time 1 42 0]
      C6_unavailable_degradation [OF off, of failing_pyvda "()" failing_win32api still_time 2 42 1]
    by simp
qed

section \<open>Properties of the capture filter\<close>

lemma py_strip_Nil [simp]: "py_strip [] = []"
  by (simp add: py_strip_def)

text \<open>
  What the filter keeps. Both tests stand under \<^verbatim>\<open>if window.exe_path:\<close>: of the
  windows whose executable path is known (neither \<^verbatim>\<open>None\<close> nor empty) it drops
  those whose executable name, lower-cased, is one of the seven shell-surface
  executables and those whose title is empty or blank; a window without an
  executable path is appended untested. The windows kept stay in order.
\<close>

lemma filter_system_windows_kept:
  "filter_system_windows path_name windows =
     filter (\<lambda>window.
        case wi_exe_path window of
          None \<Rightarrow> True
        | Some p \<Rightarrow> p = [] \<or>
            (py_lower (path_name p) \<notin>
               {''explorer.exe'', ''searchui.exe'', ''searchapp.exe'', ''shellexperiencehost.exe'',
                ''systemsettings.exe'', ''textinputhost.exe'', ''lockapp.exe''}
             \<and> py_strip (wi_title window) \<noteq> []))
       windows"
proof (induction windows)
  case Nil
  show ?case by simp
next
  case (Cons window windows)
  show ?case
  proof (cases "wi_exe_path window")
    case None
    with Cons show ?thesis by simp
  next
    case (Some p)
    have blank: "(wi_title window = [] \<or> py_strip (wi_title window) = [])
        = (py_strip (wi_title window) = [])"
      by auto
    from Some Cons blank show ?thesis
      by (simp add: system_processes_def)
  qed
qed

text \<open>
  C9. A window with an empty or blank title is to be dropped; the comment
  \<^verbatim>\<open># Skip windows with no title (usually hidden)\<close> says so of the title test,
  which does not look at the executable. The test is nested under \<^verbatim>\<open>if window.exe_path:\<close>, so it is not
  run for a window whose process could not be inspected
  (\<^verbatim>\<open>get_process_info\<close> returned \<^verbatim>\<open>None\<close>). Here the filter is run on one such
  window, titled with a single space: the title is blank and the window is
  kept.
\<close>

theorem C9_blank_title_kept:
  "py_strip (wi_title
      \<lparr>wi_hwnd = 1, wi_title = '' '', wi_class_name = ''ApplicationFrameWindow'',
       wi_rect = (0, 0, 800, 600), wi_pid = 10, wi_exe_path = None, wi_is_visible = True\<rparr>) = []
   \<and> filter_system_windows (\<lambda>p. p)
     [\<lparr>wi_hwnd = 1, wi_title = '' '', wi_class_name = ''ApplicationFrameWindow'',
       wi_rect = (0, 0, 800, 600), wi_pid = 10, wi_exe_path = None, wi_is_visible = True\<rparr>]
   = [\<lparr>wi_hwnd = 1, wi_title = '' '', wi_class_name = ''ApplicationFrameWindow'',
       wi_rect = (0, 0, 800, 600), wi_pid = 10, wi_exe_path = None, wi_is_visible = True\<rparr>]"
  by code_simp

section \<open>Properties of the window layer\<close>

lemmas io_defs =
  bind_io_def then_io_def try_except_def try_except_only_def time_sleep_def raises_def

lemma move_window_attempts_class:
  assumes "get_class_name_safe win32gui h w = (Inr cls, w0)"
      and "move_window_attempts win32gui tm h x y width height w = (Inr c, w1)"
    shows "c = (cls \<in> set console_classes)"
  using assms
  by (auto simp: move_window_attempts_def bind_io_def then_io_def Let_def
      split: prod.splits sum.splits)

text \<open>
  C5. Let the positioning attempts of \<^verbatim>\<open>move_window(hwnd, x, y, width, height)\<close>
  complete, on a window of class \<open>cls\<close>, and let the read of the rectangle that
  follows them return \<open>(l, t, r, b)\<close>. The tolerance is 100 for a
  console class and 50 otherwise; a difference is within tolerance when its
  absolute value is below the tolerance. Then the call returns: success when
  position and size are both within tolerance; when the size is and the
  position is not, success if and only if the class is a console class;
  failure when the size is not within tolerance.
\<close>

theorem C5_move_window_verification:
  assumes cls: "get_class_name_safe win32gui h w = (Inr cls, w0)"
      and attempts: "move_window_attempts win32gui tm h x y width height w = (Inr c, w1)"
      and readback: "GetWindowRect win32gui h (sleep tm 150 w1) = (Inr (l, t, r, b), w2)"
      and console: "is_console = (cls \<in> {''ConsoleWindowClass'', ''PseudoConsoleWindow'',
                       ''CASCADIA_HOSTING_WINDOW_CLASS'', ''Cascadia_HOSTING_WINDOW_CLASS''})"
      and tol: "tolerance = (if is_console then 100 else 50)"
      and pos: "position_ok = (\<bar>l - x\<bar> < tolerance \<and> \<bar>t - y\<bar> < tolerance)"
      and size: "size_ok = (\<bar>(r - l) - width\<bar> < tolerance \<and> \<bar>(b - t) - height\<bar> < tolerance)"
    shows "\<exists>ok. move_window win32gui tm h x y width height w = (Inr ok, w2)
             \<and> (position_ok \<and> size_ok \<longrightarrow> ok)
             \<and> (size_ok \<and> \<not> position_ok \<longrightarrow> ok = is_console)
             \<and> (\<not> size_ok \<longrightarrow> \<not> ok)"
proof -
  have c: "c = is_console"
    using move_window_attempts_class [OF cls attempts] console
    by (simp add: console_classes_def)
  have result: "move_window win32gui tm h x y width height w =
      (Inr (if position_ok \<and> size_ok then True
            else if size_ok \<and> \<not> position_ok then is_console else False), w2)"
    using attempts readback
    by (simp add: move_window_def io_defs Let_def c tol pos size)
  show ?thesis
    unfolding result by (cases position_ok; cases size_ok; auto)
qed

theorem C5_move_window_verification_witness:
  "get_class_name_safe (fixed_win32gui ''ConsoleWindowClass'' (80, 80, 880, 680)) 7 ()
     = (Inr ''ConsoleWindowClass'', ())
   \<and> move_window_attempts (fixed_win32gui ''ConsoleWindowClass'' (80, 80, 880, 680)) still_time
        7 0 0 800 600 () = (Inr True, ())
   \<and> GetWindowRect (fixed_win32gui ''ConsoleWindowClass'' (80, 80, 880, 680)) 7
        (sleep still_time 150 ()) = (Inr (80, 80, 880, 680), ())
   \<and> move_window (fixed_win32gui ''ConsoleWindowClass'' (80, 80, 880, 680)) still_time
        7 0 0 800 600 () = (Inr True, ())"
proof -
  have h1: "get_class_name_safe (fixed_win32gui ''ConsoleWindowClass'' (80, 80, 880, 680)) 7 ()
     = (Inr ''ConsoleWindowClass'', ())"
    by (simp add: get_class_name_safe_def fixed_win32gui_def io_defs)
  have h2: "move_window_attempts (fixed_win32gui ''ConsoleWindowClass'' (80, 80, 880, 680)) still_time
        7 0 0 800 600 () = (Inr True, ())"
    by (simp add: move_window_attempts_def console_attempt_def get_class_name_safe_def
        fixed_win32gui_def still_time_def console_classes_def io_defs)
  have h3: "GetWindowRect (fixed_win32gui ''ConsoleWindowClass'' (80, 80, 880, 680)) 7
        (sleep still_time 150 ()) = (Inr (80, 80, 880, 680), ())"
    by (simp add: fixed_win32gui_def)
  from C5_move_window_verification [OF h1 h2 h3 refl refl refl refl]
  have "move_window (fixed_win32gui ''ConsoleWindowClass'' (80, 80, 880, 680)) still_time
        7 0 0 800 600 () = (Inr True, ())"
    by auto
  with h1 h2 h3 show ?thesis by simp
qed

section \<open>Properties of the configuration store\<close>

lemma path_exists_apply [simp]:
  "path_exists p (self, files) = (Inr (files p \<noteq> None), (self, files))"
  by (simp add: path_exists_def)

lemma get_self_apply [simp]: "get_self (self, files) = (Inr self, (self, files))"
  by (simp add: get_self_def)

lemma set_collection_apply [simp]:
  "set_collection c (self, files) = (Inr (), (self\<lparr>collection := Some c\<rparr>, files))"
  by (simp add: set_collection_def)

lemma save_written:
  assumes "files (config_file self) = Some old"
      and "\<not> replace_fails faults (config_file self) (with_suffix lib (config_file self) ''.json.bak'')"
      and "\<not> mkdir_fails faults" and "write_result faults (config_file self) = Written"
      and "with_suffix lib (config_file self) ''.json.bak'' \<noteq> config_file self"
    shows "save lib faults c (self, files) =
      (Inr (), (self\<lparr>collection := Some c\<rparr>,
        (files(with_suffix lib (config_file self) ''.json.bak'' \<mapsto> old))
          (config_file self \<mapsto> json_dumps lib (WorkspaceCollection_to_dict c))))"
  using assms
  by (auto simp: save_def io_defs path_replace_def mkdir_parent_def write_text_def fun_eq_iff)

lemma save_written_fresh:
  assumes "files (config_file self) = None"
      and "\<not> mkdir_fails faults" and "write_result faults (config_file self) = Written"
    shows "save lib faults c (self, files) =
      (Inr (), (self\<lparr>collection := Some c\<rparr>,
        files(config_file self \<mapsto> json_dumps lib (WorkspaceCollection_to_dict c))))"
  using assms
  by (simp add: save_def io_defs mkdir_parent_def write_text_def)

lemma save_write_fails_restores:
  assumes "files (config_file self) = Some old"
      and "\<not> replace_fails faults (config_file self) (with_suffix lib (config_file self) ''.json.bak'')"
      and "\<not> replace_fails faults (with_suffix lib (config_file self) ''.json.bak'') (config_file self)"
      and "mkdir_fails faults \<or> write_result faults (config_file self) \<noteq> Written"
      and "with_suffix lib (config_file self) ''.json.bak'' \<noteq> config_file self"
    shows "save lib faults c (self, files) =
      (Inl ConfigError, (self,
         (files(with_suffix lib (config_file self) ''.json.bak'' := None))
           (config_file self \<mapsto> old)))"
  using assms
  by (cases "write_result faults (config_file self)")
     (auto simp: save_def io_defs path_replace_def mkdir_parent_def write_text_def fun_eq_iff)

lemma save_write_fails_stale_backup:
  assumes "files (config_file self) = None"
      and "files (with_suffix lib (config_file self) ''.json.bak'') = Some stale"
      and "\<not> replace_fails faults (with_suffix lib (config_file self) ''.json.bak'') (config_file self)"
      and "mkdir_fails faults \<or> write_result faults (config_file self) \<noteq> Written"
      and "with_suffix lib (config_file self) ''.json.bak'' \<noteq> config_file self"
    shows "save lib faults c (self, files) =
      (Inl ConfigError, (self,
         (files(with_suffix lib (config_file self) ''.json.bak'' := None))
           (config_file self \<mapsto> stale)))"
  using assms
  by (cases "write_result faults (config_file self)")
     (auto simp: save_def io_defs path_replace_def mkdir_parent_def write_text_def fun_eq_iff)

lemma save_write_fails_no_backup:
  assumes "files (config_file self) = None"
      and "files (with_suffix lib (config_file self) ''.json.bak'') = None"
      and "mkdir_fails faults \<or> write_result faults (config_file self) \<noteq> Written"
      and "with_suffix lib (config_file self) ''.json.bak'' \<noteq> config_file self"
    shows "fst (save lib faults c (self, files)) = Inl ConfigError
         \<and> fst (snd (save lib faults c (self, files))) = self
         \<and> snd (snd (save lib faults c (self, files)))
             (with_suffix lib (config_file self) ''.json.bak'') = None"
  using assms
  by (cases "write_result faults (config_file self)")
     (auto simp: save_def io_defs path_replace_def mkdir_parent_def write_text_def fun_eq_iff)

text \<open>
  C3 (as the code has it). Let \<open>cf\<close> be the configuration file and \<open>bk\<close> its
  \<^verbatim>\<open>.json.bak\<close> sibling, and let the renames that \<^verbatim>\<open>save\<close> attempts succeed. If
  \<open>cf\<close> exists it is renamed to \<open>bk\<close> and the new JSON is then written to \<open>cf\<close>.
  If the write step fails (the parent directory cannot be made, or the file
  cannot be opened or written in full), a \<open>bk\<close> that is present is renamed
  over \<open>cf\<close> and a configuration error is raised: this restores the content
  that \<open>cf\<close> had when it existed before the save; when \<open>cf\<close> did not exist, a
  \<open>bk\<close> left by an earlier save is moved onto \<open>cf\<close>, and with no \<open>bk\<close> the error
  is raised all the same. The manager's collection is set only by a save
  that succeeds.
\<close>

theorem C3_save_backup_then_restore:
  assumes cf: "cf = config_file self"
      and bk: "bk = with_suffix lib cf ''.json.bak''"
      and ne: "bk \<noteq> cf"
      and new: "new_text = json_dumps lib (WorkspaceCollection_to_dict c)"
      and wf: "write_step_fails = (mkdir_fails faults \<or> write_result faults cf \<noteq> Written)"
    shows "(files cf = Some old \<and> \<not> replace_fails faults cf bk \<and> \<not> write_step_fails
              \<longrightarrow> save lib faults c (self, files) =
                    (Inr (), (self\<lparr>collection := Some c\<rparr>, (files(bk \<mapsto> old))(cf \<mapsto> new_text))))
         \<and> (files cf = Some old \<and> \<not> replace_fails faults cf bk \<and> write_step_fails
              \<and> \<not> replace_fails faults bk cf
              \<longrightarrow> save lib faults c (self, files) =
                    (Inl ConfigError, (self, (files(bk := None))(cf \<mapsto> old))))
         \<and> (files cf = None \<and> files bk = Some stale \<and> write_step_fails
              \<and> \<not> replace_fails faults bk cf
              \<longrightarrow> save lib faults c (self, files) =
                    (Inl ConfigError, (self, (files(bk := None))(cf \<mapsto> stale))))
         \<and> (files cf = None \<and> files bk = None \<and> write_step_fails
              \<longrightarrow> fst (save lib faults c (self, files)) = Inl ConfigError
                  \<and> fst (snd (save lib faults c (self, files))) = self)"
proof (intro conjI impI)
  assume "files cf = Some old \<and> \<not> replace_fails faults cf bk \<and> \<not> write_step_fails"
  then show "save lib faults c (self, files) =
      (Inr (), (self\<lparr>collection := Some c\<rparr>, (files(bk \<mapsto> old))(cf \<mapsto> new_text)))"
    using save_written [of files self old faults lib c] ne
    by (simp add: cf bk new wf)
next
  assume "files cf = Some old \<and> \<not> replace_fails faults cf bk \<and> write_step_fails
      \<and> \<not> replace_fails faults bk cf"
  then show "save lib faults c (self, files) =
      (Inl ConfigError, (self, (files(bk := None))(cf \<mapsto> old)))"
    using save_write_fails_restores [of files self old faults lib c] ne
    by (simp add: cf bk wf)
next
  assume "files cf = None \<and> files bk = Some stale \<and> write_step_fails
      \<and> \<not> replace_fails faults bk cf"
  then show "save lib faults c (self, files) =
      (Inl ConfigError, (self, (files(bk := None))(cf \<mapsto> stale)))"
    using save_write_fails_stale_backup [of files self lib stale faults c] ne
    by (simp add: cf bk wf)
next
  assume h: "files cf = None \<and> files bk = None \<and> write_step_fails"
  then show "fst (save lib faults c (self, files)) = Inl ConfigError"
    using save_write_fails_no_backup [of files self lib faults c] ne
    by (simp add: cf bk wf)
  from h show "fst (snd (save lib faults c (self, files))) = self"
    using save_write_fails_no_backup [of files self lib faults c] ne
    by (simp add: cf bk wf)
qed

lemma sample_backup_path:
  "with_suffix sample_lib ''workspaces.json'' ''.json.bak'' = ''workspaces.json.bak''"
  by code_simp

theorem C3_save_backup_then_restore_witness:
  "[''workspaces.json'' \<mapsto> ''old''] ''workspaces.json'' = Some ''old''
   \<and> \<not> replace_fails write_fails ''workspaces.json'' ''workspaces.json.bak''
   \<and> \<not> replace_fails write_fails ''workspaces.json.bak'' ''workspaces.json''
   \<and> (mkdir_fails write_fails \<or> write_result write_fails ''workspaces.json'' \<noteq> Written)
   \<and> save sample_lib write_fails \<lparr>wsc_workspaces = []\<rparr>
        (\<lparr>config_file = ''workspaces.json'', collection = None\<rparr>,
         [''workspaces.json'' \<mapsto> ''old''])
      = (Inl ConfigError,
         (\<lparr>config_file = ''workspaces.json'', collection = None\<rparr>,
          ([''workspaces.json'' \<mapsto> ''old''](''workspaces.json.bak'' := None))
            (''workspaces.json'' \<mapsto> ''old'')))"
proof -
  have ne: "''workspaces.json.bak'' \<noteq> ''workspaces.json''" by simp
  have faults: "\<not> replace_fails write_fails ''workspaces.json'' ''workspaces.json.bak''
      \<and> \<not> replace_fails write_fails ''workspaces.json.bak'' ''workspaces.json''
      \<and> (mkdir_fails write_fails \<or> write_result write_fails ''workspaces.json'' \<noteq> Written)"
    by (simp add: write_fails_def)
  show ?thesis
    using faults
      C3_save_backup_then_restore
        [of "''workspaces.json''" "\<lparr>config_file = ''workspaces.json'', collection = None\<rparr>"
            "''workspaces.json.bak''" sample_lib _ "\<lparr>wsc_workspaces = []\<rparr>" _ write_fails
            "[''workspaces.json'' \<mapsto> ''old'']" "''old''",
         OF _ _ ne refl refl]
    by (simp add: sample_backup_path)
qed

theorem C3_stale_backup_counterexample:
  "[''workspaces.json.bak'' \<mapsto> ''stale''] ''workspaces.json'' = None
   \<and> fst (save sample_lib write_fails \<lparr>wsc_workspaces = []\<rparr>
        (\<lparr>config_file = ''workspaces.json'', collection = None\<rparr>,
         [''workspaces.json.bak'' \<mapsto> ''stale''])) = Inl ConfigError
   \<and> snd (snd (save sample_lib write_fails \<lparr>wsc_workspaces = []\<rparr>
        (\<lparr>config_file = ''workspaces.json'', collection = None\<rparr>,
         [''workspaces.json.bak'' \<mapsto> ''stale'']))) ''workspaces.json'' = Some ''stale''"
proof -
  have s: "save sample_lib write_fails \<lparr>wsc_workspaces = []\<rparr>
        (\<lparr>config_file = ''workspaces.json'', collection = None\<rparr>,
         [''workspaces.json.bak'' \<mapsto> ''stale''])
      = (Inl ConfigError, (\<lparr>config_file = ''workspaces.json'', collection = None\<rparr>,
          ([''workspaces.json.bak'' \<mapsto> ''stale''](''workspaces.json.bak'' := None))
             (''workspaces.json'' \<mapsto> ''stale'')))"
    using save_write_fails_stale_backup
      [of "[''workspaces.json.bak'' \<mapsto> ''stale'']"
          "\<lparr>config_file = ''workspaces.json'', collection = None\<rparr>"
          sample_lib "''stale''" write_fails "\<lparr>wsc_workspaces = []\<rparr>"]
    by (simp add: sample_backup_path write_fails_def)
  show ?thesis unfolding s by simp
qed

lemma save_collection:
  "collection (fst (snd (save lib faults c (self, files)))) = Some c
   \<or> fst (snd (save lib faults c (self, files))) = self"
  by (auto simp: save_def io_defs path_replace_def mkdir_parent_def write_text_def
      split: option.splits write_outcome.splits)

lemma get_workspace_None:
  "(collection_get_workspace col n = None) = (n \<notin> set (list_workspace_names col))"
  by (auto simp: collection_get_workspace_def list_workspace_names_def find_None_iff)

lemma get_workspace_Some:
  "(\<exists>v. collection_get_workspace col n = Some v) = (n \<in> set (list_workspace_names col))"
  using get_workspace_None [of col n] by auto

lemma collection_update:
  "(col :: WorkspaceCollection)\<lparr>wsc_workspaces := xs\<rparr> = \<lparr>wsc_workspaces = xs\<rparr>"
  by (cases col) simp

lemma add_workspace_loaded:
  assumes "collection self = Some col"
  shows "add_workspace lib faults w overwrite (self, files) =
     (if ws_name w \<in> set (list_workspace_names col) \<and> \<not> overwrite
      then (Inl ConfigError, (self, files))
      else save lib faults
             \<lparr>wsc_workspaces = filter (\<lambda>v. ws_name v \<noteq> ws_name w) (wsc_workspaces col) @ [w]\<rparr>
             (self\<lparr>collection := Some
                \<lparr>wsc_workspaces = filter (\<lambda>v. ws_name v \<noteq> ws_name w) (wsc_workspaces col) @ [w]\<rparr>\<rparr>,
              files))"
proof -
  have keep: "ws_name w \<notin> set (list_workspace_names col) \<Longrightarrow>
      filter (\<lambda>v. ws_name v \<noteq> ws_name w) (wsc_workspaces col) = wsc_workspaces col"
    by (force simp: list_workspace_names_def filter_id_conv image_iff)
  show ?thesis
    using assms keep
    by (simp add: add_workspace_def io_defs Let_def get_workspace_None get_workspace_Some
        collection_update collection_remove_workspace_def collection_add_workspace_def)
qed

text \<open>
  C4. Let the manager hold a loaded collection. \<^verbatim>\<open>add_workspace(w,
  overwrite=False)\<close> raises a configuration error when the collection has a
  workspace named \<^verbatim>\<open>w.name\<close>, and leaves the manager (its collection included)
  and the disk as they were. \<^verbatim>\<open>add_workspace(w, overwrite=True)\<close> replaces the
  collection by the workspaces of other names, in order, followed by \<open>w\<close>,
  and saves that collection: its outcome is that of the save. Afterwards,
  whether or not the save succeeded, the manager's collection is that list,
  in which \<open>w\<close> is the only workspace named \<^verbatim>\<open>w.name\<close>.
\<close>

theorem C4_add_workspace:
  assumes loaded: "collection self = Some col"
      and others: "others = filter (\<lambda>v. ws_name v \<noteq> ws_name w) (wsc_workspaces col)"
    shows "(ws_name w \<in> set (list_workspace_names col)
              \<longrightarrow> add_workspace lib faults w False (self, files) = (Inl ConfigError, (self, files)))
         \<and> add_workspace lib faults w True (self, files) =
             save lib faults \<lparr>wsc_workspaces = others @ [w]\<rparr>
               (self\<lparr>collection := Some \<lparr>wsc_workspaces = others @ [w]\<rparr>\<rparr>, files)
         \<and> collection (fst (snd (add_workspace lib faults w True (self, files)))) =
             Some \<lparr>wsc_workspaces = others @ [w]\<rparr>
         \<and> filter (\<lambda>v. ws_name v = ws_name w) (others @ [w]) = [w]"
proof (intro conjI impI)
  assume "ws_name w \<in> set (list_workspace_names col)"
  then show "add_workspace lib faults w False (self, files) = (Inl ConfigError, (self, files))"
    by (simp add: add_workspace_loaded [OF loaded])
next
  show eq: "add_workspace lib faults w True (self, files) =
      save lib faults \<lparr>wsc_workspaces = others @ [w]\<rparr>
        (self\<lparr>collection := Some \<lparr>wsc_workspaces = others @ [w]\<rparr>\<rparr>, files)"
    by (simp add: add_workspace_loaded [OF loaded] others)
  show "collection (fst (snd (add_workspace lib faults w True (self, files)))) =
      Some \<lparr>wsc_workspaces = others @ [w]\<rparr>"
    unfolding eq
    using save_collection [of lib faults "\<lparr>wsc_workspaces = others @ [w]\<rparr>"
        "self\<lparr>collection := Some \<lparr>wsc_workspaces = others @ [w]\<rparr>\<rparr>" files]
    by auto
  show "filter (\<lambda>v. ws_name v = ws_name w) (others @ [w]) = [w]"
    by (simp add: others)
qed

theorem C4_add_workspace_witness:
  "''dev'' \<in> set (list_workspace_names
      \<lparr>wsc_workspaces = [\<lparr>ws_name = ''dev'', ws_description = ''old'', ws_apps = []\<rparr>]\<rparr>)
   \<and> add_workspace sample_lib no_faults
        \<lparr>ws_name = ''dev'', ws_description = ''new'', ws_apps = []\<rparr> False
        (\<lparr>config_file = ''workspaces.json'',
          collection = Some \<lparr>wsc_workspaces =
            [\<lparr>ws_name = ''dev'', ws_description = ''old'', ws_apps = []\<rparr>]\<rparr>\<rparr>,
         [''workspaces.json'' \<mapsto> ''w''])
      = (Inl ConfigError,
         (\<lparr>config_file = ''workspaces.json'',
           collection = Some \<lparr>wsc_workspaces =
             [\<lparr>ws_name = ''dev'', ws_description = ''old'', ws_apps = []\<rparr>]\<rparr>\<rparr>,
          [''workspaces.json'' \<mapsto> ''w'']))
   \<and> collection (fst (snd (add_workspace sample_lib no_faults
        \<lparr>ws_name = ''dev'', ws_description = ''new'', ws_apps = []\<rparr> True
        (\<lparr>config_file = ''workspaces.json'',
          collection = Some \<lparr>wsc_workspaces =
            [\<lparr>ws_name = ''dev'', ws_description = ''old'', ws_apps = []\<rparr>]\<rparr>\<rparr>,
         [''workspaces.json'' \<mapsto> ''w''])))) =
      Some \<lparr>wsc_workspaces = [\<lparr>ws_name = ''dev'', ws_description = ''new'', ws_apps = []\<rparr>]\<rparr>"
proof -
  let ?old = "\<lparr>ws_name = ''dev'', ws_description = ''old'', ws_apps = []\<rparr>"
  let ?new = "\<lparr>ws_name = ''dev'', ws_description = ''new'', ws_apps = []\<rparr>"
  let ?self = "\<lparr>config_file = ''workspaces.json'',
                collection = Some \<lparr>wsc_workspaces = [?old]\<rparr>\<rparr>"
  have loaded: "collection ?self = Some \<lparr>wsc_workspaces = [?old]\<rparr>"
    by simp
  have others: "[] = filter (\<lambda>v. ws_name v \<noteq> ws_name ?new)
      (wsc_workspaces \<lparr>wsc_workspaces = [?old]\<rparr>)"
    by simp
  have present: "ws_name ?new \<in> set (list_workspace_names \<lparr>wsc_workspaces = [?old]\<rparr>)"
    by (simp add: list_workspace_names_def)
  note inst = C4_add_workspace
    [OF loaded others, of sample_lib no_faults "[''workspaces.json'' \<mapsto> ''w'']"]
  note refused = inst [THEN conjunct1, THEN mp, OF present]
  note replaced = inst [THEN conjunct2, THEN conjunct2, THEN conjunct1]
  from refused replaced show ?thesis
    by (simp add: list_workspace_names_def)
qed

section \<open>Properties of the launcher\<close>

lemma append_result_apply [simp]:
  "append_result r (self, w) = (Inr (), (self\<lparr>launch_results := launch_results self @ [r]\<rparr>, w))"
  by (simp add: append_result_def)

lemma set_results_apply [simp]:
  "set_results rs (self, w) = (Inr (), (self\<lparr>launch_results := rs\<rparr>, w))"
  by (simp add: set_results_def)

lemma get_launcher_apply [simp]: "get_launcher (self, w) = (Inr self, (self, w))"
  by (simp add: get_launcher_def)

lemma on_system_apply [simp]: "on_system m (self, w) = (fst (m w), (self, snd (m w)))"
  by (simp add: on_system_def)

lemma time_sleep_apply [simp]: "time_sleep tm ms w = (Inr (), sleep tm ms w)"
  by (simp add: time_sleep_def)

lemma launch_app_body_result:
  assumes "launch_app_body sys vd app d skip w = (Inr r, w')"
  shows "lr_app_id r = ai_id app \<and> lr_success r"
  using assms
  by (auto simp: launch_app_body_def bind_io_def then_io_def split: prod.splits sum.splits if_splits)

lemma launch_app_returns:
  "\<exists>r w'. launch_app sys vd app d skip w = (Inr r, w') \<and> lr_app_id r = ai_id app
      \<and> lr_success r = (\<not> raises (launch_app_body sys vd app d skip) w)"
proof (cases "launch_app_body sys vd app d skip w")
  case (Pair res w')
  show ?thesis
  proof (cases res)
    case (Inl e)
    with Pair show ?thesis
      by (simp add: launch_app_def try_except_def raises_def)
  next
    case (Inr r)
    with Pair launch_app_body_result [of sys vd app d skip w r w'] show ?thesis
      by (simp add: launch_app_def try_except_def raises_def)
  qed
qed

lemma launch_app_never_raises: "fst (launch_app sys vd app d skip w) \<noteq> Inl e"
  using launch_app_returns [of sys vd app d skip w] by auto

lemma launch_app_id:
  "launch_app sys vd app d skip w = (Inr r, w') \<Longrightarrow> lr_app_id r = ai_id app"
  using launch_app_returns [of sys vd app d skip w] by auto

text \<open>Sequencing: a step raises, or it returns and the rest runs in the state it left.\<close>

lemma bind_io_ends:
  assumes "bind_io m f s = (res, s')"
  shows "(\<exists>e. m s = (Inl e, s') \<and> res = Inl e) \<or> (\<exists>a s1. m s = (Inr a, s1) \<and> f a s1 = (res, s'))"
  using assms by (auto simp: bind_io_def split: prod.splits sum.splits)

lemma then_io_ends:
  assumes "then_io m n s = (res, s')"
  shows "(\<exists>e. m s = (Inl e, s') \<and> res = Inl e) \<or> (\<exists>a s1. m s = (Inr a, s1) \<and> n s1 = (res, s'))"
  using assms by (auto simp: then_io_def bind_io_def split: prod.splits sum.splits)

lemma print_raises: "fst (console_print con t w) = Inl e \<Longrightarrow> console_raises con e"
  unfolding console_raises_def by blast

lemma enter_raises: "fst (Progress_enter con w) = Inl e \<Longrightarrow> console_raises con e"
  unfolding console_raises_def by blast

lemma add_task_raises: "fst (Progress_add_task con i w) = Inl e \<Longrightarrow> console_raises con e"
  unfolding console_raises_def by blast

lemma update_raises: "fst (Progress_update con k w) = Inl e \<Longrightarrow> console_raises con e"
  unfolding console_raises_def by blast

lemma exit_raises: "fst (Progress_exit con w) = Inl e \<Longrightarrow> console_raises con e"
  unfolding console_raises_def by blast

lemmas console_call_raises = print_raises enter_raises add_task_raises update_raises exit_raises

lemma launch_apps_raises:
  "launch_apps sys vd dry_run sequential d apps (self, w) = (Inl e, st)
     \<Longrightarrow> console_raises (sys_console sys) e"
proof (induction apps arbitrary: self w)
  case Nil
  then show ?case by simp
next
  case (Cons app apps)
  from Cons.prems Cons.IH show ?case
    by (auto simp: launch_app_never_raises
          dest!: bind_io_ends then_io_ends intro: console_call_raises
          split: if_splits)
qed

lemma launch_apps_returns:
  "launch_apps sys vd dry_run sequential d apps (self, w) = (Inr u, st)
     \<Longrightarrow> \<exists>new. fst st = self\<lparr>launch_results := launch_results self @ new\<rparr>
           \<and> list_all2 (\<lambda>app r. if dry_run then r = dry_run_result app
                                 else \<exists>w0. fst (launch_app sys vd app d True w0) = Inr r)
               apps new"
proof (induction apps arbitrary: self w)
  case Nil
  then show ?case by auto
next
  case (Cons app apps)
  let ?L = "\<lambda>app r. if dry_run then r = dry_run_result app
                    else \<exists>w0. fst (launch_app sys vd app d True w0) = Inr r"
  from Cons.prems obtain r w1 where
    r: "?L app r" and
    rest: "launch_apps sys vd dry_run sequential d apps
             (self\<lparr>launch_results := launch_results self @ [r]\<rparr>, w1) = (Inr u, st)"
    by (auto dest!: bind_io_ends then_io_ends split: if_splits) blast+
  from Cons.IH [OF rest] obtain new where
    new: "fst st = self\<lparr>launch_results := launch_results self @ [r] @ new\<rparr>"
      "list_all2 ?L apps new"
    by auto
  show ?case
    using r new by (intro exI [of _ "r # new"]) simp
qed

lemma on_system_bind: "on_system (bind_io m f) = bind_io (on_system m) (\<lambda>a. on_system (f a))"
  by (rule ext) (auto simp: on_system_def bind_io_def split: prod.splits sum.splits)

lemma on_system_then: "on_system (then_io m n) = then_io (on_system m) (on_system n)"
  by (simp add: then_io_def on_system_bind)

lemma on_system_return: "on_system (return_io a) = return_io a"
  by (rule ext) (auto simp: on_system_def return_io_def)

lemma on_system_if: "on_system (if c then m else n) = (if c then on_system m else on_system n)"
  by simp

lemmas on_system_steps = on_system_bind on_system_then on_system_return on_system_if

lemma switch_to_desktop_never_raises: "fst (switch_to_desktop pyvda tm vd d w) \<noteq> Inl e"
  by (cases "get_virtual_desktops pyvda w")
     (auto simp: switch_to_desktop_def try_except_def split: prod.splits sum.splits)

lemma launch_desktops_raises:
  "launch_desktops sys vd dry_run sequential grouped keys (self, w) = (Inl e, st)
     \<Longrightarrow> console_raises (sys_console sys) e"
proof (induction keys arbitrary: self w)
  case Nil
  then show ?case by simp
next
  case (Cons k keys)
  from Cons.prems Cons.IH show ?case
    by (auto simp: Let_def switch_to_desktop_never_raises on_system_steps
          dest!: bind_io_ends then_io_ends intro: console_call_raises dest: launch_apps_raises
          split: if_splits)
qed

lemma launch_desktops_returns:
  assumes "launch_desktops sys vd dry_run sequential grouped keys (self, w) = (Inr u, st)"
      and "\<And>k a. a \<in> set (case map_of grouped k of None \<Rightarrow> [] | Some as \<Rightarrow> as)
             \<Longrightarrow> ai_virtual_desktop a = k"
  shows "\<exists>new. fst st = self\<lparr>launch_results := launch_results self @ new\<rparr>
           \<and> list_all2 (\<lambda>app r. if dry_run then r = dry_run_result app
                   else \<exists>w0. fst (launch_app sys vd app (ai_virtual_desktop app) True w0) = Inr r)
               (concat (map (\<lambda>k. case map_of grouped k of None \<Rightarrow> [] | Some as \<Rightarrow> as) keys))
               new"
  using assms(1)
proof (induction keys arbitrary: self w)
  case Nil
  then show ?case by auto
next
  case (Cons k keys)
  let ?apps = "\<lambda>k. case map_of grouped k of None \<Rightarrow> [] | Some as \<Rightarrow> as"
  let ?L = "\<lambda>app r. if dry_run then r = dry_run_result app
              else \<exists>w0. fst (launch_app sys vd app (ai_virtual_desktop app) True w0) = Inr r"
  from Cons.prems obtain w0 u1 st1 where
    first: "launch_apps sys vd dry_run sequential k (?apps k) (self, w0) = (Inr u1, st1)" and
    rest: "launch_desktops sys vd dry_run sequential grouped keys st1 = (Inr u, st)"
    by (auto simp: Let_def on_system_steps dest!: bind_io_ends then_io_ends split: if_splits)
  from launch_apps_returns [OF first] obtain new1 where
    new1: "fst st1 = self\<lparr>launch_results := launch_results self @ new1\<rparr>"
      "list_all2 (\<lambda>app r. if dry_run then r = dry_run_result app
                   else \<exists>w0. fst (launch_app sys vd app k True w0) = Inr r) (?apps k) new1"
    by blast
  have l1: "list_all2 ?L (?apps k) new1"
    using new1(2) by (rule list.rel_mono_strong) (simp add: assms(2))
  from rest have "launch_desktops sys vd dry_run sequential grouped keys (fst st1, snd st1)
      = (Inr u, st)"
    by simp
  from Cons.IH [OF this] obtain new2 where
    new2: "fst st = (fst st1)\<lparr>launch_results := launch_results (fst st1) @ new2\<rparr>"
      "list_all2 ?L (concat (map ?apps keys)) new2"
    by blast
  have "fst st = self\<lparr>launch_results := launch_results self @ (new1 @ new2)\<rparr>"
    using new1(1) new2(1) by simp
  moreover have "list_all2 ?L (concat (map ?apps (k # keys))) (new1 @ new2)"
    using l1 new2(2) by (simp add: list_all2_appendI)
  ultimately show ?case by blast
qed

lemma show_launch_summary_raises:
  "show_launch_summary con (self, w) = (Inl e, st) \<Longrightarrow> console_raises con e"
  by (auto simp: show_launch_summary_def on_system_steps
        dest!: bind_io_ends then_io_ends split: if_splits)
     (erule print_raises)+

lemma show_launch_summary_returns:
  "show_launch_summary con (self, w) = (Inr u, st) \<Longrightarrow> fst st = self"
  by (auto simp: show_launch_summary_def on_system_steps
        dest!: bind_io_ends then_io_ends split: if_splits)

lemma with_block_ends:
  assumes "with_block enter body exit s = (res, s')"
  shows "(\<exists>e. enter s = (Inl e, s') \<and> res = Inl e)
       \<or> (\<exists>u s1 res1 s2. enter s = (Inr u, s1) \<and> body s1 = (res1, s2)
             \<and> ((\<exists>e. exit s2 = (Inl e, s') \<and> res = Inl e)
                \<or> (\<exists>v. exit s2 = (Inr v, s') \<and> res = res1)))"
  using assms
  by (auto simp: with_block_def then_io_def bind_io_def split: prod.splits sum.splits)

text \<open>The groups: the apps of desktop \<open>k\<close>, in the order of the workspace.\<close>

lemma map_of_group_update:
  "map_of (map (\<lambda>kv. if fst kv = d then (fst kv, snd kv @ [app]) else kv) grouped) k =
     (if k = d then map_option (\<lambda>as. as @ [app]) (map_of grouped k) else map_of grouped k)"
  by (induction grouped) auto

lemma group_apps_by_desktop_lookup:
  "(case map_of (group_apps_by_desktop grouped apps) k of None \<Rightarrow> [] | Some as \<Rightarrow> as) =
     (case map_of grouped k of None \<Rightarrow> [] | Some as \<Rightarrow> as)
       @ filter (\<lambda>a. ai_virtual_desktop a = k) apps"
proof (induction apps arbitrary: grouped)
  case Nil
  show ?case by simp
next
  case (Cons app apps)
  show ?case
  proof (cases "ai_virtual_desktop app \<in> set (map fst grouped)")
    case True
    then obtain as where "map_of grouped (ai_virtual_desktop app) = Some as"
      by (metis map_of_eq_None_iff not_Some_eq set_map)
    with True show ?thesis
      by (auto simp: Cons.IH map_of_group_update split: option.splits)
  next
    case False
    then have "map_of grouped (ai_virtual_desktop app) = None"
      by (simp add: map_of_eq_None_iff)
    with False show ?thesis
      by (auto simp: Cons.IH map_add_def split: option.splits)
  qed
qed

lemma group_apps_by_desktop_keys:
  "set (map fst (group_apps_by_desktop grouped apps)) =
     set (map fst grouped) \<union> ai_virtual_desktop ` set apps"
proof (induction apps arbitrary: grouped)
  case Nil
  show ?case by simp
next
  case (Cons app apps)
  let ?upd = "map (\<lambda>kv. if fst kv = ai_virtual_desktop app then (fst kv, snd kv @ [app]) else kv)
      grouped"
  have keys: "map fst ?upd = map fst grouped"
    by (induction grouped) auto
  show ?case
  proof (cases "ai_virtual_desktop app \<in> set (map fst grouped)")
    case True
    then have "group_apps_by_desktop grouped (app # apps) = group_apps_by_desktop ?upd apps"
      by simp
    then have "set (map fst (group_apps_by_desktop grouped (app # apps))) =
        set (map fst ?upd) \<union> ai_virtual_desktop ` set apps"
      by (simp only: Cons.IH)
    with True show ?thesis
      unfolding keys by auto
  next
    case False
    then have "group_apps_by_desktop grouped (app # apps) =
        group_apps_by_desktop (grouped @ [(ai_virtual_desktop app, [app])]) apps"
      by simp
    then have "set (map fst (group_apps_by_desktop grouped (app # apps))) =
        set (map fst (grouped @ [(ai_virtual_desktop app, [app])])) \<union> ai_virtual_desktop ` set apps"
      by (simp only: Cons.IH)
    then show ?thesis
      by auto
  qed
qed

lemma group_update_absent:
  "d \<notin> set (map fst grouped) \<Longrightarrow>
     map (\<lambda>kv. if fst kv = d then (fst kv, snd kv @ [app]) else kv) grouped = grouped"
  by (induction grouped) auto

lemma group_update_present:
  "d \<in> set (map fst grouped) \<Longrightarrow> distinct (map fst grouped) \<Longrightarrow>
     mset (concat (map snd (map (\<lambda>kv. if fst kv = d then (fst kv, snd kv @ [app]) else kv) grouped)))
       = mset (concat (map snd grouped)) + {#app#}"
proof (induction grouped)
  case Nil
  then show ?case by simp
next
  case (Cons kv grouped)
  show ?case
  proof (cases "fst kv = d")
    case True
    with Cons.prems have "d \<notin> set (map fst grouped)" by auto
    from group_update_absent [OF this, of app] True show ?thesis by simp
  next
    case False
    with Cons show ?thesis by simp
  qed
qed

lemma sum_mset_image_list:
  "sum_mset (image_mset g (mset xs)) = sum_list (map g xs)"
  by (induction xs) simp_all

lemma group_apps_by_desktop_invariant:
  assumes "distinct (map fst grouped)"
  shows "distinct (map fst (group_apps_by_desktop grouped apps))
       \<and> mset (concat (map snd (group_apps_by_desktop grouped apps))) =
           mset (concat (map snd grouped)) + mset apps"
  using assms
proof (induction apps arbitrary: grouped)
  case Nil
  then show ?case by simp
next
  case (Cons app apps)
  let ?d = "ai_virtual_desktop app"
  let ?upd = "map (\<lambda>kv. if fst kv = ?d then (fst kv, snd kv @ [app]) else kv) grouped"
  show ?case
  proof (cases "?d \<in> set (map fst grouped)")
    case True
    have keys: "map fst ?upd = map fst grouped"
      by (induction grouped) auto
    have content: "mset (concat (map snd ?upd)) = mset (concat (map snd grouped)) + {#app#}"
      using group_update_present [OF True Cons.prems] .
    have d: "distinct (map fst ?upd)"
      unfolding keys by (rule Cons.prems)
    have step: "group_apps_by_desktop grouped (app # apps) = group_apps_by_desktop ?upd apps"
      using True by simp
    show ?thesis
      unfolding step using Cons.IH [OF d] unfolding content by simp
  next
    case False
    with Cons.IH [of "grouped @ [(?d, [app])]"] Cons.prems show ?thesis
      by simp
  qed
qed

lemma lookup_groups_mset:
  assumes "distinct (map fst grouped)" and "mset keys = mset (map fst grouped)"
  shows "mset (concat (map (\<lambda>k. case map_of grouped k of None \<Rightarrow> [] | Some as \<Rightarrow> as) keys)) =
         mset (concat (map snd grouped))"
proof -
  let ?f = "\<lambda>k. mset (case map_of grouped k of None \<Rightarrow> [] | Some as \<Rightarrow> as)"
  have "mset (concat (map (\<lambda>k. case map_of grouped k of None \<Rightarrow> [] | Some as \<Rightarrow> as) keys)) =
      sum_mset (image_mset ?f (mset keys))"
    by (induction keys) simp_all
  also have "\<dots> = sum_mset (image_mset ?f (mset (map fst grouped)))"
    by (simp add: assms(2))
  also have "\<dots> = sum_list (map (\<lambda>kv. ?f (fst kv)) grouped)"
    by (simp add: sum_mset_image_list [of ?f "map fst grouped"] comp_def del: mset_map)
  also have "\<dots> = sum_list (map (\<lambda>kv. mset (snd kv)) grouped)"
  proof (rule arg_cong [where f = sum_list], rule map_cong [OF refl])
    fix kv assume "kv \<in> set grouped"
    then have "(fst kv, snd kv) \<in> set grouped"
      by simp
    then have "map_of grouped (fst kv) = Some (snd kv)"
      using assms(1) by (rule map_of_is_SomeI [rotated])
    then show "?f (fst kv) = mset (snd kv)" by simp
  qed
  also have "\<dots> = mset (concat (map snd grouped))"
    by (induction grouped) simp_all
  finally show ?thesis .
qed

lemma launch_order_mset:
  "mset (concat (map (\<lambda>k. case map_of (group_apps_by_desktop [] apps) k of
                           None \<Rightarrow> [] | Some as \<Rightarrow> as)
                 (sort (map fst (group_apps_by_desktop [] apps))))) = mset apps"
  using group_apps_by_desktop_invariant [of "[]" apps]
    lookup_groups_mset [of "group_apps_by_desktop [] apps"
      "sort (map fst (group_apps_by_desktop [] apps))"]
  by simp

lemma launch_app_no_window:
  assumes "prepare_launch sys vd app d skip w = (Inr (p, before, is_wt), w1)"
      and "find_launched_window sys p before (if is_wt then 3000 else 2000) None
             (if is_wt then [0, 1, 2, 3, 4] else [0, 1, 2]) w1 = (Inr found, w2)"
      and "\<not> found_window found"
    shows "launch_app sys vd app d skip w =
      (Inr \<lparr>lr_app_id = ai_id app, lr_success = True, lr_pid = Some p, lr_hwnd = None,
            lr_error = Some window_not_detected\<rparr>, w2)"
  using assms
  by (simp add: launch_app_def launch_app_body_def try_except_def bind_io_def)

lemma launch_keys:
  "sort (map fst (group_apps_by_desktop [] apps)) = sort (remdups (map ai_virtual_desktop apps))"
proof -
  have d: "distinct (map fst (group_apps_by_desktop [] apps))"
    using group_apps_by_desktop_invariant [of "[]" apps] by simp
  have "sort (map fst (group_apps_by_desktop [] apps)) =
      sorted_list_of_set (set (map fst (group_apps_by_desktop [] apps)))"
    using d by (simp only: sorted_list_of_set_sort_remdups distinct_remdups_id)
  also have "\<dots> = sorted_list_of_set (set (map ai_virtual_desktop apps))"
    by (simp only: group_apps_by_desktop_keys) simp
  also have "\<dots> = sort (remdups (map ai_virtual_desktop apps))"
    by (simp only: sorted_list_of_set_sort_remdups)
  finally show ?thesis .
qed

lemma launch_lookup:
  "(case map_of (group_apps_by_desktop [] apps) k of None \<Rightarrow> [] | Some as \<Rightarrow> as) =
     filter (\<lambda>a. ai_virtual_desktop a = k) apps"
  using group_apps_by_desktop_lookup [of "[]" apps k] by simp

lemma launch_order:
  "concat (map (\<lambda>k. case map_of (group_apps_by_desktop [] apps) k of
                         None \<Rightarrow> [] | Some as \<Rightarrow> as)
             (sort (map fst (group_apps_by_desktop [] apps)))) =
   concat (map (\<lambda>k. filter (\<lambda>a. ai_virtual_desktop a = k) apps)
             (sort (remdups (map ai_virtual_desktop apps))))"
  by (simp only: launch_keys launch_lookup)

lemma launch_workspace_empty:
  assumes "ws_apps ws = []"
      and "launch_workspace sys ws dry_run sequential (self, w) = (Inr ok, st)"
  shows "ok \<and> fst st = self"
  using assms
  by (auto simp: launch_workspace_def on_system_steps
        dest!: bind_io_ends then_io_ends split: if_splits)

lemma launch_workspace_raises:
  assumes run: "launch_workspace sys ws dry_run sequential (self, w) = (Inl e, st)"
      and ens: "dry_run \<or> (\<forall>w0. fst (ensure_desktop_count (sys_pyvda sys) (sys_win32api sys)
              (sys_time sys) (vd_manager self) (get_required_desktops ws) w0) \<noteq> Inl e)"
  shows "console_raises (sys_console sys) e"
proof -
  define launching where "launching = (\<lambda>vd.
     then_io (with_block (on_system (Progress_enter (sys_console sys)))
                (launch_desktops sys vd dry_run sequential
                   (group_apps_by_desktop [] (ws_apps ws))
                   (sort (map fst (group_apps_by_desktop [] (ws_apps ws)))))
                (on_system (Progress_exit (sys_console sys))))
    (then_io (show_launch_summary (sys_console sys))
    (bind_io get_launcher (\<lambda>self'.
       return_io (filter (\<lambda>r. \<not> lr_success r) (launch_results self') = [])))))"
  define ensuring where "ensuring = (\<lambda>self :: WorkspaceLauncher.
     then_io (set_results [])
    (then_io (on_system (console_print (sys_console sys)
                           (EnsuringDesktops (get_required_desktops ws))))
    (then_io (if \<not> dry_run
              then on_system
                     (bind_io (ensure_desktop_count (sys_pyvda sys) (sys_win32api sys)
                                 (sys_time sys) (vd_manager self)
                                 (get_required_desktops ws)) (\<lambda>ensured.
                      if \<not> ensured then console_print (sys_console sys) DesktopWarning
                      else return_io ()))
              else return_io ())
    (then_io (on_system (console_print (sys_console sys)
                           (LaunchingApplications (length (ws_apps ws)))))
             (launching (vd_manager self))))))"
  have whole: "launch_workspace sys ws dry_run sequential =
     then_io (on_system (console_print (sys_console sys) (LaunchingWorkspace (ws_name ws))))
    (then_io (if ws_description ws \<noteq> []
              then on_system (console_print (sys_console sys)
                                (WorkspaceDescription (ws_description ws)))
              else return_io ())
    (if ws_apps ws = []
     then then_io (on_system (console_print (sys_console sys) NoApplications)) (return_io True)
     else bind_io get_launcher ensuring))"
    unfolding launch_workspace_def ensuring_def launching_def ..
  have l: "console_raises (sys_console sys) e" if "launching vd s = (Inl e, s')" for vd s s'
    using that unfolding launching_def
    by (cases s)
       (auto dest!: bind_io_ends then_io_ends with_block_ends
          dest: launch_desktops_raises show_launch_summary_raises exit_raises enter_raises)
  have n: "console_raises (sys_console sys) e" if "ensuring self (self0, w0) = (Inl e, s')"
    for self0 w0 s'
    using that ens unfolding ensuring_def
    by (auto simp: on_system_steps dest!: bind_io_ends then_io_ends dest: l print_raises
          split: if_splits)
  from run show ?thesis
    unfolding whole
    by (auto simp: on_system_steps dest!: bind_io_ends then_io_ends dest: n print_raises
          split: if_splits)
qed

lemma launch_workspace_returns:
  assumes ne: "ws_apps ws \<noteq> []"
      and run: "launch_workspace sys ws dry_run sequential (self, w) = (Inr ok, st)"
  shows "\<exists>new. fst st = self\<lparr>launch_results := new\<rparr>
           \<and> ok = (\<forall>r\<in>set new. lr_success r)
           \<and> list_all2 (\<lambda>app r. if dry_run then r = dry_run_result app
                   else \<exists>w0. fst (launch_app sys (vd_manager self) app
                                    (ai_virtual_desktop app) True w0) = Inr r)
               (concat (map (\<lambda>k. filter (\<lambda>a. ai_virtual_desktop a = k) (ws_apps ws))
                          (sort (remdups (map ai_virtual_desktop (ws_apps ws))))))
               new"
proof -
  let ?grouped = "group_apps_by_desktop [] (ws_apps ws)"
  let ?L = "\<lambda>app r. if dry_run then r = dry_run_result app
              else \<exists>w0. fst (launch_app sys (vd_manager self) app
                               (ai_virtual_desktop app) True w0) = Inr r"
  define launching where "launching = (\<lambda>vd.
     then_io (with_block (on_system (Progress_enter (sys_console sys)))
                (launch_desktops sys vd dry_run sequential ?grouped
                   (sort (map fst ?grouped)))
                (on_system (Progress_exit (sys_console sys))))
    (then_io (show_launch_summary (sys_console sys))
    (bind_io get_launcher (\<lambda>self'.
       return_io (filter (\<lambda>r. \<not> lr_success r) (launch_results self') = [])))))"
  have whole: "launch_workspace sys ws dry_run sequential =
     then_io (on_system (console_print (sys_console sys) (LaunchingWorkspace (ws_name ws))))
    (then_io (if ws_description ws \<noteq> []
              then on_system (console_print (sys_console sys)
                                (WorkspaceDescription (ws_description ws)))
              else return_io ())
    (bind_io get_launcher (\<lambda>self.
          then_io (set_results [])
         (then_io (on_system (console_print (sys_console sys)
                                (EnsuringDesktops (get_required_desktops ws))))
         (then_io (if \<not> dry_run
                   then on_system
                          (bind_io (ensure_desktop_count (sys_pyvda sys) (sys_win32api sys)
                                      (sys_time sys) (vd_manager self)
                                      (get_required_desktops ws)) (\<lambda>ensured.
                           if \<not> ensured then console_print (sys_console sys) DesktopWarning
                           else return_io ()))
                   else return_io ())
         (then_io (on_system (console_print (sys_console sys)
                                (LaunchingApplications (length (ws_apps ws)))))
                  (launching (vd_manager self))))))))"
    using ne unfolding launch_workspace_def launching_def by simp
  from run obtain w1 where
    started: "launching (vd_manager self) (self\<lparr>launch_results := []\<rparr>, w1) = (Inr ok, st)"
    unfolding whole
    by (auto simp: on_system_steps dest!: bind_io_ends then_io_ends split: if_splits)
  from started obtain u w2 st3 where
    desktops: "launch_desktops sys (vd_manager self) dry_run sequential ?grouped
        (sort (map fst ?grouped)) (self\<lparr>launch_results := []\<rparr>, w2) = (Inr u, st3)"
    and same: "fst st = fst st3"
    and ok: "ok = (filter (\<lambda>r. \<not> lr_success r) (launch_results (fst st)) = [])"
    unfolding launching_def
    by (auto dest!: bind_io_ends then_io_ends with_block_ends show_launch_summary_returns)
  have groups: "ai_virtual_desktop a = k"
    if "a \<in> set (case map_of ?grouped k of None \<Rightarrow> [] | Some as \<Rightarrow> as)" for k a
    using that unfolding launch_lookup by simp
  from launch_desktops_returns [OF desktops groups] obtain new where
    new: "fst st3 = self\<lparr>launch_results := []\<rparr>\<lparr>launch_results :=
            launch_results (self\<lparr>launch_results := []\<rparr>) @ new\<rparr>"
      "list_all2 ?L
         (concat (map (\<lambda>k. case map_of ?grouped k of None \<Rightarrow> [] | Some as \<Rightarrow> as)
                    (sort (map fst ?grouped)))) new"
    by blast
  have "fst st = self\<lparr>launch_results := new\<rparr>"
    using same new(1) by simp
  moreover from this ok have "ok = (\<forall>r\<in>set new. lr_success r)"
    by (simp add: filter_empty_conv)
  moreover note new(2) [unfolded launch_order]
  ultimately show ?thesis by blast
qed

lemma retry_apps_raises:
  "retry_apps sys vd acc apps (self, w) = (Inl e, st) \<Longrightarrow> console_raises (sys_console sys) e"
proof (induction apps arbitrary: acc self w)
  case Nil
  then show ?case by simp
next
  case (Cons app apps)
  from Cons.prems Cons.IH show ?case
    by (auto simp: launch_app_never_raises
          dest!: bind_io_ends then_io_ends intro: console_call_raises
          split: if_splits)
qed

lemma retry_apps_returns:
  "retry_apps sys vd acc apps (self, w) = (Inr ok, st)
     \<Longrightarrow> \<exists>new. fst st = self\<lparr>launch_results := launch_results self @ new\<rparr>
           \<and> ok = (acc \<and> (\<forall>r\<in>set new. lr_success r))
           \<and> list_all2 (\<lambda>app r. \<exists>w0. fst (launch_app sys vd app (ai_virtual_desktop app)
                                               False w0) = Inr r)
               apps new"
proof (induction apps arbitrary: acc self w)
  case Nil
  then show ?case by auto
next
  case (Cons app apps)
  let ?L = "\<lambda>app r. \<exists>w0. fst (launch_app sys vd app (ai_virtual_desktop app) False w0) = Inr r"
  from Cons.prems obtain r w1 where
    r: "?L app r" and
    rest: "retry_apps sys vd (acc \<and> lr_success r) apps
             (self\<lparr>launch_results := launch_results self @ [r]\<rparr>, w1) = (Inr ok, st)"
    by (auto dest!: bind_io_ends then_io_ends) blast+
  from Cons.IH [OF rest] obtain new where
    new: "fst st = self\<lparr>launch_results := launch_results self @ [r] @ new\<rparr>"
      "ok = ((acc \<and> lr_success r) \<and> (\<forall>r\<in>set new. lr_success r))"
      "list_all2 ?L apps new"
    by auto
  show ?case
    using r new by (intro exI [of _ "r # new"]) auto
qed

lemma retry_failed_apps_raises:
  "retry_failed_apps sys ws (self, w) = (Inl e, st) \<Longrightarrow> console_raises (sys_console sys) e"
  by (auto simp: retry_failed_apps_def Let_def
        dest!: bind_io_ends then_io_ends split: if_splits)
     (erule print_raises retry_apps_raises)+

lemma retry_failed_apps_returns:
  assumes "retry_failed_apps sys ws (self, w) = (Inr ok, st)"
  shows "\<exists>new. fst st = self\<lparr>launch_results :=
              filter (\<lambda>r. lr_app_id r \<notin> set (get_failed_apps self)) (launch_results self) @ new\<rparr>
           \<and> ok = (\<forall>r\<in>set new. lr_success r)
           \<and> list_all2 (\<lambda>app r. \<exists>w0. fst (launch_app sys (vd_manager self) app
                                    (ai_virtual_desktop app) False w0) = Inr r)
               (filter (\<lambda>a. ai_id a \<in> set (get_failed_apps self)) (ws_apps ws)) new"
proof (cases "get_failed_apps self = []")
  case True
  have "filter (\<lambda>r. lr_app_id r \<notin> set (get_failed_apps self)) (launch_results self)
      = launch_results self"
    using True by simp
  with True assms show ?thesis
    by (intro exI [of _ "[]"])
       (auto simp: retry_failed_apps_def Let_def dest!: bind_io_ends then_io_ends)
next
  case False
  let ?kept = "filter (\<lambda>r. lr_app_id r \<notin> set (get_failed_apps self)) (launch_results self)"
  from False assms obtain w1 where
    "retry_apps sys (vd_manager self) True
       (filter (\<lambda>a. ai_id a \<in> set (get_failed_apps self)) (ws_apps ws))
       (self\<lparr>launch_results := ?kept\<rparr>, w1) = (Inr ok, st)"
    by (auto simp: retry_failed_apps_def Let_def dest!: bind_io_ends then_io_ends)
  from retry_apps_returns [OF this] show ?thesis
    by auto
qed

lemma failed_ids_distinct:
  assumes "distinct (map lr_app_id rs)"
  shows "filter (\<lambda>r. lr_app_id r \<notin> lr_app_id ` {r \<in> set rs. \<not> lr_success r}) rs = filter lr_success rs"
proof (rule filter_cong [OF refl])
  fix r assume r: "r \<in> set rs"
  have inj: "inj_on lr_app_id (set rs)"
    using assms by (simp add: distinct_map)
  show "(lr_app_id r \<notin> lr_app_id ` {r \<in> set rs. \<not> lr_success r}) = lr_success r"
  proof
    assume "lr_app_id r \<notin> lr_app_id ` {r \<in> set rs. \<not> lr_success r}"
    with r show "lr_success r" by auto
  next
    assume s: "lr_success r"
    show "lr_app_id r \<notin> lr_app_id ` {r \<in> set rs. \<not> lr_success r}"
    proof
      assume "lr_app_id r \<in> lr_app_id ` {r \<in> set rs. \<not> lr_success r}"
      then obtain r' where r': "r' \<in> set rs" "\<not> lr_success r'" "lr_app_id r = lr_app_id r'"
        by auto
      with inj r have "r = r'" by (auto dest: inj_onD)
      with s r' show False by simp
    qed
  qed
qed

lemma retry_ids_mset:
  assumes "mset (map lr_app_id rs) = mset (map ai_id apps)"
      and "map lr_app_id new = map ai_id (filter (\<lambda>a. ai_id a \<in> F) apps)"
    shows "mset (map lr_app_id (filter (\<lambda>r. lr_app_id r \<notin> F) rs @ new)) = mset (map ai_id apps)"
proof -
  have "mset (map lr_app_id (filter (\<lambda>r. lr_app_id r \<notin> F) rs)) =
      filter_mset (\<lambda>i. i \<notin> F) (mset (map lr_app_id rs))"
    by (induction rs) simp_all
  moreover have "mset (map ai_id (filter (\<lambda>a. ai_id a \<in> F) apps)) =
      filter_mset (\<lambda>i. i \<in> F) (mset (map ai_id apps))"
    by (induction apps) simp_all
  ultimately show ?thesis
    using assms by (simp del: mset_map add: union_commute)
qed


lemma get_failed_apps_set:
  "set (get_failed_apps self) = lr_app_id ` {r \<in> set (launch_results self). \<not> lr_success r}"
  by (auto simp: get_failed_apps_def)

lemma launched_ids:
  "list_all2 (\<lambda>app r. lr_app_id r = ai_id app \<and> Q app r)
       (apps :: AppInstance list) (rs :: LaunchResult list)
     \<Longrightarrow> map lr_app_id rs = map ai_id apps"
  by (induction rule: list_all2_induct) simp_all

lemma launch_app_result:
  assumes "fst (launch_app sys vd app d skip w) = Inr r"
  shows "lr_app_id r = ai_id app
       \<and> lr_success r = (\<not> raises (launch_app_body sys vd app d skip) w)"
  using launch_app_returns [of sys vd app d skip w] assms by auto

lemma launch_order_apps:
  "mset (concat (map (\<lambda>k. filter (\<lambda>a. ai_virtual_desktop a = k) apps)
                   (sort (remdups (map ai_virtual_desktop apps)))))
     = mset (apps :: AppInstance list)"
  using launch_order_mset [of apps] unfolding launch_order .

text \<open>
  C2. If in a launch of one application the process is created (process id
  \<open>p\<close>) and the search for its window ends without one, \<^verbatim>\<open>_launch_app\<close> returns
  the result with \<^verbatim>\<open>success = True\<close>, the process id, no window handle and the
  note that no window was detected, in the state the search left: no call
  that moves or sizes a window follows. \<^verbatim>\<open>_launch_app\<close> always returns a result
  for its app, and the result has \<^verbatim>\<open>success = False\<close> exactly when an exception
  escaped the launch sequence. When \<^verbatim>\<open>launch_workspace\<close> returns on a workspace
  without apps it returns \<^verbatim>\<open>True\<close> and the launcher is as it was. When it
  returns on a workspace with apps, the value returned is whether no entry of
  the results has \<^verbatim>\<open>success = False\<close>, and the results are, desktop by desktop
  in ascending order and in workspace order within a desktop, one entry per
  app of the workspace: in a dry run the dry-run entry of the app, otherwise
  what \<^verbatim>\<open>_launch_app\<close> returned for the app and its desktop in the state in
  which it was called, so an entry has \<^verbatim>\<open>success = False\<close> only if the launch
  sequence of its app raised there. \<^verbatim>\<open>launch_workspace\<close> itself raises only an
  exception that a call of the console raised or, outside a dry run, that
  \<^verbatim>\<open>ensure_desktop_count\<close> raised: no exception of a launch escapes it.
\<close>

theorem C2_launch_success:
  "(prepare_launch sys vd app d skip w = (Inr (p, before, is_wt), w1)
      \<and> find_launched_window sys p before (if is_wt then 3000 else 2000) None
           (if is_wt then [0, 1, 2, 3, 4] else [0, 1, 2]) w1 = (Inr found, w2)
      \<and> \<not> found_window found
    \<longrightarrow> launch_app sys vd app d skip w =
          (Inr \<lparr>lr_app_id = ai_id app, lr_success = True, lr_pid = Some p, lr_hwnd = None,
                lr_error = Some window_not_detected\<rparr>, w2))
   \<and> (\<exists>r w'. launch_app sys vd app d skip w = (Inr r, w') \<and> lr_app_id r = ai_id app
         \<and> lr_success r = (\<not> raises (launch_app_body sys vd app d skip) w))
   \<and> (ws_apps ws = []
      \<and> launch_workspace sys ws dry_run sequential (self, w) = (Inr ok, (self', w'))
    \<longrightarrow> ok \<and> self' = self)
   \<and> (ws_apps ws \<noteq> []
      \<and> launch_workspace sys ws dry_run sequential (self, w) = (Inr ok, (self', w'))
    \<longrightarrow> ok = (\<forall>r\<in>set (launch_results self'). lr_success r)
        \<and> vd_manager self' = vd_manager self
        \<and> list_all2
             (\<lambda>app r. lr_app_id r = ai_id app
                \<and> (if dry_run then r = dry_run_result app
                    else \<exists>w0. fst (launch_app sys (vd_manager self) app
                                     (ai_virtual_desktop app) True w0) = Inr r
                           \<and> lr_success r =
                               (\<not> raises (launch_app_body sys (vd_manager self) app
                                             (ai_virtual_desktop app) True) w0)))
             (concat (map (\<lambda>k. filter (\<lambda>a. ai_virtual_desktop a = k) (ws_apps ws))
                        (sort (remdups (map ai_virtual_desktop (ws_apps ws))))))
             (launch_results self')
        \<and> mset (map lr_app_id (launch_results self')) = mset (map ai_id (ws_apps ws)))
   \<and> (launch_workspace sys ws dry_run sequential (self, w) = (Inl e, (self', w'))
    \<longrightarrow> console_raises (sys_console sys) e
        \<or> (\<not> dry_run
            \<and> (\<exists>w0. fst (ensure_desktop_count (sys_pyvda sys) (sys_win32api sys) (sys_time sys)
                            (vd_manager self) (get_required_desktops ws) w0) = Inl e)))"
proof (intro conjI impI)
  assume "prepare_launch sys vd app d skip w = (Inr (p, before, is_wt), w1)
      \<and> find_launched_window sys p before (if is_wt then 3000 else 2000) None
           (if is_wt then [0, 1, 2, 3, 4] else [0, 1, 2]) w1 = (Inr found, w2)
      \<and> \<not> found_window found"
  then show "launch_app sys vd app d skip w =
          (Inr \<lparr>lr_app_id = ai_id app, lr_success = True, lr_pid = Some p, lr_hwnd = None,
                lr_error = Some window_not_detected\<rparr>, w2)"
    using launch_app_no_window [of sys vd app d skip w p before is_wt w1 found w2] by blast
next
  show "\<exists>r w'. launch_app sys vd app d skip w = (Inr r, w') \<and> lr_app_id r = ai_id app
         \<and> lr_success r = (\<not> raises (launch_app_body sys vd app d skip) w)"
    by (rule launch_app_returns)
next
  assume h: "ws_apps ws = []
      \<and> launch_workspace sys ws dry_run sequential (self, w) = (Inr ok, (self', w'))"
  from launch_workspace_empty [of ws sys dry_run sequential self w ok "(self', w')"] h
  show ok and "self' = self" by simp_all
next
  assume h: "ws_apps ws \<noteq> []
      \<and> launch_workspace sys ws dry_run sequential (self, w) = (Inr ok, (self', w'))"
  let ?order = "concat (map (\<lambda>k. filter (\<lambda>a. ai_virtual_desktop a = k) (ws_apps ws))
                        (sort (remdups (map ai_virtual_desktop (ws_apps ws)))))"
  let ?L = "\<lambda>app r. lr_app_id r = ai_id app
                \<and> (if dry_run then r = dry_run_result app
                    else \<exists>w0. fst (launch_app sys (vd_manager self) app
                                     (ai_virtual_desktop app) True w0) = Inr r
                           \<and> lr_success r =
                               (\<not> raises (launch_app_body sys (vd_manager self) app
                                             (ai_virtual_desktop app) True) w0))"
  from launch_workspace_returns [of ws sys dry_run sequential self w ok "(self', w')"] h
  obtain new where new: "self' = self\<lparr>launch_results := new\<rparr>"
    "ok = (\<forall>r\<in>set new. lr_success r)"
    "list_all2 (\<lambda>app r. if dry_run then r = dry_run_result app
                   else \<exists>w0. fst (launch_app sys (vd_manager self) app
                                    (ai_virtual_desktop app) True w0) = Inr r) ?order new"
    by auto
  have tied: "list_all2 ?L ?order new"
    using new(3)
  proof (rule list.rel_mono_strong)
    fix a r
    assume "if dry_run then r = dry_run_result a
            else \<exists>w0. fst (launch_app sys (vd_manager self) a (ai_virtual_desktop a) True w0)
                        = Inr r"
    then show "?L a r"
      by (cases dry_run) (auto simp: dry_run_result_def dest: launch_app_result)
  qed
  from new(2) new(1) show "ok = (\<forall>r\<in>set (launch_results self'). lr_success r)" by simp
  from new(1) show "vd_manager self' = vd_manager self" by simp
  from tied new(1) show "list_all2 ?L ?order (launch_results self')" by simp
  from launched_ids [OF tied] new(1) launch_order_apps [of "ws_apps ws"]
  show "mset (map lr_app_id (launch_results self')) = mset (map ai_id (ws_apps ws))"
    by (metis WorkspaceLauncher.select_convs(2) WorkspaceLauncher.surjective
        WorkspaceLauncher.update_convs(2) mset_map)
next
  assume "launch_workspace sys ws dry_run sequential (self, w) = (Inl e, (self', w'))"
  from launch_workspace_raises [OF this]
  show "console_raises (sys_console sys) e
        \<or> (\<not> dry_run
            \<and> (\<exists>w0. fst (ensure_desktop_count (sys_pyvda sys) (sys_win32api sys) (sys_time sys)
                            (vd_manager self) (get_required_desktops ws) w0) = Inl e))"
    by blast
qed

theorem C2_launch_success_witness:
  "prepare_launch sample_system (VirtualDesktopManager_init False)
       (sample_app ''a'' ''notepad.exe'') 0 True () = (Inr (4321, [], False), ())
   \<and> find_launched_window sample_system 4321 [] (if False then 3000 else 2000) None
       (if False then [0, 1, 2, 3, 4] else [0, 1, 2]) () = (Inr None, ())
   \<and> \<not> found_window None
   \<and> launch_app sample_system (VirtualDesktopManager_init False)
       (sample_app ''a'' ''notepad.exe'') 0 True () =
       (Inr \<lparr>lr_app_id = ai_id (sample_app ''a'' ''notepad.exe''), lr_success = True,
             lr_pid = Some 4321, lr_hwnd = None, lr_error = Some window_not_detected\<rparr>, ())
   \<and> ws_apps sample_workspace \<noteq> []
   \<and> launch_workspace no_such_file_system sample_workspace False False
       (\<lparr>vd_manager = VirtualDesktopManager_init False, launch_results = []\<rparr>, ()) =
       (Inr False,
        (\<lparr>vd_manager = VirtualDesktopManager_init False,
          launch_results =
            [\<lparr>lr_app_id = ''b'', lr_success = False, lr_pid = None, lr_hwnd = None,
              lr_error = Some ''Executable not found: ''\<rparr>,
             \<lparr>lr_app_id = ''a'', lr_success = False, lr_pid = None, lr_hwnd = None,
              lr_error = Some ''Executable not found: ''\<rparr>]\<rparr>, ()))
   \<and> list_all2
       (\<lambda>app r. lr_app_id r = ai_id app
          \<and> (\<exists>w0. fst (launch_app no_such_file_system (VirtualDesktopManager_init False) app
                          (ai_virtual_desktop app) True w0) = Inr r
                \<and> lr_success r =
                    (\<not> raises (launch_app_body no_such_file_system
                                  (VirtualDesktopManager_init False) app
                                  (ai_virtual_desktop app) True) w0)))
       [sample_app ''b'' ''calc.exe'',
        (sample_app ''a'' ''notepad.exe'')\<lparr>ai_virtual_desktop := 1\<rparr>]
       [\<lparr>lr_app_id = ''b'', lr_success = False, lr_pid = None, lr_hwnd = None,
         lr_error = Some ''Executable not found: ''\<rparr>,
        \<lparr>lr_app_id = ''a'', lr_success = False, lr_pid = None, lr_hwnd = None,
         lr_error = Some ''Executable not found: ''\<rparr>]
   \<and> ws_apps \<lparr>ws_name = ''empty'', ws_description = [], ws_apps = []\<rparr> = []
   \<and> launch_workspace sample_system
       \<lparr>ws_name = ''empty'', ws_description = [], ws_apps = []\<rparr> False False
       (\<lparr>vd_manager = VirtualDesktopManager_init False,
         launch_results = [\<lparr>lr_app_id = ''z'', lr_success = False, lr_pid = None,
                            lr_hwnd = None, lr_error = Some []\<rparr>]\<rparr>, ()) =
       (Inr True,
        (\<lparr>vd_manager = VirtualDesktopManager_init False,
          launch_results = [\<lparr>lr_app_id = ''z'', lr_success = False, lr_pid = None,
                             lr_hwnd = None, lr_error = Some []\<rparr>]\<rparr>, ()))
   \<and> launch_workspace markup_system
       \<lparr>ws_name = ''a[/b]'', ws_description = [], ws_apps = []\<rparr> True False
       (\<lparr>vd_manager = VirtualDesktopManager_init False, launch_results = []\<rparr>, ()) =
       (Inl MarkupError,
        (\<lparr>vd_manager = VirtualDesktopManager_init False, launch_results = []\<rparr>, ()))
   \<and> console_raises (sys_console markup_system) MarkupError"
proof -
  let ?vd = "VirtualDesktopManager_init False"
  let ?start = "\<lparr>vd_manager = ?vd, launch_results = []\<rparr>"
  let ?failed = "[\<lparr>lr_app_id = ''b'', lr_success = False, lr_pid = None, lr_hwnd = None,
              lr_error = Some ''Executable not found: ''\<rparr>,
             \<lparr>lr_app_id = ''a'', lr_success = False, lr_pid = None, lr_hwnd = None,
              lr_error = Some ''Executable not found: ''\<rparr>]"
  let ?empty = "\<lparr>ws_name = ''empty'', ws_description = [], ws_apps = []\<rparr>"
  let ?stale = "\<lparr>vd_manager = ?vd,
         launch_results = [\<lparr>lr_app_id = ''z'', lr_success = False, lr_pid = None,
                            lr_hwnd = None, lr_error = Some []\<rparr>]\<rparr>"
  let ?broken = "\<lparr>ws_name = ''a[/b]'', ws_description = [], ws_apps = []\<rparr>"
  have h1: "prepare_launch sample_system ?vd (sample_app ''a'' ''notepad.exe'') 0 True ()
      = (Inr (4321, [], False), ())"
    by code_simp
  have h2: "find_launched_window sample_system 4321 [] (if False then 3000 else 2000) None
       (if False then [0, 1, 2, 3, 4] else [0, 1, 2]) () = (Inr None, ())"
    by code_simp
  have h3: "\<not> found_window None"
    by (simp add: found_window_def)
  note launched = C2_launch_success
    [THEN conjunct1, THEN mp, OF conjI [OF h1 conjI [OF h2 h3]]]
  have h4: "ws_apps sample_workspace \<noteq> []"
    by (simp add: sample_workspace_def)
  have h5: "launch_workspace no_such_file_system sample_workspace False False (?start, ())
      = (Inr False, (\<lparr>vd_manager = ?vd, launch_results = ?failed\<rparr>, ()))"
    by code_simp
  have order: "concat (map (\<lambda>k. filter (\<lambda>a. ai_virtual_desktop a = k) (ws_apps sample_workspace))
                        (sort (remdups (map ai_virtual_desktop (ws_apps sample_workspace))))) =
      [sample_app ''b'' ''calc.exe'',
       (sample_app ''a'' ''notepad.exe'')\<lparr>ai_virtual_desktop := 1\<rparr>]"
    by code_simp
  note results = C2_launch_success
    [THEN conjunct2, THEN conjunct2, THEN conjunct2, THEN conjunct1, THEN mp,
     OF conjI [OF h4 h5], THEN conjunct2, THEN conjunct2, THEN conjunct1]
  have tied: "list_all2
       (\<lambda>app r. lr_app_id r = ai_id app
          \<and> (\<exists>w0. fst (launch_app no_such_file_system ?vd app
                          (ai_virtual_desktop app) True w0) = Inr r
                \<and> lr_success r =
                    (\<not> raises (launch_app_body no_such_file_system ?vd app
                                  (ai_virtual_desktop app) True) w0)))
       [sample_app ''b'' ''calc.exe'',
        (sample_app ''a'' ''notepad.exe'')\<lparr>ai_virtual_desktop := 1\<rparr>] ?failed"
    using results unfolding order by simp
  have h6: "ws_apps ?empty = []"
    by simp
  have h7: "launch_workspace sample_system ?empty False False (?stale, ())
      = (Inr True, (?stale, ()))"
    by code_simp
  have h8: "launch_workspace markup_system ?broken True False (?start, ())
      = (Inl MarkupError, (?start, ()))"
    by code_simp
  from C2_launch_success
    [THEN conjunct2, THEN conjunct2, THEN conjunct2, THEN conjunct2, THEN mp, OF h8]
  have raised: "console_raises (sys_console markup_system) MarkupError"
    by simp
  from h1 h2 h3 launched h4 h5 tied h6 h7 h8 raised show ?thesis
    by (intro conjI)
qed

text \<open>
  C8 (as the code has it). Let the app ids of the workspace be distinct and
  let the prior results hold exactly one entry per app id of the workspace,
  as a launch of that workspace leaves them. Whenever the retry pass returns,
  it has called \<^verbatim>\<open>_launch_app\<close> anew, in workspace order and each on its own
  desktop, for exactly the apps whose entry has \<^verbatim>\<open>success = False\<close>: the
  entries with \<^verbatim>\<open>success = True\<close> stay as they were and in order, the entries
  of the retried apps are removed, and for each retried app what
  \<^verbatim>\<open>_launch_app\<close> returned for it is appended; the value returned is whether
  every fresh entry succeeded; and afterwards the results again hold exactly
  one entry per app id of the workspace. The retry pass raises only an
  exception that a call of the console raised.
\<close>

theorem C8_retry_failed_apps:
  assumes ids: "distinct (map ai_id (ws_apps ws))"
      and one_each: "mset (map lr_app_id (launch_results self)) = mset (map ai_id (ws_apps ws))"
    shows "(retry_failed_apps sys ws (self, w) = (Inr ok, (self', w'))
        \<longrightarrow> (\<exists>fresh.
               self' = self\<lparr>launch_results := filter lr_success (launch_results self) @ fresh\<rparr>
             \<and> ok = (\<forall>r\<in>set fresh. lr_success r)
             \<and> list_all2
                  (\<lambda>app r. lr_app_id r = ai_id app
                     \<and> (\<exists>w0. fst (launch_app sys (vd_manager self) app
                                     (ai_virtual_desktop app) False w0) = Inr r
                           \<and> lr_success r =
                               (\<not> raises (launch_app_body sys (vd_manager self) app
                                             (ai_virtual_desktop app) False) w0)))
                  (filter (\<lambda>app. \<exists>r\<in>set (launch_results self).
                                     lr_app_id r = ai_id app \<and> \<not> lr_success r)
                     (ws_apps ws))
                  fresh)
          \<and> mset (map lr_app_id (launch_results self')) = mset (map ai_id (ws_apps ws))
          \<and> distinct (map lr_app_id (launch_results self')))
      \<and> (retry_failed_apps sys ws (self, w) = (Inl e, (self', w'))
        \<longrightarrow> console_raises (sys_console sys) e)"
proof (intro conjI impI)
  assume run: "retry_failed_apps sys ws (self, w) = (Inr ok, (self', w'))"
  let ?F = "set (get_failed_apps self)"
  let ?L = "\<lambda>app r. lr_app_id r = ai_id app
                     \<and> (\<exists>w0. fst (launch_app sys (vd_manager self) app
                                     (ai_virtual_desktop app) False w0) = Inr r
                           \<and> lr_success r =
                               (\<not> raises (launch_app_body sys (vd_manager self) app
                                             (ai_virtual_desktop app) False) w0))"
  from retry_failed_apps_returns [OF run] obtain fresh where f:
    "self' = self\<lparr>launch_results :=
        filter (\<lambda>r. lr_app_id r \<notin> ?F) (launch_results self) @ fresh\<rparr>"
    "ok = (\<forall>r\<in>set fresh. lr_success r)"
    "list_all2 (\<lambda>app r. \<exists>w0. fst (launch_app sys (vd_manager self) app
                                    (ai_virtual_desktop app) False w0) = Inr r)
       (filter (\<lambda>a. ai_id a \<in> ?F) (ws_apps ws)) fresh"
    by auto
  have d: "distinct (map lr_app_id (launch_results self))"
    using ids one_each by (metis mset_eq_imp_distinct_iff)
  have kept: "filter (\<lambda>r. lr_app_id r \<notin> ?F) (launch_results self) =
      filter lr_success (launch_results self)"
    unfolding get_failed_apps_set by (rule failed_ids_distinct [OF d])
  have failed: "(\<lambda>a. ai_id a \<in> ?F) =
      (\<lambda>app. \<exists>r\<in>set (launch_results self). lr_app_id r = ai_id app \<and> \<not> lr_success r)"
    unfolding get_failed_apps_set by (rule ext) force
  have tied: "list_all2 ?L (filter (\<lambda>a. ai_id a \<in> ?F) (ws_apps ws)) fresh"
    using f(3) by (rule list.rel_mono_strong) (auto dest: launch_app_result)
  have m: "mset (map lr_app_id (filter lr_success (launch_results self) @ fresh)) =
      mset (map ai_id (ws_apps ws))"
    using retry_ids_mset [OF one_each launched_ids [OF tied]] unfolding kept .
  have dd: "distinct (map lr_app_id (filter lr_success (launch_results self) @ fresh))"
    using ids m by (metis mset_eq_imp_distinct_iff)
  have new_results: "launch_results self' = filter lr_success (launch_results self) @ fresh"
    using f(1) unfolding kept by simp
  show "\<exists>fresh.
               self' = self\<lparr>launch_results := filter lr_success (launch_results self) @ fresh\<rparr>
             \<and> ok = (\<forall>r\<in>set fresh. lr_success r)
             \<and> list_all2 ?L
                  (filter (\<lambda>app. \<exists>r\<in>set (launch_results self).
                                     lr_app_id r = ai_id app \<and> \<not> lr_success r)
                     (ws_apps ws))
                  fresh"
    using f(1) f(2) tied unfolding kept failed by blast
  show "mset (map lr_app_id (launch_results self')) = mset (map ai_id (ws_apps ws))"
    unfolding new_results by (rule m)
  show "distinct (map lr_app_id (launch_results self'))"
    unfolding new_results by (rule dd)
next
  assume "retry_failed_apps sys ws (self, w) = (Inl e, (self', w'))"
  then show "console_raises (sys_console sys) e"
    by (rule retry_failed_apps_raises)
qed

theorem C8_retry_failed_apps_witness:
  "distinct (map ai_id (ws_apps
     \<lparr>ws_name = ''dev'', ws_description = [],
      ws_apps = [sample_app ''a'' ''a.exe'', sample_app ''b'' ''b.exe'', sample_app ''c'' ''c.exe'']\<rparr>))
   \<and> retry_failed_apps sample_system
        \<lparr>ws_name = ''dev'', ws_description = [],
         ws_apps = [sample_app ''a'' ''a.exe'', sample_app ''b'' ''b.exe'', sample_app ''c'' ''c.exe'']\<rparr>
        (\<lparr>vd_manager = VirtualDesktopManager_init False,
          launch_results =
            [\<lparr>lr_app_id = ''a'', lr_success = False, lr_pid = None, lr_hwnd = None, lr_error = Some []\<rparr>,
             \<lparr>lr_app_id = ''b'', lr_success = False, lr_pid = None, lr_hwnd = None, lr_error = Some []\<rparr>,
             \<lparr>lr_app_id = ''c'', lr_success = True, lr_pid = Some 7, lr_hwnd = Some 9, lr_error = None\<rparr>]\<rparr>,
         ()) =
        (Inr True,
         (\<lparr>vd_manager = VirtualDesktopManager_init False,
           launch_results =
             [\<lparr>lr_app_id = ''c'', lr_success = True, lr_pid = Some 7, lr_hwnd = Some 9, lr_error = None\<rparr>,
              \<lparr>lr_app_id = ''a'', lr_success = True, lr_pid = Some 4321, lr_hwnd = None,
               lr_error = Some window_not_detected\<rparr>,
              \<lparr>lr_app_id = ''b'', lr_success = True, lr_pid = Some 4321, lr_hwnd = None,
               lr_error = Some window_not_detected\<rparr>]\<rparr>, ()))
   \<and> list_all2
        (\<lambda>app r. lr_app_id r = ai_id app
           \<and> (\<exists>w0. fst (launch_app sample_system (VirtualDesktopManager_init False) app
                           (ai_virtual_desktop app) False w0) = Inr r
                 \<and> lr_success r =
                     (\<not> raises (launch_app_body sample_system (VirtualDesktopManager_init False)
                                   app (ai_virtual_desktop app) False) w0)))
        [sample_app ''a'' ''a.exe'', sample_app ''b'' ''b.exe'']
        [\<lparr>lr_app_id = ''a'', lr_success = True, lr_pid = Some 4321, lr_hwnd = None,
          lr_error = Some window_not_detected\<rparr>,
         \<lparr>lr_app_id = ''b'', lr_success = True, lr_pid = Some 4321, lr_hwnd = None,
          lr_error = Some window_not_detected\<rparr>]
   \<and> distinct (map ai_id (ws_apps
        \<lparr>ws_name = ''dev'', ws_description = [], ws_apps = [sample_app ''x[/y]'' ''x.exe'']\<rparr>))
   \<and> retry_failed_apps markup_system
        \<lparr>ws_name = ''dev'', ws_description = [], ws_apps = [sample_app ''x[/y]'' ''x.exe'']\<rparr>
        (\<lparr>vd_manager = VirtualDesktopManager_init False,
          launch_results =
            [\<lparr>lr_app_id = ''x[/y]'', lr_success = False, lr_pid = None, lr_hwnd = None,
              lr_error = Some []\<rparr>]\<rparr>, ()) =
        (Inl MarkupError,
         (\<lparr>vd_manager = VirtualDesktopManager_init False, launch_results = []\<rparr>, ()))
   \<and> console_raises (sys_console markup_system) MarkupError"
proof -
  let ?vd = "VirtualDesktopManager_init False"
  let ?ws = "\<lparr>ws_name = ''dev'', ws_description = [],
      ws_apps = [sample_app ''a'' ''a.exe'', sample_app ''b'' ''b.exe'', sample_app ''c'' ''c.exe'']\<rparr>"
  let ?c = "\<lparr>lr_app_id = ''c'', lr_success = True, lr_pid = Some 7, lr_hwnd = Some 9,
      lr_error = None\<rparr>"
  let ?self = "\<lparr>vd_manager = ?vd,
      launch_results =
        [\<lparr>lr_app_id = ''a'', lr_success = False, lr_pid = None, lr_hwnd = None, lr_error = Some []\<rparr>,
         \<lparr>lr_app_id = ''b'', lr_success = False, lr_pid = None, lr_hwnd = None, lr_error = Some []\<rparr>,
         ?c]\<rparr>"
  let ?fresh = "[\<lparr>lr_app_id = ''a'', lr_success = True, lr_pid = Some 4321, lr_hwnd = None,
          lr_error = Some window_not_detected\<rparr>,
         \<lparr>lr_app_id = ''b'', lr_success = True, lr_pid = Some 4321, lr_hwnd = None,
          lr_error = Some window_not_detected\<rparr>]"
  let ?L = "\<lambda>app r. lr_app_id r = ai_id app
           \<and> (\<exists>w0. fst (launch_app sample_system ?vd app (ai_virtual_desktop app) False w0)
                       = Inr r
                 \<and> lr_success r =
                     (\<not> raises (launch_app_body sample_system ?vd app
                                   (ai_virtual_desktop app) False) w0))"
  let ?ws2 = "\<lparr>ws_name = ''dev'', ws_description = [],
      ws_apps = [sample_app ''x[/y]'' ''x.exe'']\<rparr>"
  let ?self2 = "\<lparr>vd_manager = ?vd,
      launch_results =
        [\<lparr>lr_app_id = ''x[/y]'', lr_success = False, lr_pid = None, lr_hwnd = None,
          lr_error = Some []\<rparr>]\<rparr>"
  have h1: "distinct (map ai_id (ws_apps ?ws))"
    by (simp add: sample_app_def)
  have h2: "mset (map lr_app_id (launch_results ?self)) = mset (map ai_id (ws_apps ?ws))"
    by (simp add: sample_app_def)
  have h3: "retry_failed_apps sample_system ?ws (?self, ()) =
      (Inr True, (\<lparr>vd_manager = ?vd, launch_results = ?c # ?fresh\<rparr>, ()))"
    by code_simp
  from C8_retry_failed_apps [OF h1 h2, THEN conjunct1, THEN mp, OF h3]
  obtain fresh where fresh:
    "\<lparr>vd_manager = ?vd, launch_results = ?c # ?fresh\<rparr> =
       ?self\<lparr>launch_results := filter lr_success (launch_results ?self) @ fresh\<rparr>"
    "list_all2 ?L
       (filter (\<lambda>app. \<exists>r\<in>set (launch_results ?self).
                          lr_app_id r = ai_id app \<and> \<not> lr_success r) (ws_apps ?ws))
       fresh"
    by auto
  from fresh(1) have same: "fresh = ?fresh"
    by simp
  have retried: "filter (\<lambda>app. \<exists>r\<in>set (launch_results ?self).
                          lr_app_id r = ai_id app \<and> \<not> lr_success r) (ws_apps ?ws) =
      [sample_app ''a'' ''a.exe'', sample_app ''b'' ''b.exe'']"
    by (simp add: sample_app_def)
  have tied: "list_all2 ?L [sample_app ''a'' ''a.exe'', sample_app ''b'' ''b.exe''] ?fresh"
    using fresh(2) unfolding same retried .
  have g1: "distinct (map ai_id (ws_apps ?ws2))"
    by simp
  have g2: "mset (map lr_app_id (launch_results ?self2)) = mset (map ai_id (ws_apps ?ws2))"
    by (simp add: sample_app_def)
  have g3: "retry_failed_apps markup_system ?ws2 (?self2, ()) =
      (Inl MarkupError, (\<lparr>vd_manager = ?vd, launch_results = []\<rparr>, ()))"
    by code_simp
  note raised = C8_retry_failed_apps [OF g1 g2, THEN conjunct2, THEN mp, OF g3]
  from h1 h3 tied g1 g3 raised show ?thesis
    by (intro conjI)
qed

theorem C8_duplicate_ids_counterexample:
  "launch_results (fst (snd (retry_failed_apps no_such_file_system
      \<lparr>ws_name = ''dev'', ws_description = [],
       ws_apps = [sample_app ''a'' ''first.exe'', sample_app ''a'' ''second.exe'']\<rparr>
      (\<lparr>vd_manager = VirtualDesktopManager_init False,
        launch_results =
          [\<lparr>lr_app_id = ''a'', lr_success = True, lr_pid = Some 7, lr_hwnd = Some 9, lr_error = None\<rparr>,
           \<lparr>lr_app_id = ''a'', lr_success = False, lr_pid = None, lr_hwnd = None, lr_error = Some []\<rparr>]\<rparr>,
       ())))) =
     [\<lparr>lr_app_id = ''a'', lr_success = False, lr_pid = None, lr_hwnd = None,
       lr_error = Some ''Executable not found: ''\<rparr>,
      \<lparr>lr_app_id = ''a'', lr_success = False, lr_pid = None, lr_hwnd = None,
       lr_error = Some ''Executable not found: ''\<rparr>]"
  by code_simp

section \<open>Properties of the two layers: what raises\<close>























end
